theory Spec2Isabelle
  imports Main "HOL-Library.Word" "HOL-Library.Char_ord" "HOL-Library.List_Lexorder"
begin

section \<open>The generated comparison kernels\<close>

text \<open>
  The generated file holds 272 functions, each an instance of one of four loop shapes
  that differ only in the element type and in the native comparison operator:
  \<^verbatim>\<open>
  func eqDDBoolsI(a, b []int) (retVal []bool) {
      retVal = make([]bool, len(a))
      for i, v := range a {
          retVal[i] = v == b[i]
      }
      return retVal
  }
  func eqDDSameI(a, b []int) (retVal []int) {
      retVal = make([]int, len(a))
      for i, v := range a {
          if v == b[i] { retVal[i] = 1 } else { retVal[i] = 0 }
      }
      return retVal
  }
  \<close>
  and the two array-scalar shapes, which read \<open>b\<close> instead of \<open>b[i]\<close>. A slice is
  modelled by the list of its elements, a run-time panic by a value of type \<open>fault\<close>.
\<close>

datatype fault =
    IndexOutOfRange nat nat  \<comment> \<open>Go's "index out of range [i] with length n"\<close>
  | InterfaceConversion  \<comment> \<open>a failed type assertion \<open>x.(T)\<close>\<close>

definition index :: "'a list \<Rightarrow> nat \<Rightarrow> fault + 'a" where
  \<comment> \<open>the bounds-checked read \<open>xs[i]\<close>\<close>
  "index xs i = (if i < length xs then Inr (xs ! i) else Inl (IndexOutOfRange i (length xs)))"

definition assign :: "'a list \<Rightarrow> nat \<Rightarrow> 'a \<Rightarrow> fault + 'a list" where
  \<comment> \<open>the bounds-checked write \<open>xs[i] = v\<close>\<close>
  "assign xs i v = (if i < length xs then Inr (xs[i := v]) else Inl (IndexOutOfRange i (length xs)))"

definition go_make :: "'a \<Rightarrow> nat \<Rightarrow> 'a list" where
  \<comment> \<open>\<open>make([]T, n)\<close>: n elements, each the zero value of T\<close>
  "go_make z n = replicate n z"

text \<open>
  The body of \<open>for i, v := range a\<close>, with the elements of \<open>a\<close> still to visit, the
  index \<open>i\<close> of the first of them, and the current contents of \<open>retVal\<close>.
\<close>

fun rangeDDBools :: "('a \<Rightarrow> 'a \<Rightarrow> bool) \<Rightarrow> 'a list \<Rightarrow> 'a list \<Rightarrow> nat \<Rightarrow> bool list \<Rightarrow> fault + bool list" where
  "rangeDDBools opr [] b i retVal = Inr retVal"
| "rangeDDBools opr (v # rest) b i retVal =
     (case index b i of
        Inl e \<Rightarrow> Inl e
      | Inr bi \<Rightarrow>
          (case assign retVal i (opr v bi) of
             Inl e \<Rightarrow> Inl e
           | Inr retVal' \<Rightarrow> rangeDDBools opr rest b (Suc i) retVal'))"

fun rangeDDSame :: "('a \<Rightarrow> 'a \<Rightarrow> bool) \<Rightarrow> 'a list \<Rightarrow> 'a list \<Rightarrow> nat \<Rightarrow> ('a::{zero,one}) list \<Rightarrow> fault + 'a list" where
  "rangeDDSame opr [] b i retVal = Inr retVal"
| "rangeDDSame opr (v # rest) b i retVal =
     (case index b i of
        Inl e \<Rightarrow> Inl e
      | Inr bi \<Rightarrow>
          (case (if opr v bi then assign retVal i 1 else assign retVal i 0) of
             Inl e \<Rightarrow> Inl e
           | Inr retVal' \<Rightarrow> rangeDDSame opr rest b (Suc i) retVal'))"

fun rangeDSBools :: "('a \<Rightarrow> 'a \<Rightarrow> bool) \<Rightarrow> 'a list \<Rightarrow> 'a \<Rightarrow> nat \<Rightarrow> bool list \<Rightarrow> fault + bool list" where
  "rangeDSBools opr [] b i retVal = Inr retVal"
| "rangeDSBools opr (v # rest) b i retVal =
     (case assign retVal i (opr v b) of
        Inl e \<Rightarrow> Inl e
      | Inr retVal' \<Rightarrow> rangeDSBools opr rest b (Suc i) retVal')"

fun rangeDSSame :: "('a \<Rightarrow> 'a \<Rightarrow> bool) \<Rightarrow> 'a list \<Rightarrow> 'a \<Rightarrow> nat \<Rightarrow> ('a::{zero,one}) list \<Rightarrow> fault + 'a list" where
  "rangeDSSame opr [] b i retVal = Inr retVal"
| "rangeDSSame opr (v # rest) b i retVal =
     (case (if opr v b then assign retVal i 1 else assign retVal i 0) of
        Inl e \<Rightarrow> Inl e
      | Inr retVal' \<Rightarrow> rangeDSSame opr rest b (Suc i) retVal')"

text \<open>
  The four kernel shapes, for any element type and any native operator \<open>opr\<close>. The
  names are the specification's; the generated functions are their instances.
\<close>

definition compareArrayArray :: "('a \<Rightarrow> 'a \<Rightarrow> bool) \<Rightarrow> 'a list \<Rightarrow> 'a list \<Rightarrow> fault + bool list" where
  "compareArrayArray opr a b = rangeDDBools opr a b 0 (go_make False (length a))"

definition compareArrayArraySame :: "('a \<Rightarrow> 'a \<Rightarrow> bool) \<Rightarrow> 'a list \<Rightarrow> 'a list \<Rightarrow> fault + ('a::{zero,one}) list" where
  "compareArrayArraySame opr a b = rangeDDSame opr a b 0 (go_make 0 (length a))"

definition compareArrayScalar :: "('a \<Rightarrow> 'a \<Rightarrow> bool) \<Rightarrow> 'a list \<Rightarrow> 'a \<Rightarrow> fault + bool list" where
  "compareArrayScalar opr a b = rangeDSBools opr a b 0 (go_make False (length a))"

definition compareArrayScalarSame :: "('a \<Rightarrow> 'a \<Rightarrow> bool) \<Rightarrow> 'a list \<Rightarrow> 'a \<Rightarrow> fault + ('a::{zero,one}) list" where
  "compareArrayScalarSame opr a b = rangeDSSame opr a b 0 (go_make 0 (length a))"

subsection \<open>The native operators\<close>

datatype cmpOp = Eq | Gt | Gte | Lt | Lte

fun goOp :: "cmpOp \<Rightarrow> ('a::ord) \<Rightarrow> 'a \<Rightarrow> bool" where
  \<comment> \<open>Go's five comparison operators on a kind whose HOL order is Go's: unsigned
      integers (the order of \<open>'a word\<close>) and strings (bytewise lexicographic)\<close>
  "goOp Eq x y = (x = y)"
| "goOp Gt x y = (x > y)"
| "goOp Gte x y = (x \<ge> y)"
| "goOp Lt x y = (x < y)"
| "goOp Lte x y = (x \<le> y)"

definition goOpSigned :: "cmpOp \<Rightarrow> ('a::len) word \<Rightarrow> 'a word \<Rightarrow> bool" where
  \<comment> \<open>the same operators on a signed integer kind: two's complement values\<close>
  "goOpSigned c x y = goOp c (sint x) (sint y)"

type_synonym go_int = "64 word"  \<comment> \<open>\<open>int\<close> on a 64-bit platform\<close>
type_synonym i8 = "8 word"
type_synonym i16 = "16 word"
type_synonym i32 = "32 word"
type_synonym i64 = "64 word"
type_synonym go_uint = "64 word"  \<comment> \<open>\<open>uint\<close> on a 64-bit platform\<close>
type_synonym u8 = "8 word"
type_synonym u16 = "16 word"
type_synonym u32 = "32 word"
type_synonym u64 = "64 word"
type_synonym go_uintptr = "64 word"
type_synonym pointer = nat  \<comment> \<open>\<open>unsafe.Pointer\<close>: an address\<close>

subsection \<open>The generated functions\<close>

text \<open>
  The 272 functions of the generated file, in its order, each with the operator that
  its body applies: on a signed integer kind the operator on two's complement values,
  on an unsigned integer kind and on strings the operator of the HOL order (unsigned,
  and bytewise lexicographic), on the boolean and pointer kinds equality. The floating
  point and complex kinds are a type parameter: their kernels take the native
  operators of the kind (\<open>fop\<close>, by operator) or its native equality (\<open>ceq\<close>), which
  this theory does not define.
\<close>

definition eqDDBoolsB :: "bool list \<Rightarrow> bool list \<Rightarrow> fault + bool list" where
  "eqDDBoolsB a b = compareArrayArray (\<lambda>v w. v = w) a b"

definition eqDSBoolsB :: "bool list \<Rightarrow> bool \<Rightarrow> fault + bool list" where
  "eqDSBoolsB a b = compareArrayScalar (\<lambda>v w. v = w) a b"

definition eqDDBoolsI :: "go_int list \<Rightarrow> go_int list \<Rightarrow> fault + bool list" where
  "eqDDBoolsI a b = compareArrayArray (goOpSigned Eq) a b"

definition eqDDSameI :: "go_int list \<Rightarrow> go_int list \<Rightarrow> fault + go_int list" where
  "eqDDSameI a b = compareArrayArraySame (goOpSigned Eq) a b"

definition eqDSBoolsI :: "go_int list \<Rightarrow> go_int \<Rightarrow> fault + bool list" where
  "eqDSBoolsI a b = compareArrayScalar (goOpSigned Eq) a b"

definition eqDSSameI :: "go_int list \<Rightarrow> go_int \<Rightarrow> fault + go_int list" where
  "eqDSSameI a b = compareArrayScalarSame (goOpSigned Eq) a b"

definition eqDDBoolsI8 :: "i8 list \<Rightarrow> i8 list \<Rightarrow> fault + bool list" where
  "eqDDBoolsI8 a b = compareArrayArray (goOpSigned Eq) a b"

definition eqDDSameI8 :: "i8 list \<Rightarrow> i8 list \<Rightarrow> fault + i8 list" where
  "eqDDSameI8 a b = compareArrayArraySame (goOpSigned Eq) a b"

definition eqDSBoolsI8 :: "i8 list \<Rightarrow> i8 \<Rightarrow> fault + bool list" where
  "eqDSBoolsI8 a b = compareArrayScalar (goOpSigned Eq) a b"

definition eqDSSameI8 :: "i8 list \<Rightarrow> i8 \<Rightarrow> fault + i8 list" where
  "eqDSSameI8 a b = compareArrayScalarSame (goOpSigned Eq) a b"

definition eqDDBoolsI16 :: "i16 list \<Rightarrow> i16 list \<Rightarrow> fault + bool list" where
  "eqDDBoolsI16 a b = compareArrayArray (goOpSigned Eq) a b"

definition eqDDSameI16 :: "i16 list \<Rightarrow> i16 list \<Rightarrow> fault + i16 list" where
  "eqDDSameI16 a b = compareArrayArraySame (goOpSigned Eq) a b"

definition eqDSBoolsI16 :: "i16 list \<Rightarrow> i16 \<Rightarrow> fault + bool list" where
  "eqDSBoolsI16 a b = compareArrayScalar (goOpSigned Eq) a b"

definition eqDSSameI16 :: "i16 list \<Rightarrow> i16 \<Rightarrow> fault + i16 list" where
  "eqDSSameI16 a b = compareArrayScalarSame (goOpSigned Eq) a b"

definition eqDDBoolsI32 :: "i32 list \<Rightarrow> i32 list \<Rightarrow> fault + bool list" where
  "eqDDBoolsI32 a b = compareArrayArray (goOpSigned Eq) a b"

definition eqDDSameI32 :: "i32 list \<Rightarrow> i32 list \<Rightarrow> fault + i32 list" where
  "eqDDSameI32 a b = compareArrayArraySame (goOpSigned Eq) a b"

definition eqDSBoolsI32 :: "i32 list \<Rightarrow> i32 \<Rightarrow> fault + bool list" where
  "eqDSBoolsI32 a b = compareArrayScalar (goOpSigned Eq) a b"

definition eqDSSameI32 :: "i32 list \<Rightarrow> i32 \<Rightarrow> fault + i32 list" where
  "eqDSSameI32 a b = compareArrayScalarSame (goOpSigned Eq) a b"

definition eqDDBoolsI64 :: "i64 list \<Rightarrow> i64 list \<Rightarrow> fault + bool list" where
  "eqDDBoolsI64 a b = compareArrayArray (goOpSigned Eq) a b"

definition eqDDSameI64 :: "i64 list \<Rightarrow> i64 list \<Rightarrow> fault + i64 list" where
  "eqDDSameI64 a b = compareArrayArraySame (goOpSigned Eq) a b"

definition eqDSBoolsI64 :: "i64 list \<Rightarrow> i64 \<Rightarrow> fault + bool list" where
  "eqDSBoolsI64 a b = compareArrayScalar (goOpSigned Eq) a b"

definition eqDSSameI64 :: "i64 list \<Rightarrow> i64 \<Rightarrow> fault + i64 list" where
  "eqDSSameI64 a b = compareArrayScalarSame (goOpSigned Eq) a b"

definition eqDDBoolsU :: "go_uint list \<Rightarrow> go_uint list \<Rightarrow> fault + bool list" where
  "eqDDBoolsU a b = compareArrayArray (goOp Eq) a b"

definition eqDDSameU :: "go_uint list \<Rightarrow> go_uint list \<Rightarrow> fault + go_uint list" where
  "eqDDSameU a b = compareArrayArraySame (goOp Eq) a b"

definition eqDSBoolsU :: "go_uint list \<Rightarrow> go_uint \<Rightarrow> fault + bool list" where
  "eqDSBoolsU a b = compareArrayScalar (goOp Eq) a b"

definition eqDSSameU :: "go_uint list \<Rightarrow> go_uint \<Rightarrow> fault + go_uint list" where
  "eqDSSameU a b = compareArrayScalarSame (goOp Eq) a b"

definition eqDDBoolsU8 :: "u8 list \<Rightarrow> u8 list \<Rightarrow> fault + bool list" where
  "eqDDBoolsU8 a b = compareArrayArray (goOp Eq) a b"

definition eqDDSameU8 :: "u8 list \<Rightarrow> u8 list \<Rightarrow> fault + u8 list" where
  "eqDDSameU8 a b = compareArrayArraySame (goOp Eq) a b"

definition eqDSBoolsU8 :: "u8 list \<Rightarrow> u8 \<Rightarrow> fault + bool list" where
  "eqDSBoolsU8 a b = compareArrayScalar (goOp Eq) a b"

definition eqDSSameU8 :: "u8 list \<Rightarrow> u8 \<Rightarrow> fault + u8 list" where
  "eqDSSameU8 a b = compareArrayScalarSame (goOp Eq) a b"

definition eqDDBoolsU16 :: "u16 list \<Rightarrow> u16 list \<Rightarrow> fault + bool list" where
  "eqDDBoolsU16 a b = compareArrayArray (goOp Eq) a b"

definition eqDDSameU16 :: "u16 list \<Rightarrow> u16 list \<Rightarrow> fault + u16 list" where
  "eqDDSameU16 a b = compareArrayArraySame (goOp Eq) a b"

definition eqDSBoolsU16 :: "u16 list \<Rightarrow> u16 \<Rightarrow> fault + bool list" where
  "eqDSBoolsU16 a b = compareArrayScalar (goOp Eq) a b"

definition eqDSSameU16 :: "u16 list \<Rightarrow> u16 \<Rightarrow> fault + u16 list" where
  "eqDSSameU16 a b = compareArrayScalarSame (goOp Eq) a b"

definition eqDDBoolsU32 :: "u32 list \<Rightarrow> u32 list \<Rightarrow> fault + bool list" where
  "eqDDBoolsU32 a b = compareArrayArray (goOp Eq) a b"

definition eqDDSameU32 :: "u32 list \<Rightarrow> u32 list \<Rightarrow> fault + u32 list" where
  "eqDDSameU32 a b = compareArrayArraySame (goOp Eq) a b"

definition eqDSBoolsU32 :: "u32 list \<Rightarrow> u32 \<Rightarrow> fault + bool list" where
  "eqDSBoolsU32 a b = compareArrayScalar (goOp Eq) a b"

definition eqDSSameU32 :: "u32 list \<Rightarrow> u32 \<Rightarrow> fault + u32 list" where
  "eqDSSameU32 a b = compareArrayScalarSame (goOp Eq) a b"

definition eqDDBoolsU64 :: "u64 list \<Rightarrow> u64 list \<Rightarrow> fault + bool list" where
  "eqDDBoolsU64 a b = compareArrayArray (goOp Eq) a b"

definition eqDDSameU64 :: "u64 list \<Rightarrow> u64 list \<Rightarrow> fault + u64 list" where
  "eqDDSameU64 a b = compareArrayArraySame (goOp Eq) a b"

definition eqDSBoolsU64 :: "u64 list \<Rightarrow> u64 \<Rightarrow> fault + bool list" where
  "eqDSBoolsU64 a b = compareArrayScalar (goOp Eq) a b"

definition eqDSSameU64 :: "u64 list \<Rightarrow> u64 \<Rightarrow> fault + u64 list" where
  "eqDSSameU64 a b = compareArrayScalarSame (goOp Eq) a b"

definition eqDDBoolsUintptr :: "go_uintptr list \<Rightarrow> go_uintptr list \<Rightarrow> fault + bool list" where
  "eqDDBoolsUintptr a b = compareArrayArray (goOp Eq) a b"

definition eqDSBoolsUintptr :: "go_uintptr list \<Rightarrow> go_uintptr \<Rightarrow> fault + bool list" where
  "eqDSBoolsUintptr a b = compareArrayScalar (goOp Eq) a b"

definition eqDDBoolsF32 :: "(cmpOp \<Rightarrow> 'f \<Rightarrow> 'f \<Rightarrow> bool) \<Rightarrow> 'f list \<Rightarrow> 'f list \<Rightarrow> fault + bool list" where
  "eqDDBoolsF32 fop a b = compareArrayArray (fop Eq) a b"

definition eqDDSameF32 :: "(cmpOp \<Rightarrow> ('f::{zero,one}) \<Rightarrow> 'f \<Rightarrow> bool) \<Rightarrow> ('f::{zero,one}) list \<Rightarrow> 'f list \<Rightarrow> fault + 'f list" where
  "eqDDSameF32 fop a b = compareArrayArraySame (fop Eq) a b"

definition eqDSBoolsF32 :: "(cmpOp \<Rightarrow> 'f \<Rightarrow> 'f \<Rightarrow> bool) \<Rightarrow> 'f list \<Rightarrow> 'f \<Rightarrow> fault + bool list" where
  "eqDSBoolsF32 fop a b = compareArrayScalar (fop Eq) a b"

definition eqDSSameF32 :: "(cmpOp \<Rightarrow> ('f::{zero,one}) \<Rightarrow> 'f \<Rightarrow> bool) \<Rightarrow> ('f::{zero,one}) list \<Rightarrow> 'f \<Rightarrow> fault + 'f list" where
  "eqDSSameF32 fop a b = compareArrayScalarSame (fop Eq) a b"

definition eqDDBoolsF64 :: "(cmpOp \<Rightarrow> 'f \<Rightarrow> 'f \<Rightarrow> bool) \<Rightarrow> 'f list \<Rightarrow> 'f list \<Rightarrow> fault + bool list" where
  "eqDDBoolsF64 fop a b = compareArrayArray (fop Eq) a b"

definition eqDDSameF64 :: "(cmpOp \<Rightarrow> ('f::{zero,one}) \<Rightarrow> 'f \<Rightarrow> bool) \<Rightarrow> ('f::{zero,one}) list \<Rightarrow> 'f list \<Rightarrow> fault + 'f list" where
  "eqDDSameF64 fop a b = compareArrayArraySame (fop Eq) a b"

definition eqDSBoolsF64 :: "(cmpOp \<Rightarrow> 'f \<Rightarrow> 'f \<Rightarrow> bool) \<Rightarrow> 'f list \<Rightarrow> 'f \<Rightarrow> fault + bool list" where
  "eqDSBoolsF64 fop a b = compareArrayScalar (fop Eq) a b"

definition eqDSSameF64 :: "(cmpOp \<Rightarrow> ('f::{zero,one}) \<Rightarrow> 'f \<Rightarrow> bool) \<Rightarrow> ('f::{zero,one}) list \<Rightarrow> 'f \<Rightarrow> fault + 'f list" where
  "eqDSSameF64 fop a b = compareArrayScalarSame (fop Eq) a b"

definition eqDDBoolsC64 :: "('c \<Rightarrow> 'c \<Rightarrow> bool) \<Rightarrow> 'c list \<Rightarrow> 'c list \<Rightarrow> fault + bool list" where
  "eqDDBoolsC64 ceq a b = compareArrayArray ceq a b"

definition eqDDSameC64 :: "(('c::{zero,one}) \<Rightarrow> 'c \<Rightarrow> bool) \<Rightarrow> ('c::{zero,one}) list \<Rightarrow> 'c list \<Rightarrow> fault + 'c list" where
  "eqDDSameC64 ceq a b = compareArrayArraySame ceq a b"

definition eqDSBoolsC64 :: "('c \<Rightarrow> 'c \<Rightarrow> bool) \<Rightarrow> 'c list \<Rightarrow> 'c \<Rightarrow> fault + bool list" where
  "eqDSBoolsC64 ceq a b = compareArrayScalar ceq a b"

definition eqDSSameC64 :: "(('c::{zero,one}) \<Rightarrow> 'c \<Rightarrow> bool) \<Rightarrow> ('c::{zero,one}) list \<Rightarrow> 'c \<Rightarrow> fault + 'c list" where
  "eqDSSameC64 ceq a b = compareArrayScalarSame ceq a b"

definition eqDDBoolsC128 :: "('c \<Rightarrow> 'c \<Rightarrow> bool) \<Rightarrow> 'c list \<Rightarrow> 'c list \<Rightarrow> fault + bool list" where
  "eqDDBoolsC128 ceq a b = compareArrayArray ceq a b"

definition eqDDSameC128 :: "(('c::{zero,one}) \<Rightarrow> 'c \<Rightarrow> bool) \<Rightarrow> ('c::{zero,one}) list \<Rightarrow> 'c list \<Rightarrow> fault + 'c list" where
  "eqDDSameC128 ceq a b = compareArrayArraySame ceq a b"

definition eqDSBoolsC128 :: "('c \<Rightarrow> 'c \<Rightarrow> bool) \<Rightarrow> 'c list \<Rightarrow> 'c \<Rightarrow> fault + bool list" where
  "eqDSBoolsC128 ceq a b = compareArrayScalar ceq a b"

definition eqDSSameC128 :: "(('c::{zero,one}) \<Rightarrow> 'c \<Rightarrow> bool) \<Rightarrow> ('c::{zero,one}) list \<Rightarrow> 'c \<Rightarrow> fault + 'c list" where
  "eqDSSameC128 ceq a b = compareArrayScalarSame ceq a b"

definition eqDDBoolsStr :: "string list \<Rightarrow> string list \<Rightarrow> fault + bool list" where
  "eqDDBoolsStr a b = compareArrayArray (goOp Eq) a b"

definition eqDSBoolsStr :: "string list \<Rightarrow> string \<Rightarrow> fault + bool list" where
  "eqDSBoolsStr a b = compareArrayScalar (goOp Eq) a b"

definition eqDDBoolsUnsafePointer :: "pointer list \<Rightarrow> pointer list \<Rightarrow> fault + bool list" where
  "eqDDBoolsUnsafePointer a b = compareArrayArray (\<lambda>v w. v = w) a b"

definition eqDSBoolsUnsafePointer :: "pointer list \<Rightarrow> pointer \<Rightarrow> fault + bool list" where
  "eqDSBoolsUnsafePointer a b = compareArrayScalar (\<lambda>v w. v = w) a b"

definition gtDDBoolsI :: "go_int list \<Rightarrow> go_int list \<Rightarrow> fault + bool list" where
  "gtDDBoolsI a b = compareArrayArray (goOpSigned Gt) a b"

definition gtDDSameI :: "go_int list \<Rightarrow> go_int list \<Rightarrow> fault + go_int list" where
  "gtDDSameI a b = compareArrayArraySame (goOpSigned Gt) a b"

definition gtDSBoolsI :: "go_int list \<Rightarrow> go_int \<Rightarrow> fault + bool list" where
  "gtDSBoolsI a b = compareArrayScalar (goOpSigned Gt) a b"

definition gtDSSameI :: "go_int list \<Rightarrow> go_int \<Rightarrow> fault + go_int list" where
  "gtDSSameI a b = compareArrayScalarSame (goOpSigned Gt) a b"

definition gtDDBoolsI8 :: "i8 list \<Rightarrow> i8 list \<Rightarrow> fault + bool list" where
  "gtDDBoolsI8 a b = compareArrayArray (goOpSigned Gt) a b"

definition gtDDSameI8 :: "i8 list \<Rightarrow> i8 list \<Rightarrow> fault + i8 list" where
  "gtDDSameI8 a b = compareArrayArraySame (goOpSigned Gt) a b"

definition gtDSBoolsI8 :: "i8 list \<Rightarrow> i8 \<Rightarrow> fault + bool list" where
  "gtDSBoolsI8 a b = compareArrayScalar (goOpSigned Gt) a b"

definition gtDSSameI8 :: "i8 list \<Rightarrow> i8 \<Rightarrow> fault + i8 list" where
  "gtDSSameI8 a b = compareArrayScalarSame (goOpSigned Gt) a b"

definition gtDDBoolsI16 :: "i16 list \<Rightarrow> i16 list \<Rightarrow> fault + bool list" where
  "gtDDBoolsI16 a b = compareArrayArray (goOpSigned Gt) a b"

definition gtDDSameI16 :: "i16 list \<Rightarrow> i16 list \<Rightarrow> fault + i16 list" where
  "gtDDSameI16 a b = compareArrayArraySame (goOpSigned Gt) a b"

definition gtDSBoolsI16 :: "i16 list \<Rightarrow> i16 \<Rightarrow> fault + bool list" where
  "gtDSBoolsI16 a b = compareArrayScalar (goOpSigned Gt) a b"

definition gtDSSameI16 :: "i16 list \<Rightarrow> i16 \<Rightarrow> fault + i16 list" where
  "gtDSSameI16 a b = compareArrayScalarSame (goOpSigned Gt) a b"

definition gtDDBoolsI32 :: "i32 list \<Rightarrow> i32 list \<Rightarrow> fault + bool list" where
  "gtDDBoolsI32 a b = compareArrayArray (goOpSigned Gt) a b"

definition gtDDSameI32 :: "i32 list \<Rightarrow> i32 list \<Rightarrow> fault + i32 list" where
  "gtDDSameI32 a b = compareArrayArraySame (goOpSigned Gt) a b"

definition gtDSBoolsI32 :: "i32 list \<Rightarrow> i32 \<Rightarrow> fault + bool list" where
  "gtDSBoolsI32 a b = compareArrayScalar (goOpSigned Gt) a b"

definition gtDSSameI32 :: "i32 list \<Rightarrow> i32 \<Rightarrow> fault + i32 list" where
  "gtDSSameI32 a b = compareArrayScalarSame (goOpSigned Gt) a b"

definition gtDDBoolsI64 :: "i64 list \<Rightarrow> i64 list \<Rightarrow> fault + bool list" where
  "gtDDBoolsI64 a b = compareArrayArray (goOpSigned Gt) a b"

definition gtDDSameI64 :: "i64 list \<Rightarrow> i64 list \<Rightarrow> fault + i64 list" where
  "gtDDSameI64 a b = compareArrayArraySame (goOpSigned Gt) a b"

definition gtDSBoolsI64 :: "i64 list \<Rightarrow> i64 \<Rightarrow> fault + bool list" where
  "gtDSBoolsI64 a b = compareArrayScalar (goOpSigned Gt) a b"

definition gtDSSameI64 :: "i64 list \<Rightarrow> i64 \<Rightarrow> fault + i64 list" where
  "gtDSSameI64 a b = compareArrayScalarSame (goOpSigned Gt) a b"

definition gtDDBoolsU :: "go_uint list \<Rightarrow> go_uint list \<Rightarrow> fault + bool list" where
  "gtDDBoolsU a b = compareArrayArray (goOp Gt) a b"

definition gtDDSameU :: "go_uint list \<Rightarrow> go_uint list \<Rightarrow> fault + go_uint list" where
  "gtDDSameU a b = compareArrayArraySame (goOp Gt) a b"

definition gtDSBoolsU :: "go_uint list \<Rightarrow> go_uint \<Rightarrow> fault + bool list" where
  "gtDSBoolsU a b = compareArrayScalar (goOp Gt) a b"

definition gtDSSameU :: "go_uint list \<Rightarrow> go_uint \<Rightarrow> fault + go_uint list" where
  "gtDSSameU a b = compareArrayScalarSame (goOp Gt) a b"

definition gtDDBoolsU8 :: "u8 list \<Rightarrow> u8 list \<Rightarrow> fault + bool list" where
  "gtDDBoolsU8 a b = compareArrayArray (goOp Gt) a b"

definition gtDDSameU8 :: "u8 list \<Rightarrow> u8 list \<Rightarrow> fault + u8 list" where
  "gtDDSameU8 a b = compareArrayArraySame (goOp Gt) a b"

definition gtDSBoolsU8 :: "u8 list \<Rightarrow> u8 \<Rightarrow> fault + bool list" where
  "gtDSBoolsU8 a b = compareArrayScalar (goOp Gt) a b"

definition gtDSSameU8 :: "u8 list \<Rightarrow> u8 \<Rightarrow> fault + u8 list" where
  "gtDSSameU8 a b = compareArrayScalarSame (goOp Gt) a b"

definition gtDDBoolsU16 :: "u16 list \<Rightarrow> u16 list \<Rightarrow> fault + bool list" where
  "gtDDBoolsU16 a b = compareArrayArray (goOp Gt) a b"

definition gtDDSameU16 :: "u16 list \<Rightarrow> u16 list \<Rightarrow> fault + u16 list" where
  "gtDDSameU16 a b = compareArrayArraySame (goOp Gt) a b"

definition gtDSBoolsU16 :: "u16 list \<Rightarrow> u16 \<Rightarrow> fault + bool list" where
  "gtDSBoolsU16 a b = compareArrayScalar (goOp Gt) a b"

definition gtDSSameU16 :: "u16 list \<Rightarrow> u16 \<Rightarrow> fault + u16 list" where
  "gtDSSameU16 a b = compareArrayScalarSame (goOp Gt) a b"

definition gtDDBoolsU32 :: "u32 list \<Rightarrow> u32 list \<Rightarrow> fault + bool list" where
  "gtDDBoolsU32 a b = compareArrayArray (goOp Gt) a b"

definition gtDDSameU32 :: "u32 list \<Rightarrow> u32 list \<Rightarrow> fault + u32 list" where
  "gtDDSameU32 a b = compareArrayArraySame (goOp Gt) a b"

definition gtDSBoolsU32 :: "u32 list \<Rightarrow> u32 \<Rightarrow> fault + bool list" where
  "gtDSBoolsU32 a b = compareArrayScalar (goOp Gt) a b"

definition gtDSSameU32 :: "u32 list \<Rightarrow> u32 \<Rightarrow> fault + u32 list" where
  "gtDSSameU32 a b = compareArrayScalarSame (goOp Gt) a b"

definition gtDDBoolsU64 :: "u64 list \<Rightarrow> u64 list \<Rightarrow> fault + bool list" where
  "gtDDBoolsU64 a b = compareArrayArray (goOp Gt) a b"

definition gtDDSameU64 :: "u64 list \<Rightarrow> u64 list \<Rightarrow> fault + u64 list" where
  "gtDDSameU64 a b = compareArrayArraySame (goOp Gt) a b"

definition gtDSBoolsU64 :: "u64 list \<Rightarrow> u64 \<Rightarrow> fault + bool list" where
  "gtDSBoolsU64 a b = compareArrayScalar (goOp Gt) a b"

definition gtDSSameU64 :: "u64 list \<Rightarrow> u64 \<Rightarrow> fault + u64 list" where
  "gtDSSameU64 a b = compareArrayScalarSame (goOp Gt) a b"

definition gtDDBoolsUintptr :: "go_uintptr list \<Rightarrow> go_uintptr list \<Rightarrow> fault + bool list" where
  "gtDDBoolsUintptr a b = compareArrayArray (goOp Gt) a b"

definition gtDSBoolsUintptr :: "go_uintptr list \<Rightarrow> go_uintptr \<Rightarrow> fault + bool list" where
  "gtDSBoolsUintptr a b = compareArrayScalar (goOp Gt) a b"

definition gtDDBoolsF32 :: "(cmpOp \<Rightarrow> 'f \<Rightarrow> 'f \<Rightarrow> bool) \<Rightarrow> 'f list \<Rightarrow> 'f list \<Rightarrow> fault + bool list" where
  "gtDDBoolsF32 fop a b = compareArrayArray (fop Gt) a b"

definition gtDDSameF32 :: "(cmpOp \<Rightarrow> ('f::{zero,one}) \<Rightarrow> 'f \<Rightarrow> bool) \<Rightarrow> ('f::{zero,one}) list \<Rightarrow> 'f list \<Rightarrow> fault + 'f list" where
  "gtDDSameF32 fop a b = compareArrayArraySame (fop Gt) a b"

definition gtDSBoolsF32 :: "(cmpOp \<Rightarrow> 'f \<Rightarrow> 'f \<Rightarrow> bool) \<Rightarrow> 'f list \<Rightarrow> 'f \<Rightarrow> fault + bool list" where
  "gtDSBoolsF32 fop a b = compareArrayScalar (fop Gt) a b"

definition gtDSSameF32 :: "(cmpOp \<Rightarrow> ('f::{zero,one}) \<Rightarrow> 'f \<Rightarrow> bool) \<Rightarrow> ('f::{zero,one}) list \<Rightarrow> 'f \<Rightarrow> fault + 'f list" where
  "gtDSSameF32 fop a b = compareArrayScalarSame (fop Gt) a b"

definition gtDDBoolsF64 :: "(cmpOp \<Rightarrow> 'f \<Rightarrow> 'f \<Rightarrow> bool) \<Rightarrow> 'f list \<Rightarrow> 'f list \<Rightarrow> fault + bool list" where
  "gtDDBoolsF64 fop a b = compareArrayArray (fop Gt) a b"

definition gtDDSameF64 :: "(cmpOp \<Rightarrow> ('f::{zero,one}) \<Rightarrow> 'f \<Rightarrow> bool) \<Rightarrow> ('f::{zero,one}) list \<Rightarrow> 'f list \<Rightarrow> fault + 'f list" where
  "gtDDSameF64 fop a b = compareArrayArraySame (fop Gt) a b"

definition gtDSBoolsF64 :: "(cmpOp \<Rightarrow> 'f \<Rightarrow> 'f \<Rightarrow> bool) \<Rightarrow> 'f list \<Rightarrow> 'f \<Rightarrow> fault + bool list" where
  "gtDSBoolsF64 fop a b = compareArrayScalar (fop Gt) a b"

definition gtDSSameF64 :: "(cmpOp \<Rightarrow> ('f::{zero,one}) \<Rightarrow> 'f \<Rightarrow> bool) \<Rightarrow> ('f::{zero,one}) list \<Rightarrow> 'f \<Rightarrow> fault + 'f list" where
  "gtDSSameF64 fop a b = compareArrayScalarSame (fop Gt) a b"

definition gtDDBoolsStr :: "string list \<Rightarrow> string list \<Rightarrow> fault + bool list" where
  "gtDDBoolsStr a b = compareArrayArray (goOp Gt) a b"

definition gtDSBoolsStr :: "string list \<Rightarrow> string \<Rightarrow> fault + bool list" where
  "gtDSBoolsStr a b = compareArrayScalar (goOp Gt) a b"

definition gteDDBoolsI :: "go_int list \<Rightarrow> go_int list \<Rightarrow> fault + bool list" where
  "gteDDBoolsI a b = compareArrayArray (goOpSigned Gte) a b"

definition gteDDSameI :: "go_int list \<Rightarrow> go_int list \<Rightarrow> fault + go_int list" where
  "gteDDSameI a b = compareArrayArraySame (goOpSigned Gte) a b"

definition gteDSBoolsI :: "go_int list \<Rightarrow> go_int \<Rightarrow> fault + bool list" where
  "gteDSBoolsI a b = compareArrayScalar (goOpSigned Gte) a b"

definition gteDSSameI :: "go_int list \<Rightarrow> go_int \<Rightarrow> fault + go_int list" where
  "gteDSSameI a b = compareArrayScalarSame (goOpSigned Gte) a b"

definition gteDDBoolsI8 :: "i8 list \<Rightarrow> i8 list \<Rightarrow> fault + bool list" where
  "gteDDBoolsI8 a b = compareArrayArray (goOpSigned Gte) a b"

definition gteDDSameI8 :: "i8 list \<Rightarrow> i8 list \<Rightarrow> fault + i8 list" where
  "gteDDSameI8 a b = compareArrayArraySame (goOpSigned Gte) a b"

definition gteDSBoolsI8 :: "i8 list \<Rightarrow> i8 \<Rightarrow> fault + bool list" where
  "gteDSBoolsI8 a b = compareArrayScalar (goOpSigned Gte) a b"

definition gteDSSameI8 :: "i8 list \<Rightarrow> i8 \<Rightarrow> fault + i8 list" where
  "gteDSSameI8 a b = compareArrayScalarSame (goOpSigned Gte) a b"

definition gteDDBoolsI16 :: "i16 list \<Rightarrow> i16 list \<Rightarrow> fault + bool list" where
  "gteDDBoolsI16 a b = compareArrayArray (goOpSigned Gte) a b"

definition gteDDSameI16 :: "i16 list \<Rightarrow> i16 list \<Rightarrow> fault + i16 list" where
  "gteDDSameI16 a b = compareArrayArraySame (goOpSigned Gte) a b"

definition gteDSBoolsI16 :: "i16 list \<Rightarrow> i16 \<Rightarrow> fault + bool list" where
  "gteDSBoolsI16 a b = compareArrayScalar (goOpSigned Gte) a b"

definition gteDSSameI16 :: "i16 list \<Rightarrow> i16 \<Rightarrow> fault + i16 list" where
  "gteDSSameI16 a b = compareArrayScalarSame (goOpSigned Gte) a b"

definition gteDDBoolsI32 :: "i32 list \<Rightarrow> i32 list \<Rightarrow> fault + bool list" where
  "gteDDBoolsI32 a b = compareArrayArray (goOpSigned Gte) a b"

definition gteDDSameI32 :: "i32 list \<Rightarrow> i32 list \<Rightarrow> fault + i32 list" where
  "gteDDSameI32 a b = compareArrayArraySame (goOpSigned Gte) a b"

definition gteDSBoolsI32 :: "i32 list \<Rightarrow> i32 \<Rightarrow> fault + bool list" where
  "gteDSBoolsI32 a b = compareArrayScalar (goOpSigned Gte) a b"

definition gteDSSameI32 :: "i32 list \<Rightarrow> i32 \<Rightarrow> fault + i32 list" where
  "gteDSSameI32 a b = compareArrayScalarSame (goOpSigned Gte) a b"

definition gteDDBoolsI64 :: "i64 list \<Rightarrow> i64 list \<Rightarrow> fault + bool list" where
  "gteDDBoolsI64 a b = compareArrayArray (goOpSigned Gte) a b"

definition gteDDSameI64 :: "i64 list \<Rightarrow> i64 list \<Rightarrow> fault + i64 list" where
  "gteDDSameI64 a b = compareArrayArraySame (goOpSigned Gte) a b"

definition gteDSBoolsI64 :: "i64 list \<Rightarrow> i64 \<Rightarrow> fault + bool list" where
  "gteDSBoolsI64 a b = compareArrayScalar (goOpSigned Gte) a b"

definition gteDSSameI64 :: "i64 list \<Rightarrow> i64 \<Rightarrow> fault + i64 list" where
  "gteDSSameI64 a b = compareArrayScalarSame (goOpSigned Gte) a b"

definition gteDDBoolsU :: "go_uint list \<Rightarrow> go_uint list \<Rightarrow> fault + bool list" where
  "gteDDBoolsU a b = compareArrayArray (goOp Gte) a b"

definition gteDDSameU :: "go_uint list \<Rightarrow> go_uint list \<Rightarrow> fault + go_uint list" where
  "gteDDSameU a b = compareArrayArraySame (goOp Gte) a b"

definition gteDSBoolsU :: "go_uint list \<Rightarrow> go_uint \<Rightarrow> fault + bool list" where
  "gteDSBoolsU a b = compareArrayScalar (goOp Gte) a b"

definition gteDSSameU :: "go_uint list \<Rightarrow> go_uint \<Rightarrow> fault + go_uint list" where
  "gteDSSameU a b = compareArrayScalarSame (goOp Gte) a b"

definition gteDDBoolsU8 :: "u8 list \<Rightarrow> u8 list \<Rightarrow> fault + bool list" where
  "gteDDBoolsU8 a b = compareArrayArray (goOp Gte) a b"

definition gteDDSameU8 :: "u8 list \<Rightarrow> u8 list \<Rightarrow> fault + u8 list" where
  "gteDDSameU8 a b = compareArrayArraySame (goOp Gte) a b"

definition gteDSBoolsU8 :: "u8 list \<Rightarrow> u8 \<Rightarrow> fault + bool list" where
  "gteDSBoolsU8 a b = compareArrayScalar (goOp Gte) a b"

definition gteDSSameU8 :: "u8 list \<Rightarrow> u8 \<Rightarrow> fault + u8 list" where
  "gteDSSameU8 a b = compareArrayScalarSame (goOp Gte) a b"

definition gteDDBoolsU16 :: "u16 list \<Rightarrow> u16 list \<Rightarrow> fault + bool list" where
  "gteDDBoolsU16 a b = compareArrayArray (goOp Gte) a b"

definition gteDDSameU16 :: "u16 list \<Rightarrow> u16 list \<Rightarrow> fault + u16 list" where
  "gteDDSameU16 a b = compareArrayArraySame (goOp Gte) a b"

definition gteDSBoolsU16 :: "u16 list \<Rightarrow> u16 \<Rightarrow> fault + bool list" where
  "gteDSBoolsU16 a b = compareArrayScalar (goOp Gte) a b"

definition gteDSSameU16 :: "u16 list \<Rightarrow> u16 \<Rightarrow> fault + u16 list" where
  "gteDSSameU16 a b = compareArrayScalarSame (goOp Gte) a b"

definition gteDDBoolsU32 :: "u32 list \<Rightarrow> u32 list \<Rightarrow> fault + bool list" where
  "gteDDBoolsU32 a b = compareArrayArray (goOp Gte) a b"

definition gteDDSameU32 :: "u32 list \<Rightarrow> u32 list \<Rightarrow> fault + u32 list" where
  "gteDDSameU32 a b = compareArrayArraySame (goOp Gte) a b"

definition gteDSBoolsU32 :: "u32 list \<Rightarrow> u32 \<Rightarrow> fault + bool list" where
  "gteDSBoolsU32 a b = compareArrayScalar (goOp Gte) a b"

definition gteDSSameU32 :: "u32 list \<Rightarrow> u32 \<Rightarrow> fault + u32 list" where
  "gteDSSameU32 a b = compareArrayScalarSame (goOp Gte) a b"

definition gteDDBoolsU64 :: "u64 list \<Rightarrow> u64 list \<Rightarrow> fault + bool list" where
  "gteDDBoolsU64 a b = compareArrayArray (goOp Gte) a b"

definition gteDDSameU64 :: "u64 list \<Rightarrow> u64 list \<Rightarrow> fault + u64 list" where
  "gteDDSameU64 a b = compareArrayArraySame (goOp Gte) a b"

definition gteDSBoolsU64 :: "u64 list \<Rightarrow> u64 \<Rightarrow> fault + bool list" where
  "gteDSBoolsU64 a b = compareArrayScalar (goOp Gte) a b"

definition gteDSSameU64 :: "u64 list \<Rightarrow> u64 \<Rightarrow> fault + u64 list" where
  "gteDSSameU64 a b = compareArrayScalarSame (goOp Gte) a b"

definition gteDDBoolsUintptr :: "go_uintptr list \<Rightarrow> go_uintptr list \<Rightarrow> fault + bool list" where
  "gteDDBoolsUintptr a b = compareArrayArray (goOp Gte) a b"

definition gteDSBoolsUintptr :: "go_uintptr list \<Rightarrow> go_uintptr \<Rightarrow> fault + bool list" where
  "gteDSBoolsUintptr a b = compareArrayScalar (goOp Gte) a b"

definition gteDDBoolsF32 :: "(cmpOp \<Rightarrow> 'f \<Rightarrow> 'f \<Rightarrow> bool) \<Rightarrow> 'f list \<Rightarrow> 'f list \<Rightarrow> fault + bool list" where
  "gteDDBoolsF32 fop a b = compareArrayArray (fop Gte) a b"

definition gteDDSameF32 :: "(cmpOp \<Rightarrow> ('f::{zero,one}) \<Rightarrow> 'f \<Rightarrow> bool) \<Rightarrow> ('f::{zero,one}) list \<Rightarrow> 'f list \<Rightarrow> fault + 'f list" where
  "gteDDSameF32 fop a b = compareArrayArraySame (fop Gte) a b"

definition gteDSBoolsF32 :: "(cmpOp \<Rightarrow> 'f \<Rightarrow> 'f \<Rightarrow> bool) \<Rightarrow> 'f list \<Rightarrow> 'f \<Rightarrow> fault + bool list" where
  "gteDSBoolsF32 fop a b = compareArrayScalar (fop Gte) a b"

definition gteDSSameF32 :: "(cmpOp \<Rightarrow> ('f::{zero,one}) \<Rightarrow> 'f \<Rightarrow> bool) \<Rightarrow> ('f::{zero,one}) list \<Rightarrow> 'f \<Rightarrow> fault + 'f list" where
  "gteDSSameF32 fop a b = compareArrayScalarSame (fop Gte) a b"

definition gteDDBoolsF64 :: "(cmpOp \<Rightarrow> 'f \<Rightarrow> 'f \<Rightarrow> bool) \<Rightarrow> 'f list \<Rightarrow> 'f list \<Rightarrow> fault + bool list" where
  "gteDDBoolsF64 fop a b = compareArrayArray (fop Gte) a b"

definition gteDDSameF64 :: "(cmpOp \<Rightarrow> ('f::{zero,one}) \<Rightarrow> 'f \<Rightarrow> bool) \<Rightarrow> ('f::{zero,one}) list \<Rightarrow> 'f list \<Rightarrow> fault + 'f list" where
  "gteDDSameF64 fop a b = compareArrayArraySame (fop Gte) a b"

definition gteDSBoolsF64 :: "(cmpOp \<Rightarrow> 'f \<Rightarrow> 'f \<Rightarrow> bool) \<Rightarrow> 'f list \<Rightarrow> 'f \<Rightarrow> fault + bool list" where
  "gteDSBoolsF64 fop a b = compareArrayScalar (fop Gte) a b"

definition gteDSSameF64 :: "(cmpOp \<Rightarrow> ('f::{zero,one}) \<Rightarrow> 'f \<Rightarrow> bool) \<Rightarrow> ('f::{zero,one}) list \<Rightarrow> 'f \<Rightarrow> fault + 'f list" where
  "gteDSSameF64 fop a b = compareArrayScalarSame (fop Gte) a b"

definition gteDDBoolsStr :: "string list \<Rightarrow> string list \<Rightarrow> fault + bool list" where
  "gteDDBoolsStr a b = compareArrayArray (goOp Gte) a b"

definition gteDSBoolsStr :: "string list \<Rightarrow> string \<Rightarrow> fault + bool list" where
  "gteDSBoolsStr a b = compareArrayScalar (goOp Gte) a b"

definition ltDDBoolsI :: "go_int list \<Rightarrow> go_int list \<Rightarrow> fault + bool list" where
  "ltDDBoolsI a b = compareArrayArray (goOpSigned Lt) a b"

definition ltDDSameI :: "go_int list \<Rightarrow> go_int list \<Rightarrow> fault + go_int list" where
  "ltDDSameI a b = compareArrayArraySame (goOpSigned Lt) a b"

definition ltDSBoolsI :: "go_int list \<Rightarrow> go_int \<Rightarrow> fault + bool list" where
  "ltDSBoolsI a b = compareArrayScalar (goOpSigned Lt) a b"

definition ltDSSameI :: "go_int list \<Rightarrow> go_int \<Rightarrow> fault + go_int list" where
  "ltDSSameI a b = compareArrayScalarSame (goOpSigned Lt) a b"

definition ltDDBoolsI8 :: "i8 list \<Rightarrow> i8 list \<Rightarrow> fault + bool list" where
  "ltDDBoolsI8 a b = compareArrayArray (goOpSigned Lt) a b"

definition ltDDSameI8 :: "i8 list \<Rightarrow> i8 list \<Rightarrow> fault + i8 list" where
  "ltDDSameI8 a b = compareArrayArraySame (goOpSigned Lt) a b"

definition ltDSBoolsI8 :: "i8 list \<Rightarrow> i8 \<Rightarrow> fault + bool list" where
  "ltDSBoolsI8 a b = compareArrayScalar (goOpSigned Lt) a b"

definition ltDSSameI8 :: "i8 list \<Rightarrow> i8 \<Rightarrow> fault + i8 list" where
  "ltDSSameI8 a b = compareArrayScalarSame (goOpSigned Lt) a b"

definition ltDDBoolsI16 :: "i16 list \<Rightarrow> i16 list \<Rightarrow> fault + bool list" where
  "ltDDBoolsI16 a b = compareArrayArray (goOpSigned Lt) a b"

definition ltDDSameI16 :: "i16 list \<Rightarrow> i16 list \<Rightarrow> fault + i16 list" where
  "ltDDSameI16 a b = compareArrayArraySame (goOpSigned Lt) a b"

definition ltDSBoolsI16 :: "i16 list \<Rightarrow> i16 \<Rightarrow> fault + bool list" where
  "ltDSBoolsI16 a b = compareArrayScalar (goOpSigned Lt) a b"

definition ltDSSameI16 :: "i16 list \<Rightarrow> i16 \<Rightarrow> fault + i16 list" where
  "ltDSSameI16 a b = compareArrayScalarSame (goOpSigned Lt) a b"

definition ltDDBoolsI32 :: "i32 list \<Rightarrow> i32 list \<Rightarrow> fault + bool list" where
  "ltDDBoolsI32 a b = compareArrayArray (goOpSigned Lt) a b"

definition ltDDSameI32 :: "i32 list \<Rightarrow> i32 list \<Rightarrow> fault + i32 list" where
  "ltDDSameI32 a b = compareArrayArraySame (goOpSigned Lt) a b"

definition ltDSBoolsI32 :: "i32 list \<Rightarrow> i32 \<Rightarrow> fault + bool list" where
  "ltDSBoolsI32 a b = compareArrayScalar (goOpSigned Lt) a b"

definition ltDSSameI32 :: "i32 list \<Rightarrow> i32 \<Rightarrow> fault + i32 list" where
  "ltDSSameI32 a b = compareArrayScalarSame (goOpSigned Lt) a b"

definition ltDDBoolsI64 :: "i64 list \<Rightarrow> i64 list \<Rightarrow> fault + bool list" where
  "ltDDBoolsI64 a b = compareArrayArray (goOpSigned Lt) a b"

definition ltDDSameI64 :: "i64 list \<Rightarrow> i64 list \<Rightarrow> fault + i64 list" where
  "ltDDSameI64 a b = compareArrayArraySame (goOpSigned Lt) a b"

definition ltDSBoolsI64 :: "i64 list \<Rightarrow> i64 \<Rightarrow> fault + bool list" where
  "ltDSBoolsI64 a b = compareArrayScalar (goOpSigned Lt) a b"

definition ltDSSameI64 :: "i64 list \<Rightarrow> i64 \<Rightarrow> fault + i64 list" where
  "ltDSSameI64 a b = compareArrayScalarSame (goOpSigned Lt) a b"

definition ltDDBoolsU :: "go_uint list \<Rightarrow> go_uint list \<Rightarrow> fault + bool list" where
  "ltDDBoolsU a b = compareArrayArray (goOp Lt) a b"

definition ltDDSameU :: "go_uint list \<Rightarrow> go_uint list \<Rightarrow> fault + go_uint list" where
  "ltDDSameU a b = compareArrayArraySame (goOp Lt) a b"

definition ltDSBoolsU :: "go_uint list \<Rightarrow> go_uint \<Rightarrow> fault + bool list" where
  "ltDSBoolsU a b = compareArrayScalar (goOp Lt) a b"

definition ltDSSameU :: "go_uint list \<Rightarrow> go_uint \<Rightarrow> fault + go_uint list" where
  "ltDSSameU a b = compareArrayScalarSame (goOp Lt) a b"

definition ltDDBoolsU8 :: "u8 list \<Rightarrow> u8 list \<Rightarrow> fault + bool list" where
  "ltDDBoolsU8 a b = compareArrayArray (goOp Lt) a b"

definition ltDDSameU8 :: "u8 list \<Rightarrow> u8 list \<Rightarrow> fault + u8 list" where
  "ltDDSameU8 a b = compareArrayArraySame (goOp Lt) a b"

definition ltDSBoolsU8 :: "u8 list \<Rightarrow> u8 \<Rightarrow> fault + bool list" where
  "ltDSBoolsU8 a b = compareArrayScalar (goOp Lt) a b"

definition ltDSSameU8 :: "u8 list \<Rightarrow> u8 \<Rightarrow> fault + u8 list" where
  "ltDSSameU8 a b = compareArrayScalarSame (goOp Lt) a b"

definition ltDDBoolsU16 :: "u16 list \<Rightarrow> u16 list \<Rightarrow> fault + bool list" where
  "ltDDBoolsU16 a b = compareArrayArray (goOp Lt) a b"

definition ltDDSameU16 :: "u16 list \<Rightarrow> u16 list \<Rightarrow> fault + u16 list" where
  "ltDDSameU16 a b = compareArrayArraySame (goOp Lt) a b"

definition ltDSBoolsU16 :: "u16 list \<Rightarrow> u16 \<Rightarrow> fault + bool list" where
  "ltDSBoolsU16 a b = compareArrayScalar (goOp Lt) a b"

definition ltDSSameU16 :: "u16 list \<Rightarrow> u16 \<Rightarrow> fault + u16 list" where
  "ltDSSameU16 a b = compareArrayScalarSame (goOp Lt) a b"

definition ltDDBoolsU32 :: "u32 list \<Rightarrow> u32 list \<Rightarrow> fault + bool list" where
  "ltDDBoolsU32 a b = compareArrayArray (goOp Lt) a b"

definition ltDDSameU32 :: "u32 list \<Rightarrow> u32 list \<Rightarrow> fault + u32 list" where
  "ltDDSameU32 a b = compareArrayArraySame (goOp Lt) a b"

definition ltDSBoolsU32 :: "u32 list \<Rightarrow> u32 \<Rightarrow> fault + bool list" where
  "ltDSBoolsU32 a b = compareArrayScalar (goOp Lt) a b"

definition ltDSSameU32 :: "u32 list \<Rightarrow> u32 \<Rightarrow> fault + u32 list" where
  "ltDSSameU32 a b = compareArrayScalarSame (goOp Lt) a b"

definition ltDDBoolsU64 :: "u64 list \<Rightarrow> u64 list \<Rightarrow> fault + bool list" where
  "ltDDBoolsU64 a b = compareArrayArray (goOp Lt) a b"

definition ltDDSameU64 :: "u64 list \<Rightarrow> u64 list \<Rightarrow> fault + u64 list" where
  "ltDDSameU64 a b = compareArrayArraySame (goOp Lt) a b"

definition ltDSBoolsU64 :: "u64 list \<Rightarrow> u64 \<Rightarrow> fault + bool list" where
  "ltDSBoolsU64 a b = compareArrayScalar (goOp Lt) a b"

definition ltDSSameU64 :: "u64 list \<Rightarrow> u64 \<Rightarrow> fault + u64 list" where
  "ltDSSameU64 a b = compareArrayScalarSame (goOp Lt) a b"

definition ltDDBoolsUintptr :: "go_uintptr list \<Rightarrow> go_uintptr list \<Rightarrow> fault + bool list" where
  "ltDDBoolsUintptr a b = compareArrayArray (goOp Lt) a b"

definition ltDSBoolsUintptr :: "go_uintptr list \<Rightarrow> go_uintptr \<Rightarrow> fault + bool list" where
  "ltDSBoolsUintptr a b = compareArrayScalar (goOp Lt) a b"

definition ltDDBoolsF32 :: "(cmpOp \<Rightarrow> 'f \<Rightarrow> 'f \<Rightarrow> bool) \<Rightarrow> 'f list \<Rightarrow> 'f list \<Rightarrow> fault + bool list" where
  "ltDDBoolsF32 fop a b = compareArrayArray (fop Lt) a b"

definition ltDDSameF32 :: "(cmpOp \<Rightarrow> ('f::{zero,one}) \<Rightarrow> 'f \<Rightarrow> bool) \<Rightarrow> ('f::{zero,one}) list \<Rightarrow> 'f list \<Rightarrow> fault + 'f list" where
  "ltDDSameF32 fop a b = compareArrayArraySame (fop Lt) a b"

definition ltDSBoolsF32 :: "(cmpOp \<Rightarrow> 'f \<Rightarrow> 'f \<Rightarrow> bool) \<Rightarrow> 'f list \<Rightarrow> 'f \<Rightarrow> fault + bool list" where
  "ltDSBoolsF32 fop a b = compareArrayScalar (fop Lt) a b"

definition ltDSSameF32 :: "(cmpOp \<Rightarrow> ('f::{zero,one}) \<Rightarrow> 'f \<Rightarrow> bool) \<Rightarrow> ('f::{zero,one}) list \<Rightarrow> 'f \<Rightarrow> fault + 'f list" where
  "ltDSSameF32 fop a b = compareArrayScalarSame (fop Lt) a b"

definition ltDDBoolsF64 :: "(cmpOp \<Rightarrow> 'f \<Rightarrow> 'f \<Rightarrow> bool) \<Rightarrow> 'f list \<Rightarrow> 'f list \<Rightarrow> fault + bool list" where
  "ltDDBoolsF64 fop a b = compareArrayArray (fop Lt) a b"

definition ltDDSameF64 :: "(cmpOp \<Rightarrow> ('f::{zero,one}) \<Rightarrow> 'f \<Rightarrow> bool) \<Rightarrow> ('f::{zero,one}) list \<Rightarrow> 'f list \<Rightarrow> fault + 'f list" where
  "ltDDSameF64 fop a b = compareArrayArraySame (fop Lt) a b"

definition ltDSBoolsF64 :: "(cmpOp \<Rightarrow> 'f \<Rightarrow> 'f \<Rightarrow> bool) \<Rightarrow> 'f list \<Rightarrow> 'f \<Rightarrow> fault + bool list" where
  "ltDSBoolsF64 fop a b = compareArrayScalar (fop Lt) a b"

definition ltDSSameF64 :: "(cmpOp \<Rightarrow> ('f::{zero,one}) \<Rightarrow> 'f \<Rightarrow> bool) \<Rightarrow> ('f::{zero,one}) list \<Rightarrow> 'f \<Rightarrow> fault + 'f list" where
  "ltDSSameF64 fop a b = compareArrayScalarSame (fop Lt) a b"

definition ltDDBoolsStr :: "string list \<Rightarrow> string list \<Rightarrow> fault + bool list" where
  "ltDDBoolsStr a b = compareArrayArray (goOp Lt) a b"

definition ltDSBoolsStr :: "string list \<Rightarrow> string \<Rightarrow> fault + bool list" where
  "ltDSBoolsStr a b = compareArrayScalar (goOp Lt) a b"

definition lteDDBoolsI :: "go_int list \<Rightarrow> go_int list \<Rightarrow> fault + bool list" where
  "lteDDBoolsI a b = compareArrayArray (goOpSigned Lte) a b"

definition lteDDSameI :: "go_int list \<Rightarrow> go_int list \<Rightarrow> fault + go_int list" where
  "lteDDSameI a b = compareArrayArraySame (goOpSigned Lte) a b"

definition lteDSBoolsI :: "go_int list \<Rightarrow> go_int \<Rightarrow> fault + bool list" where
  "lteDSBoolsI a b = compareArrayScalar (goOpSigned Lte) a b"

definition lteDSSameI :: "go_int list \<Rightarrow> go_int \<Rightarrow> fault + go_int list" where
  "lteDSSameI a b = compareArrayScalarSame (goOpSigned Lte) a b"

definition lteDDBoolsI8 :: "i8 list \<Rightarrow> i8 list \<Rightarrow> fault + bool list" where
  "lteDDBoolsI8 a b = compareArrayArray (goOpSigned Lte) a b"

definition lteDDSameI8 :: "i8 list \<Rightarrow> i8 list \<Rightarrow> fault + i8 list" where
  "lteDDSameI8 a b = compareArrayArraySame (goOpSigned Lte) a b"

definition lteDSBoolsI8 :: "i8 list \<Rightarrow> i8 \<Rightarrow> fault + bool list" where
  "lteDSBoolsI8 a b = compareArrayScalar (goOpSigned Lte) a b"

definition lteDSSameI8 :: "i8 list \<Rightarrow> i8 \<Rightarrow> fault + i8 list" where
  "lteDSSameI8 a b = compareArrayScalarSame (goOpSigned Lte) a b"

definition lteDDBoolsI16 :: "i16 list \<Rightarrow> i16 list \<Rightarrow> fault + bool list" where
  "lteDDBoolsI16 a b = compareArrayArray (goOpSigned Lte) a b"

definition lteDDSameI16 :: "i16 list \<Rightarrow> i16 list \<Rightarrow> fault + i16 list" where
  "lteDDSameI16 a b = compareArrayArraySame (goOpSigned Lte) a b"

definition lteDSBoolsI16 :: "i16 list \<Rightarrow> i16 \<Rightarrow> fault + bool list" where
  "lteDSBoolsI16 a b = compareArrayScalar (goOpSigned Lte) a b"

definition lteDSSameI16 :: "i16 list \<Rightarrow> i16 \<Rightarrow> fault + i16 list" where
  "lteDSSameI16 a b = compareArrayScalarSame (goOpSigned Lte) a b"

definition lteDDBoolsI32 :: "i32 list \<Rightarrow> i32 list \<Rightarrow> fault + bool list" where
  "lteDDBoolsI32 a b = compareArrayArray (goOpSigned Lte) a b"

definition lteDDSameI32 :: "i32 list \<Rightarrow> i32 list \<Rightarrow> fault + i32 list" where
  "lteDDSameI32 a b = compareArrayArraySame (goOpSigned Lte) a b"

definition lteDSBoolsI32 :: "i32 list \<Rightarrow> i32 \<Rightarrow> fault + bool list" where
  "lteDSBoolsI32 a b = compareArrayScalar (goOpSigned Lte) a b"

definition lteDSSameI32 :: "i32 list \<Rightarrow> i32 \<Rightarrow> fault + i32 list" where
  "lteDSSameI32 a b = compareArrayScalarSame (goOpSigned Lte) a b"

definition lteDDBoolsI64 :: "i64 list \<Rightarrow> i64 list \<Rightarrow> fault + bool list" where
  "lteDDBoolsI64 a b = compareArrayArray (goOpSigned Lte) a b"

definition lteDDSameI64 :: "i64 list \<Rightarrow> i64 list \<Rightarrow> fault + i64 list" where
  "lteDDSameI64 a b = compareArrayArraySame (goOpSigned Lte) a b"

definition lteDSBoolsI64 :: "i64 list \<Rightarrow> i64 \<Rightarrow> fault + bool list" where
  "lteDSBoolsI64 a b = compareArrayScalar (goOpSigned Lte) a b"

definition lteDSSameI64 :: "i64 list \<Rightarrow> i64 \<Rightarrow> fault + i64 list" where
  "lteDSSameI64 a b = compareArrayScalarSame (goOpSigned Lte) a b"

definition lteDDBoolsU :: "go_uint list \<Rightarrow> go_uint list \<Rightarrow> fault + bool list" where
  "lteDDBoolsU a b = compareArrayArray (goOp Lte) a b"

definition lteDDSameU :: "go_uint list \<Rightarrow> go_uint list \<Rightarrow> fault + go_uint list" where
  "lteDDSameU a b = compareArrayArraySame (goOp Lte) a b"

definition lteDSBoolsU :: "go_uint list \<Rightarrow> go_uint \<Rightarrow> fault + bool list" where
  "lteDSBoolsU a b = compareArrayScalar (goOp Lte) a b"

definition lteDSSameU :: "go_uint list \<Rightarrow> go_uint \<Rightarrow> fault + go_uint list" where
  "lteDSSameU a b = compareArrayScalarSame (goOp Lte) a b"

definition lteDDBoolsU8 :: "u8 list \<Rightarrow> u8 list \<Rightarrow> fault + bool list" where
  "lteDDBoolsU8 a b = compareArrayArray (goOp Lte) a b"

definition lteDDSameU8 :: "u8 list \<Rightarrow> u8 list \<Rightarrow> fault + u8 list" where
  "lteDDSameU8 a b = compareArrayArraySame (goOp Lte) a b"

definition lteDSBoolsU8 :: "u8 list \<Rightarrow> u8 \<Rightarrow> fault + bool list" where
  "lteDSBoolsU8 a b = compareArrayScalar (goOp Lte) a b"

definition lteDSSameU8 :: "u8 list \<Rightarrow> u8 \<Rightarrow> fault + u8 list" where
  "lteDSSameU8 a b = compareArrayScalarSame (goOp Lte) a b"

definition lteDDBoolsU16 :: "u16 list \<Rightarrow> u16 list \<Rightarrow> fault + bool list" where
  "lteDDBoolsU16 a b = compareArrayArray (goOp Lte) a b"

definition lteDDSameU16 :: "u16 list \<Rightarrow> u16 list \<Rightarrow> fault + u16 list" where
  "lteDDSameU16 a b = compareArrayArraySame (goOp Lte) a b"

definition lteDSBoolsU16 :: "u16 list \<Rightarrow> u16 \<Rightarrow> fault + bool list" where
  "lteDSBoolsU16 a b = compareArrayScalar (goOp Lte) a b"

definition lteDSSameU16 :: "u16 list \<Rightarrow> u16 \<Rightarrow> fault + u16 list" where
  "lteDSSameU16 a b = compareArrayScalarSame (goOp Lte) a b"

definition lteDDBoolsU32 :: "u32 list \<Rightarrow> u32 list \<Rightarrow> fault + bool list" where
  "lteDDBoolsU32 a b = compareArrayArray (goOp Lte) a b"

definition lteDDSameU32 :: "u32 list \<Rightarrow> u32 list \<Rightarrow> fault + u32 list" where
  "lteDDSameU32 a b = compareArrayArraySame (goOp Lte) a b"

definition lteDSBoolsU32 :: "u32 list \<Rightarrow> u32 \<Rightarrow> fault + bool list" where
  "lteDSBoolsU32 a b = compareArrayScalar (goOp Lte) a b"

definition lteDSSameU32 :: "u32 list \<Rightarrow> u32 \<Rightarrow> fault + u32 list" where
  "lteDSSameU32 a b = compareArrayScalarSame (goOp Lte) a b"

definition lteDDBoolsU64 :: "u64 list \<Rightarrow> u64 list \<Rightarrow> fault + bool list" where
  "lteDDBoolsU64 a b = compareArrayArray (goOp Lte) a b"

definition lteDDSameU64 :: "u64 list \<Rightarrow> u64 list \<Rightarrow> fault + u64 list" where
  "lteDDSameU64 a b = compareArrayArraySame (goOp Lte) a b"

definition lteDSBoolsU64 :: "u64 list \<Rightarrow> u64 \<Rightarrow> fault + bool list" where
  "lteDSBoolsU64 a b = compareArrayScalar (goOp Lte) a b"

definition lteDSSameU64 :: "u64 list \<Rightarrow> u64 \<Rightarrow> fault + u64 list" where
  "lteDSSameU64 a b = compareArrayScalarSame (goOp Lte) a b"

definition lteDDBoolsUintptr :: "go_uintptr list \<Rightarrow> go_uintptr list \<Rightarrow> fault + bool list" where
  "lteDDBoolsUintptr a b = compareArrayArray (goOp Lte) a b"

definition lteDSBoolsUintptr :: "go_uintptr list \<Rightarrow> go_uintptr \<Rightarrow> fault + bool list" where
  "lteDSBoolsUintptr a b = compareArrayScalar (goOp Lte) a b"

definition lteDDBoolsF32 :: "(cmpOp \<Rightarrow> 'f \<Rightarrow> 'f \<Rightarrow> bool) \<Rightarrow> 'f list \<Rightarrow> 'f list \<Rightarrow> fault + bool list" where
  "lteDDBoolsF32 fop a b = compareArrayArray (fop Lte) a b"

definition lteDDSameF32 :: "(cmpOp \<Rightarrow> ('f::{zero,one}) \<Rightarrow> 'f \<Rightarrow> bool) \<Rightarrow> ('f::{zero,one}) list \<Rightarrow> 'f list \<Rightarrow> fault + 'f list" where
  "lteDDSameF32 fop a b = compareArrayArraySame (fop Lte) a b"

definition lteDSBoolsF32 :: "(cmpOp \<Rightarrow> 'f \<Rightarrow> 'f \<Rightarrow> bool) \<Rightarrow> 'f list \<Rightarrow> 'f \<Rightarrow> fault + bool list" where
  "lteDSBoolsF32 fop a b = compareArrayScalar (fop Lte) a b"

definition lteDSSameF32 :: "(cmpOp \<Rightarrow> ('f::{zero,one}) \<Rightarrow> 'f \<Rightarrow> bool) \<Rightarrow> ('f::{zero,one}) list \<Rightarrow> 'f \<Rightarrow> fault + 'f list" where
  "lteDSSameF32 fop a b = compareArrayScalarSame (fop Lte) a b"

definition lteDDBoolsF64 :: "(cmpOp \<Rightarrow> 'f \<Rightarrow> 'f \<Rightarrow> bool) \<Rightarrow> 'f list \<Rightarrow> 'f list \<Rightarrow> fault + bool list" where
  "lteDDBoolsF64 fop a b = compareArrayArray (fop Lte) a b"

definition lteDDSameF64 :: "(cmpOp \<Rightarrow> ('f::{zero,one}) \<Rightarrow> 'f \<Rightarrow> bool) \<Rightarrow> ('f::{zero,one}) list \<Rightarrow> 'f list \<Rightarrow> fault + 'f list" where
  "lteDDSameF64 fop a b = compareArrayArraySame (fop Lte) a b"

definition lteDSBoolsF64 :: "(cmpOp \<Rightarrow> 'f \<Rightarrow> 'f \<Rightarrow> bool) \<Rightarrow> 'f list \<Rightarrow> 'f \<Rightarrow> fault + bool list" where
  "lteDSBoolsF64 fop a b = compareArrayScalar (fop Lte) a b"

definition lteDSSameF64 :: "(cmpOp \<Rightarrow> ('f::{zero,one}) \<Rightarrow> 'f \<Rightarrow> bool) \<Rightarrow> ('f::{zero,one}) list \<Rightarrow> 'f \<Rightarrow> fault + 'f list" where
  "lteDSSameF64 fop a b = compareArrayScalarSame (fop Lte) a b"

definition lteDDBoolsStr :: "string list \<Rightarrow> string list \<Rightarrow> fault + bool list" where
  "lteDDBoolsStr a b = compareArrayArray (goOp Lte) a b"

definition lteDSBoolsStr :: "string list \<Rightarrow> string \<Rightarrow> fault + bool list" where
  "lteDSBoolsStr a b = compareArrayScalar (goOp Lte) a b"

text \<open>
  The kernels of a kind by operator: for every kind that has the ordering operators,
  the two or four functions that the file has for an operator.
\<close>

record 'a maskKernels =
  ddBools :: "'a list \<Rightarrow> 'a list \<Rightarrow> fault + bool list"
  dsBools :: "'a list \<Rightarrow> 'a \<Rightarrow> fault + bool list"

record 'a sameKernels = "'a maskKernels" +
  ddSame :: "'a list \<Rightarrow> 'a list \<Rightarrow> fault + 'a list"
  dsSame :: "'a list \<Rightarrow> 'a \<Rightarrow> fault + 'a list"

definition kernelsI :: "cmpOp \<Rightarrow> go_int sameKernels" where
  "kernelsI c =
     (case c of
        Eq \<Rightarrow>
          \<lparr>ddBools = eqDDBoolsI, dsBools = eqDSBoolsI,
           ddSame = eqDDSameI, dsSame = eqDSSameI\<rparr>
      | Gt \<Rightarrow>
          \<lparr>ddBools = gtDDBoolsI, dsBools = gtDSBoolsI,
           ddSame = gtDDSameI, dsSame = gtDSSameI\<rparr>
      | Gte \<Rightarrow>
          \<lparr>ddBools = gteDDBoolsI, dsBools = gteDSBoolsI,
           ddSame = gteDDSameI, dsSame = gteDSSameI\<rparr>
      | Lt \<Rightarrow>
          \<lparr>ddBools = ltDDBoolsI, dsBools = ltDSBoolsI,
           ddSame = ltDDSameI, dsSame = ltDSSameI\<rparr>
      | Lte \<Rightarrow>
          \<lparr>ddBools = lteDDBoolsI, dsBools = lteDSBoolsI,
           ddSame = lteDDSameI, dsSame = lteDSSameI\<rparr>)"

definition kernelsI8 :: "cmpOp \<Rightarrow> i8 sameKernels" where
  "kernelsI8 c =
     (case c of
        Eq \<Rightarrow>
          \<lparr>ddBools = eqDDBoolsI8, dsBools = eqDSBoolsI8,
           ddSame = eqDDSameI8, dsSame = eqDSSameI8\<rparr>
      | Gt \<Rightarrow>
          \<lparr>ddBools = gtDDBoolsI8, dsBools = gtDSBoolsI8,
           ddSame = gtDDSameI8, dsSame = gtDSSameI8\<rparr>
      | Gte \<Rightarrow>
          \<lparr>ddBools = gteDDBoolsI8, dsBools = gteDSBoolsI8,
           ddSame = gteDDSameI8, dsSame = gteDSSameI8\<rparr>
      | Lt \<Rightarrow>
          \<lparr>ddBools = ltDDBoolsI8, dsBools = ltDSBoolsI8,
           ddSame = ltDDSameI8, dsSame = ltDSSameI8\<rparr>
      | Lte \<Rightarrow>
          \<lparr>ddBools = lteDDBoolsI8, dsBools = lteDSBoolsI8,
           ddSame = lteDDSameI8, dsSame = lteDSSameI8\<rparr>)"

definition kernelsI16 :: "cmpOp \<Rightarrow> i16 sameKernels" where
  "kernelsI16 c =
     (case c of
        Eq \<Rightarrow>
          \<lparr>ddBools = eqDDBoolsI16, dsBools = eqDSBoolsI16,
           ddSame = eqDDSameI16, dsSame = eqDSSameI16\<rparr>
      | Gt \<Rightarrow>
          \<lparr>ddBools = gtDDBoolsI16, dsBools = gtDSBoolsI16,
           ddSame = gtDDSameI16, dsSame = gtDSSameI16\<rparr>
      | Gte \<Rightarrow>
          \<lparr>ddBools = gteDDBoolsI16, dsBools = gteDSBoolsI16,
           ddSame = gteDDSameI16, dsSame = gteDSSameI16\<rparr>
      | Lt \<Rightarrow>
          \<lparr>ddBools = ltDDBoolsI16, dsBools = ltDSBoolsI16,
           ddSame = ltDDSameI16, dsSame = ltDSSameI16\<rparr>
      | Lte \<Rightarrow>
          \<lparr>ddBools = lteDDBoolsI16, dsBools = lteDSBoolsI16,
           ddSame = lteDDSameI16, dsSame = lteDSSameI16\<rparr>)"

definition kernelsI32 :: "cmpOp \<Rightarrow> i32 sameKernels" where
  "kernelsI32 c =
     (case c of
        Eq \<Rightarrow>
          \<lparr>ddBools = eqDDBoolsI32, dsBools = eqDSBoolsI32,
           ddSame = eqDDSameI32, dsSame = eqDSSameI32\<rparr>
      | Gt \<Rightarrow>
          \<lparr>ddBools = gtDDBoolsI32, dsBools = gtDSBoolsI32,
           ddSame = gtDDSameI32, dsSame = gtDSSameI32\<rparr>
      | Gte \<Rightarrow>
          \<lparr>ddBools = gteDDBoolsI32, dsBools = gteDSBoolsI32,
           ddSame = gteDDSameI32, dsSame = gteDSSameI32\<rparr>
      | Lt \<Rightarrow>
          \<lparr>ddBools = ltDDBoolsI32, dsBools = ltDSBoolsI32,
           ddSame = ltDDSameI32, dsSame = ltDSSameI32\<rparr>
      | Lte \<Rightarrow>
          \<lparr>ddBools = lteDDBoolsI32, dsBools = lteDSBoolsI32,
           ddSame = lteDDSameI32, dsSame = lteDSSameI32\<rparr>)"

definition kernelsI64 :: "cmpOp \<Rightarrow> i64 sameKernels" where
  "kernelsI64 c =
     (case c of
        Eq \<Rightarrow>
          \<lparr>ddBools = eqDDBoolsI64, dsBools = eqDSBoolsI64,
           ddSame = eqDDSameI64, dsSame = eqDSSameI64\<rparr>
      | Gt \<Rightarrow>
          \<lparr>ddBools = gtDDBoolsI64, dsBools = gtDSBoolsI64,
           ddSame = gtDDSameI64, dsSame = gtDSSameI64\<rparr>
      | Gte \<Rightarrow>
          \<lparr>ddBools = gteDDBoolsI64, dsBools = gteDSBoolsI64,
           ddSame = gteDDSameI64, dsSame = gteDSSameI64\<rparr>
      | Lt \<Rightarrow>
          \<lparr>ddBools = ltDDBoolsI64, dsBools = ltDSBoolsI64,
           ddSame = ltDDSameI64, dsSame = ltDSSameI64\<rparr>
      | Lte \<Rightarrow>
          \<lparr>ddBools = lteDDBoolsI64, dsBools = lteDSBoolsI64,
           ddSame = lteDDSameI64, dsSame = lteDSSameI64\<rparr>)"

definition kernelsU :: "cmpOp \<Rightarrow> go_uint sameKernels" where
  "kernelsU c =
     (case c of
        Eq \<Rightarrow>
          \<lparr>ddBools = eqDDBoolsU, dsBools = eqDSBoolsU,
           ddSame = eqDDSameU, dsSame = eqDSSameU\<rparr>
      | Gt \<Rightarrow>
          \<lparr>ddBools = gtDDBoolsU, dsBools = gtDSBoolsU,
           ddSame = gtDDSameU, dsSame = gtDSSameU\<rparr>
      | Gte \<Rightarrow>
          \<lparr>ddBools = gteDDBoolsU, dsBools = gteDSBoolsU,
           ddSame = gteDDSameU, dsSame = gteDSSameU\<rparr>
      | Lt \<Rightarrow>
          \<lparr>ddBools = ltDDBoolsU, dsBools = ltDSBoolsU,
           ddSame = ltDDSameU, dsSame = ltDSSameU\<rparr>
      | Lte \<Rightarrow>
          \<lparr>ddBools = lteDDBoolsU, dsBools = lteDSBoolsU,
           ddSame = lteDDSameU, dsSame = lteDSSameU\<rparr>)"

definition kernelsU8 :: "cmpOp \<Rightarrow> u8 sameKernels" where
  "kernelsU8 c =
     (case c of
        Eq \<Rightarrow>
          \<lparr>ddBools = eqDDBoolsU8, dsBools = eqDSBoolsU8,
           ddSame = eqDDSameU8, dsSame = eqDSSameU8\<rparr>
      | Gt \<Rightarrow>
          \<lparr>ddBools = gtDDBoolsU8, dsBools = gtDSBoolsU8,
           ddSame = gtDDSameU8, dsSame = gtDSSameU8\<rparr>
      | Gte \<Rightarrow>
          \<lparr>ddBools = gteDDBoolsU8, dsBools = gteDSBoolsU8,
           ddSame = gteDDSameU8, dsSame = gteDSSameU8\<rparr>
      | Lt \<Rightarrow>
          \<lparr>ddBools = ltDDBoolsU8, dsBools = ltDSBoolsU8,
           ddSame = ltDDSameU8, dsSame = ltDSSameU8\<rparr>
      | Lte \<Rightarrow>
          \<lparr>ddBools = lteDDBoolsU8, dsBools = lteDSBoolsU8,
           ddSame = lteDDSameU8, dsSame = lteDSSameU8\<rparr>)"

definition kernelsU16 :: "cmpOp \<Rightarrow> u16 sameKernels" where
  "kernelsU16 c =
     (case c of
        Eq \<Rightarrow>
          \<lparr>ddBools = eqDDBoolsU16, dsBools = eqDSBoolsU16,
           ddSame = eqDDSameU16, dsSame = eqDSSameU16\<rparr>
      | Gt \<Rightarrow>
          \<lparr>ddBools = gtDDBoolsU16, dsBools = gtDSBoolsU16,
           ddSame = gtDDSameU16, dsSame = gtDSSameU16\<rparr>
      | Gte \<Rightarrow>
          \<lparr>ddBools = gteDDBoolsU16, dsBools = gteDSBoolsU16,
           ddSame = gteDDSameU16, dsSame = gteDSSameU16\<rparr>
      | Lt \<Rightarrow>
          \<lparr>ddBools = ltDDBoolsU16, dsBools = ltDSBoolsU16,
           ddSame = ltDDSameU16, dsSame = ltDSSameU16\<rparr>
      | Lte \<Rightarrow>
          \<lparr>ddBools = lteDDBoolsU16, dsBools = lteDSBoolsU16,
           ddSame = lteDDSameU16, dsSame = lteDSSameU16\<rparr>)"

definition kernelsU32 :: "cmpOp \<Rightarrow> u32 sameKernels" where
  "kernelsU32 c =
     (case c of
        Eq \<Rightarrow>
          \<lparr>ddBools = eqDDBoolsU32, dsBools = eqDSBoolsU32,
           ddSame = eqDDSameU32, dsSame = eqDSSameU32\<rparr>
      | Gt \<Rightarrow>
          \<lparr>ddBools = gtDDBoolsU32, dsBools = gtDSBoolsU32,
           ddSame = gtDDSameU32, dsSame = gtDSSameU32\<rparr>
      | Gte \<Rightarrow>
          \<lparr>ddBools = gteDDBoolsU32, dsBools = gteDSBoolsU32,
           ddSame = gteDDSameU32, dsSame = gteDSSameU32\<rparr>
      | Lt \<Rightarrow>
          \<lparr>ddBools = ltDDBoolsU32, dsBools = ltDSBoolsU32,
           ddSame = ltDDSameU32, dsSame = ltDSSameU32\<rparr>
      | Lte \<Rightarrow>
          \<lparr>ddBools = lteDDBoolsU32, dsBools = lteDSBoolsU32,
           ddSame = lteDDSameU32, dsSame = lteDSSameU32\<rparr>)"

definition kernelsU64 :: "cmpOp \<Rightarrow> u64 sameKernels" where
  "kernelsU64 c =
     (case c of
        Eq \<Rightarrow>
          \<lparr>ddBools = eqDDBoolsU64, dsBools = eqDSBoolsU64,
           ddSame = eqDDSameU64, dsSame = eqDSSameU64\<rparr>
      | Gt \<Rightarrow>
          \<lparr>ddBools = gtDDBoolsU64, dsBools = gtDSBoolsU64,
           ddSame = gtDDSameU64, dsSame = gtDSSameU64\<rparr>
      | Gte \<Rightarrow>
          \<lparr>ddBools = gteDDBoolsU64, dsBools = gteDSBoolsU64,
           ddSame = gteDDSameU64, dsSame = gteDSSameU64\<rparr>
      | Lt \<Rightarrow>
          \<lparr>ddBools = ltDDBoolsU64, dsBools = ltDSBoolsU64,
           ddSame = ltDDSameU64, dsSame = ltDSSameU64\<rparr>
      | Lte \<Rightarrow>
          \<lparr>ddBools = lteDDBoolsU64, dsBools = lteDSBoolsU64,
           ddSame = lteDDSameU64, dsSame = lteDSSameU64\<rparr>)"

definition kernelsUintptr :: "cmpOp \<Rightarrow> go_uintptr maskKernels" where
  "kernelsUintptr c =
     (case c of
        Eq \<Rightarrow>
          \<lparr>ddBools = eqDDBoolsUintptr, dsBools = eqDSBoolsUintptr\<rparr>
      | Gt \<Rightarrow>
          \<lparr>ddBools = gtDDBoolsUintptr, dsBools = gtDSBoolsUintptr\<rparr>
      | Gte \<Rightarrow>
          \<lparr>ddBools = gteDDBoolsUintptr, dsBools = gteDSBoolsUintptr\<rparr>
      | Lt \<Rightarrow>
          \<lparr>ddBools = ltDDBoolsUintptr, dsBools = ltDSBoolsUintptr\<rparr>
      | Lte \<Rightarrow>
          \<lparr>ddBools = lteDDBoolsUintptr, dsBools = lteDSBoolsUintptr\<rparr>)"

definition kernelsF32 :: "(cmpOp \<Rightarrow> ('f::{zero,one}) \<Rightarrow> 'f \<Rightarrow> bool) \<Rightarrow> cmpOp \<Rightarrow> 'f sameKernels" where
  "kernelsF32 fop c =
     (case c of
        Eq \<Rightarrow>
          \<lparr>ddBools = eqDDBoolsF32 fop, dsBools = eqDSBoolsF32 fop,
           ddSame = eqDDSameF32 fop, dsSame = eqDSSameF32 fop\<rparr>
      | Gt \<Rightarrow>
          \<lparr>ddBools = gtDDBoolsF32 fop, dsBools = gtDSBoolsF32 fop,
           ddSame = gtDDSameF32 fop, dsSame = gtDSSameF32 fop\<rparr>
      | Gte \<Rightarrow>
          \<lparr>ddBools = gteDDBoolsF32 fop, dsBools = gteDSBoolsF32 fop,
           ddSame = gteDDSameF32 fop, dsSame = gteDSSameF32 fop\<rparr>
      | Lt \<Rightarrow>
          \<lparr>ddBools = ltDDBoolsF32 fop, dsBools = ltDSBoolsF32 fop,
           ddSame = ltDDSameF32 fop, dsSame = ltDSSameF32 fop\<rparr>
      | Lte \<Rightarrow>
          \<lparr>ddBools = lteDDBoolsF32 fop, dsBools = lteDSBoolsF32 fop,
           ddSame = lteDDSameF32 fop, dsSame = lteDSSameF32 fop\<rparr>)"

definition kernelsF64 :: "(cmpOp \<Rightarrow> ('f::{zero,one}) \<Rightarrow> 'f \<Rightarrow> bool) \<Rightarrow> cmpOp \<Rightarrow> 'f sameKernels" where
  "kernelsF64 fop c =
     (case c of
        Eq \<Rightarrow>
          \<lparr>ddBools = eqDDBoolsF64 fop, dsBools = eqDSBoolsF64 fop,
           ddSame = eqDDSameF64 fop, dsSame = eqDSSameF64 fop\<rparr>
      | Gt \<Rightarrow>
          \<lparr>ddBools = gtDDBoolsF64 fop, dsBools = gtDSBoolsF64 fop,
           ddSame = gtDDSameF64 fop, dsSame = gtDSSameF64 fop\<rparr>
      | Gte \<Rightarrow>
          \<lparr>ddBools = gteDDBoolsF64 fop, dsBools = gteDSBoolsF64 fop,
           ddSame = gteDDSameF64 fop, dsSame = gteDSSameF64 fop\<rparr>
      | Lt \<Rightarrow>
          \<lparr>ddBools = ltDDBoolsF64 fop, dsBools = ltDSBoolsF64 fop,
           ddSame = ltDDSameF64 fop, dsSame = ltDSSameF64 fop\<rparr>
      | Lte \<Rightarrow>
          \<lparr>ddBools = lteDDBoolsF64 fop, dsBools = lteDSBoolsF64 fop,
           ddSame = lteDDSameF64 fop, dsSame = lteDSSameF64 fop\<rparr>)"

definition kernelsStr :: "cmpOp \<Rightarrow> string maskKernels" where
  "kernelsStr c =
     (case c of
        Eq \<Rightarrow>
          \<lparr>ddBools = eqDDBoolsStr, dsBools = eqDSBoolsStr\<rparr>
      | Gt \<Rightarrow>
          \<lparr>ddBools = gtDDBoolsStr, dsBools = gtDSBoolsStr\<rparr>
      | Gte \<Rightarrow>
          \<lparr>ddBools = gteDDBoolsStr, dsBools = gteDSBoolsStr\<rparr>
      | Lt \<Rightarrow>
          \<lparr>ddBools = ltDDBoolsStr, dsBools = ltDSBoolsStr\<rparr>
      | Lte \<Rightarrow>
          \<lparr>ddBools = lteDDBoolsStr, dsBools = lteDSBoolsStr\<rparr>)"

definition indicator :: "bool list \<Rightarrow> ('a::{zero,one}) list" where
  \<comment> \<open>the same-type indicator of a mask: 1 where it is true, 0 elsewhere\<close>
  "indicator m = map (\<lambda>t. if t then 1 else 0) m"

subsection \<open>The kernels on a store\<close>

text \<open>
  The same loops on an explicit store, for the claims about mutation and aliasing. The
  store is the list of the arrays allocated so far, an array's address its position. A
  slice is a view \<open>(arr, off, len)\<close> of one array (the capacity is never read by the
  kernels). All cells have one type \<open>'v\<close>: for \<open>eqDDBoolsB\<close> it is \<open>bool\<close>, for a
  same-type kernel the element type; \<open>f v w\<close> is the value the loop body stores.
\<close>

type_synonym 'v store = "'v list list"

record slice =
  arr :: nat
  off :: nat
  len :: nat

definition valid :: "'v store \<Rightarrow> slice \<Rightarrow> bool" where
  "valid h s = (arr s < length h \<and> off s + len s \<le> length (h ! arr s))"

definition contents :: "'v store \<Rightarrow> slice \<Rightarrow> 'v list" where
  "contents h s = take (len s) (drop (off s) (h ! arr s))"

definition memIndex :: "'v store \<Rightarrow> slice \<Rightarrow> nat \<Rightarrow> fault + 'v" where
  "memIndex h s i =
     (if i < len s then Inr (h ! arr s ! (off s + i)) else Inl (IndexOutOfRange i (len s)))"

definition memAssign :: "'v store \<Rightarrow> slice \<Rightarrow> nat \<Rightarrow> 'v \<Rightarrow> fault + 'v store" where
  "memAssign h s i v =
     (if i < len s then Inr (h[arr s := (h ! arr s)[off s + i := v]])
      else Inl (IndexOutOfRange i (len s)))"

definition memMake :: "'v store \<Rightarrow> 'v \<Rightarrow> nat \<Rightarrow> 'v store \<times> slice" where
  \<comment> \<open>\<open>make\<close> allocates a new array, at the first unused address\<close>
  "memMake h z n = (h @ [replicate n z], \<lparr>arr = length h, off = 0, len = n\<rparr>)"

function memRangeDD :: "('v \<Rightarrow> 'v \<Rightarrow> 'v) \<Rightarrow> 'v store \<Rightarrow> slice \<Rightarrow> slice \<Rightarrow> slice \<Rightarrow> nat \<Rightarrow> 'v store \<times> fault option" where
  "memRangeDD f h a b retVal i =
     (if i < len a then
        (case memIndex h a i of
           Inl e \<Rightarrow> (h, Some e)
         | Inr v \<Rightarrow>
             (case memIndex h b i of
                Inl e \<Rightarrow> (h, Some e)
              | Inr bi \<Rightarrow>
                  (case memAssign h retVal i (f v bi) of
                     Inl e \<Rightarrow> (h, Some e)
                   | Inr h' \<Rightarrow> memRangeDD f h' a b retVal (Suc i))))
      else (h, None))"
  by pat_completeness auto
termination
  by (relation "measure (\<lambda>(f, h, a, b, retVal, i). len a - i)") auto

function memRangeDS :: "('v \<Rightarrow> 'v \<Rightarrow> 'v) \<Rightarrow> 'v store \<Rightarrow> slice \<Rightarrow> 'v \<Rightarrow> slice \<Rightarrow> nat \<Rightarrow> 'v store \<times> fault option" where
  "memRangeDS f h a b retVal i =
     (if i < len a then
        (case memIndex h a i of
           Inl e \<Rightarrow> (h, Some e)
         | Inr v \<Rightarrow>
             (case memAssign h retVal i (f v b) of
                Inl e \<Rightarrow> (h, Some e)
              | Inr h' \<Rightarrow> memRangeDS f h' a b retVal (Suc i)))
      else (h, None))"
  by pat_completeness auto
termination
  by (relation "measure (\<lambda>(f, h, a, b, retVal, i). len a - i)") auto

definition memKernelDD :: "('v \<Rightarrow> 'v \<Rightarrow> 'v) \<Rightarrow> 'v \<Rightarrow> 'v store \<Rightarrow> slice \<Rightarrow> slice \<Rightarrow> 'v store \<times> (fault + slice)" where
  \<comment> \<open>the final store, and the panic or the returned slice\<close>
  "memKernelDD f z h a b =
     (let (h1, retVal) = memMake h z (len a) in
      case memRangeDD f h1 a b retVal 0 of
        (h2, Some e) \<Rightarrow> (h2, Inl e)
      | (h2, None) \<Rightarrow> (h2, Inr retVal))"

definition memKernelDS :: "('v \<Rightarrow> 'v \<Rightarrow> 'v) \<Rightarrow> 'v \<Rightarrow> 'v store \<Rightarrow> slice \<Rightarrow> 'v \<Rightarrow> 'v store \<times> (fault + slice)" where
  "memKernelDS f z h a b =
     (let (h1, retVal) = memMake h z (len a) in
      case memRangeDS f h1 a b retVal 0 of
        (h2, Some e) \<Rightarrow> (h2, Inl e)
      | (h2, None) \<Rightarrow> (h2, Inr retVal))"

definition eqDDBoolsB_mem :: "bool store \<Rightarrow> slice \<Rightarrow> slice \<Rightarrow> bool store \<times> (fault + slice)" where
  "eqDDBoolsB_mem h a b = memKernelDD (\<lambda>v w. v = w) False h a b"

definition eqDDSameI_mem :: "go_int store \<Rightarrow> slice \<Rightarrow> slice \<Rightarrow> go_int store \<times> (fault + slice)" where
  "eqDDSameI_mem h a b = memKernelDD (\<lambda>v w. if goOpSigned Eq v w then 1 else 0) 0 h a b"

definition eqDSSameI_mem :: "go_int store \<Rightarrow> slice \<Rightarrow> go_int \<Rightarrow> go_int store \<times> (fault + slice)" where
  "eqDSSameI_mem h a b = memKernelDS (\<lambda>v w. if goOpSigned Eq v w then 1 else 0) 0 h a b"

section \<open>The API generator\<close>

subsection \<open>The operator catalog extractor\<close>

text \<open>
  The part of \<open>go/ast\<close> that \<open>constTypes\<close> looks at: a declaration is a \<open>GenDecl\<close>
  with its keyword and its specs, or something else; a spec of a \<open>const\<close> or \<open>var\<close>
  group is a \<open>ValueSpec\<close> with its names and its optional type; a type expression is
  an identifier or something else. Logging is left out.
\<close>

datatype expr = Ident string | OtherExpr

datatype spec = ValueSpec "string list" "expr option" | ImportSpec | TypeSpec

datatype token = TokIMPORT | TokCONST | TokTYPE | TokVAR

datatype decl = GenDecl token "spec list" | FuncDecl | BadDecl

fun IsKeyword :: "token \<Rightarrow> bool" where
  "IsKeyword t = True"

fun tokenString :: "token \<Rightarrow> string" where
  "tokenString TokIMPORT = ''import''"
| "tokenString TokCONST = ''const''"
| "tokenString TokTYPE = ''type''"
| "tokenString TokVAR = ''var''"

fun asValueSpec :: "spec \<Rightarrow> fault + (string list \<times> expr option)" where
  \<comment> \<open>the type assertion \<open>spec.(*ast.ValueSpec)\<close>\<close>
  "asValueSpec (ValueSpec ns ty) = Inr (ns, ty)"
| "asValueSpec _ = Inl InterfaceConversion"

fun rangeSpecs :: "string \<Rightarrow> spec list \<Rightarrow> string list \<Rightarrow> fault + string list" where
  \<comment> \<open>\<open>for _, spec := range d.Specs\<close>\<close>
  "rangeSpecs maxId [] names = Inr names"
| "rangeSpecs maxId (spec # rest) names =
     (case asValueSpec spec of
        Inl e \<Rightarrow> Inl e
      | Inr (ns, ty) \<Rightarrow>
          (case index ns 0 of
             Inl e \<Rightarrow> Inl e
           | Inr name \<Rightarrow>
               if name = maxId then rangeSpecs maxId rest names
               else rangeSpecs maxId rest (names @ [name])))"

fun rangeDecls :: "string \<Rightarrow> string \<Rightarrow> decl list \<Rightarrow> string list \<Rightarrow> fault + string list" where
  \<comment> \<open>\<open>for i, decl := range decls\<close>; each \<open>continue\<close> goes on with \<open>rest\<close>\<close>
  "rangeDecls accept maxId [] names = Inr names"
| "rangeDecls accept maxId (GenDecl tok specs # rest) names =
     (if IsKeyword tok \<and> tokenString tok = ''const'' then
        if length specs = 0 then rangeDecls accept maxId rest names
        else
          (case index specs 0 of
             Inl e \<Rightarrow> Inl e
           | Inr spec0 \<Rightarrow>
               (case asValueSpec spec0 of
                  Inl e \<Rightarrow> Inl e
                | Inr (ns0, typ) \<Rightarrow>
                    (case typ of
                       None \<Rightarrow> rangeDecls accept maxId rest names
                     | Some ty \<Rightarrow>
                         let typename = (case ty of Ident n \<Rightarrow> n | OtherExpr \<Rightarrow> '''') in
                         if typename \<noteq> accept then rangeDecls accept maxId rest names
                         else
                           (case rangeSpecs maxId specs names of
                              Inl e \<Rightarrow> Inl e
                            | Inr names' \<Rightarrow> rangeDecls accept maxId rest names'))))
      else rangeDecls accept maxId rest names)"
| "rangeDecls accept maxId (_ # rest) names = rangeDecls accept maxId rest names"

definition constTypes :: "decl list \<Rightarrow> string \<Rightarrow> string \<Rightarrow> fault + string list" where
  "constTypes decls accept maxId = rangeDecls accept maxId decls []"

text \<open>
  What \<open>go/parser\<close> gives: the specs of a \<open>const\<close> group are value specs, each with
  at least one name.
\<close>

fun wfSpec :: "spec \<Rightarrow> bool" where
  "wfSpec (ValueSpec ns ty) = (ns \<noteq> [])"
| "wfSpec _ = False"

fun wfDecl :: "decl \<Rightarrow> bool" where
  "wfDecl (GenDecl TokCONST specs) = list_all wfSpec specs"
| "wfDecl _ = True"

text \<open>
  The words used to describe the extraction: a group matches when it is a \<open>const\<close>
  group whose first spec has the identifier \<open>accept\<close> as its type; its members are the
  first names of its specs, without the sentinel.
\<close>

fun matches :: "string \<Rightarrow> decl \<Rightarrow> bool" where
  "matches accept (GenDecl TokCONST (ValueSpec ns (Some (Ident n)) # specs)) = (n = accept)"
| "matches accept (GenDecl TokCONST (ValueSpec ns (Some OtherExpr) # specs)) = (accept = '''')"
| "matches accept _ = False"

fun firstName :: "spec \<Rightarrow> string" where
  "firstName (ValueSpec (n # ns) ty) = n"
| "firstName _ = ''''"

fun members :: "string \<Rightarrow> decl \<Rightarrow> string list" where
  "members maxId (GenDecl tok specs) = filter (\<lambda>n. n \<noteq> maxId) (map firstName specs)"
| "members maxId _ = []"

definition constTypes_firstGroup :: "decl list \<Rightarrow> string \<Rightarrow> string \<Rightarrow> string list" where
  \<comment> \<open>the specification's reading: only the first matching group is accepted\<close>
  "constTypes_firstGroup decls accept maxId =
     (case find (matches accept) decls of None \<Rightarrow> [] | Some d \<Rightarrow> members maxId d)"

definition constTypes_allGroups :: "decl list \<Rightarrow> string \<Rightarrow> string \<Rightarrow> string list" where
  \<comment> \<open>every matching group contributes, in order\<close>
  "constTypes_allGroups decls accept maxId =
     concat (map (members maxId) (filter (matches accept) decls))"

subsection \<open>The name normalizer\<close>

text \<open>
  \<open>strings.TrimSuffix\<close>, \<open>strings.Title\<close> and \<open>strings.ToLower\<close> of Go's library, on
  byte strings that hold UTF-8. \<open>Title\<close> and \<open>ToLower\<close> map a string rune by rune:
  \<open>runes\<close> cuts a string into the byte sequences of its runes, by the width that the
  first byte of each rune announces. \<open>Title\<close> maps every rune that follows a
  separator to title case, keeping the previous rune as its state. Within ASCII the
  tables of the package \<open>unicode\<close> are written out; for the runes outside ASCII they
  are a parameter, a record of functions on the bytes of a rune. A string that is not
  valid UTF-8, which Go maps with replacement characters, is outside what is modelled.
\<close>

definition HasSuffix :: "string \<Rightarrow> string \<Rightarrow> bool" where
  "HasSuffix s suffix =
     (length s \<ge> length suffix \<and> drop (length s - length suffix) s = suffix)"

definition TrimSuffix :: "string \<Rightarrow> string \<Rightarrow> string" where
  "TrimSuffix s suffix = (if HasSuffix s suffix then take (length s - length suffix) s else s)"

definition lowerLetters :: string where
  "lowerLetters = ''abcdefghijklmnopqrstuvwxyz''"

definition upperLetters :: string where
  "upperLetters = ''ABCDEFGHIJKLMNOPQRSTUVWXYZ''"

definition digits :: string where
  "digits = ''0123456789''"

record unicode =
  wideIsLetter :: "string \<Rightarrow> bool"  \<comment> \<open>\<open>unicode.IsLetter\<close>, outside ASCII\<close>
  wideIsDigit :: "string \<Rightarrow> bool"  \<comment> \<open>\<open>unicode.IsDigit\<close>\<close>
  wideIsSpace :: "string \<Rightarrow> bool"  \<comment> \<open>\<open>unicode.IsSpace\<close>\<close>
  wideToTitle :: "string \<Rightarrow> string"  \<comment> \<open>\<open>unicode.ToTitle\<close>\<close>
  wideToLower :: "string \<Rightarrow> string"  \<comment> \<open>\<open>unicode.ToLower\<close>\<close>

definition runeWidth :: "char \<Rightarrow> nat" where
  \<comment> \<open>the number of bytes of the rune that starts with this byte\<close>
  "runeWidth c =
     (let n = (of_char c :: nat) in
      if n < 0x80 then 1
      else if 0xC0 \<le> n \<and> n < 0xE0 then 2
      else if 0xE0 \<le> n \<and> n < 0xF0 then 3
      else if 0xF0 \<le> n \<and> n < 0xF8 then 4
      else 1)"

function runes :: "string \<Rightarrow> string list" where
  "runes [] = []"
| "runes (c # cs) = (c # take (runeWidth c - 1) cs) # runes (drop (runeWidth c - 1) cs)"
  by pat_completeness auto
termination
  by (relation "measure length") auto

definition isASCII :: "string \<Rightarrow> bool" where
  \<comment> \<open>a rune of one byte below \<open>0x80\<close>\<close>
  "isASCII r = (case r of [c] \<Rightarrow> (of_char c :: nat) < 0x80 | _ \<Rightarrow> False)"

definition asciiToTitle :: "char \<Rightarrow> char" where
  "asciiToTitle c = (case map_of (zip lowerLetters upperLetters) c of Some u \<Rightarrow> u | None \<Rightarrow> c)"

definition asciiToLower :: "char \<Rightarrow> char" where
  "asciiToLower c = (case map_of (zip upperLetters lowerLetters) c of Some l \<Rightarrow> l | None \<Rightarrow> c)"

definition ToTitleRune :: "unicode \<Rightarrow> string \<Rightarrow> string" where
  "ToTitleRune U r = (if isASCII r then map asciiToTitle r else wideToTitle U r)"

definition ToLowerRune :: "unicode \<Rightarrow> string \<Rightarrow> string" where
  "ToLowerRune U r = (if isASCII r then map asciiToLower r else wideToLower U r)"

definition identChar :: "char \<Rightarrow> bool" where
  \<comment> \<open>the ASCII letters and digits and the underscore\<close>
  "identChar c =
     (c \<in> set digits \<or> c \<in> set lowerLetters \<or> c \<in> set upperLetters \<or> c = CHR ''_'')"

definition isSeparator :: "unicode \<Rightarrow> string \<Rightarrow> bool" where
  "isSeparator U r =
     (if isASCII r then \<not> list_all identChar r
      else if wideIsLetter U r \<or> wideIsDigit U r then False
      else wideIsSpace U r)"

fun titleMap :: "unicode \<Rightarrow> string \<Rightarrow> string list \<Rightarrow> string list" where
  \<comment> \<open>the closure of \<open>Title\<close> mapped over the runes, with its variable \<open>prev\<close>\<close>
  "titleMap U prev [] = []"
| "titleMap U prev (r # rs) =
     (if isSeparator U prev then ToTitleRune U r else r) # titleMap U r rs"

definition Title :: "unicode \<Rightarrow> string \<Rightarrow> string" where
  "Title U s = concat (titleMap U '' '' (runes s))"

definition ToLower :: "unicode \<Rightarrow> string \<Rightarrow> string" where
  "ToLower U s = concat (map (ToLowerRune U) (runes s))"

definition unaryApiName :: "unicode \<Rightarrow> string \<Rightarrow> string" where
  "unaryApiName U v =
     (let apiName = Title U (TrimSuffix v ''OpType'') in
      if apiName = ''Ln'' then ''Log'' else apiName)"

definition binaryApiName :: "unicode \<Rightarrow> string \<Rightarrow> string" where
  "binaryApiName U v =
     (let apiName = Title U (TrimSuffix v ''OpType'') in
      if apiName = ''Mul'' then ''HadamardProd''
      else if apiName = ''Div'' then ''HadamardDiv''
      else apiName)"

definition binaryAsSame :: "string \<Rightarrow> bool" where
  \<comment> \<open>the second \<open>switch apiName\<close> of \<open>generateBinary\<close>\<close>
  "binaryAsSame apiName = (apiName \<in> set [''Lt'', ''Gt'', ''Lte'', ''Gte'', ''Eq'', ''Ne''])"

text \<open>
  The normalizer as the specification words it: the override table is looked up with
  the suffix-stripped form, before the general rule capitalizes (the first rune goes
  to title case).
\<close>

definition Capitalize :: "unicode \<Rightarrow> string \<Rightarrow> string" where
  "Capitalize U s = (case runes s of [] \<Rightarrow> [] | r # rs \<Rightarrow> ToTitleRune U r @ concat rs)"

definition unaryPublicName_spec :: "unicode \<Rightarrow> string \<Rightarrow> string" where
  "unaryPublicName_spec U v =
     (let stripped = TrimSuffix v ''OpType'' in
      if stripped = ''Ln'' then ''Log'' else Capitalize U stripped)"

definition binaryPublicName_spec :: "unicode \<Rightarrow> string \<Rightarrow> string" where
  "binaryPublicName_spec U v =
     (let stripped = TrimSuffix v ''OpType'' in
      if stripped = ''Mul'' then ''HadamardProd''
      else if stripped = ''Div'' then ''HadamardDiv''
      else Capitalize U stripped)"

text \<open>
  The identifiers of Go: a letter, then letters and digits, where a letter is a
  Unicode letter or the underscore and a digit a Unicode digit, each rune well formed
  in UTF-8.
\<close>

definition validRune :: "string \<Rightarrow> bool" where
  "validRune r =
     (case r of
        [] \<Rightarrow> False
      | c # cs \<Rightarrow>
          if (of_char c :: nat) < 0x80 then cs = []
          else 0xC0 \<le> (of_char c :: nat) \<and> (of_char c :: nat) < 0xF8
               \<and> length cs = runeWidth c - 1
               \<and> list_all (\<lambda>b. 0x80 \<le> (of_char b :: nat) \<and> (of_char b :: nat) < 0xC0) cs)"

definition letterRune :: "unicode \<Rightarrow> string \<Rightarrow> bool" where
  "letterRune U r =
     (if isASCII r
      then list_all (\<lambda>c. c \<in> set lowerLetters \<or> c \<in> set upperLetters \<or> c = CHR ''_'') r
      else wideIsLetter U r)"

definition digitRune :: "unicode \<Rightarrow> string \<Rightarrow> bool" where
  "digitRune U r = (if isASCII r then list_all (\<lambda>c. c \<in> set digits) r else wideIsDigit U r)"

definition identRune :: "unicode \<Rightarrow> string \<Rightarrow> bool" where
  "identRune U q = (validRune q \<and> (letterRune U q \<or> digitRune U q))"

definition isIdent :: "unicode \<Rightarrow> string \<Rightarrow> bool" where
  "isIdent U s =
     (case runes s of
        [] \<Rightarrow> False
      | r # rs \<Rightarrow> validRune r \<and> letterRune U r \<and> list_all (identRune U) rs)"

definition latin1 :: unicode where
  \<comment> \<open>an excerpt of the tables, for examples: the letters \<open>U+00E9\<close> and \<open>U+00C9\<close>\<close>
  "latin1 =
     \<lparr>wideIsLetter = (\<lambda>r. r \<in> set [[CHR 0xC3, CHR 0xA9], [CHR 0xC3, CHR 0x89]]),
      wideIsDigit = (\<lambda>r. False),
      wideIsSpace = (\<lambda>r. False),
      wideToTitle = (\<lambda>r. if r = [CHR 0xC3, CHR 0xA9] then [CHR 0xC3, CHR 0x89] else r),
      wideToLower = (\<lambda>r. if r = [CHR 0xC3, CHR 0x89] then [CHR 0xC3, CHR 0xA9] else r)\<rparr>"

subsection \<open>The template emitter\<close>

text \<open>
  \<open>text/template\<close>, as far as the two templates use it: a template is a list of
  nodes (literal text, an action that prints a pipeline, an if-else), a pipeline is a
  field of the data, \<open>lower\<close> of a pipeline (\<open>strings.ToLower\<close>, by \<open>funcmap\<close>) or
  \<open>not\<close> of one. The data is a struct, given by its fields in order. Executing writes
  to the writer as it goes, one \<open>Write\<close> for each text and each printed value, and
  stops at the first error, of the template or of the writer, leaving what is written.
  A writer is a state with its \<open>Write\<close>, which returns the new state and whether all
  was written.
\<close>

datatype tvalue = S string | B bool

datatype texpr = Field string | Lower texpr | Not texpr

datatype tnode = Text string | Action texpr | If texpr "tnode list" "tnode list"

datatype terror = CantEvaluateField string | WrongType | WriteError

type_synonym tdata = "(string \<times> tvalue) list"

fun truth :: "tvalue \<Rightarrow> bool" where
  "truth (B b) = b"
| "truth (S s) = (s \<noteq> [])"

fun printValue :: "tvalue \<Rightarrow> string" where
  "printValue (S s) = s"
| "printValue (B b) = (if b then ''true'' else ''false'')"

fun evalExpr :: "unicode \<Rightarrow> tdata \<Rightarrow> texpr \<Rightarrow> terror + tvalue" where
  "evalExpr U d (Field f) =
     (case map_of d f of None \<Rightarrow> Inl (CantEvaluateField f) | Some v \<Rightarrow> Inr v)"
| "evalExpr U d (Lower e) =
     (case evalExpr U d e of
        Inl x \<Rightarrow> Inl x
      | Inr (S s) \<Rightarrow> Inr (S (ToLower U s))
      | Inr (B b) \<Rightarrow> Inl WrongType)"
| "evalExpr U d (Not e) =
     (case evalExpr U d e of Inl x \<Rightarrow> Inl x | Inr v \<Rightarrow> Inr (B (\<not> truth v)))"

type_synonym 'w writer = "'w \<Rightarrow> string \<Rightarrow> 'w \<times> bool"

fun walk :: "unicode \<Rightarrow> 'w writer \<Rightarrow> tdata \<Rightarrow> tnode list \<Rightarrow> 'w \<Rightarrow> 'w \<times> terror option" where
  "walk U write d [] wr = (wr, None)"
| "walk U write d (Text s # ns) wr =
     (case write wr s of
        (wr', False) \<Rightarrow> (wr', Some WriteError)
      | (wr', True) \<Rightarrow> walk U write d ns wr')"
| "walk U write d (Action e # ns) wr =
     (case evalExpr U d e of
        Inl x \<Rightarrow> (wr, Some x)
      | Inr v \<Rightarrow>
          (case write wr (printValue v) of
             (wr', False) \<Rightarrow> (wr', Some WriteError)
           | (wr', True) \<Rightarrow> walk U write d ns wr'))"
| "walk U write d (If e thn els # ns) wr =
     (case evalExpr U d e of
        Inl x \<Rightarrow> (wr, Some x)
      | Inr v \<Rightarrow>
          (case (if truth v then walk U write d thn wr else walk U write d els wr) of
             (wr', Some x) \<Rightarrow> (wr', Some x)
           | (wr', None) \<Rightarrow> walk U write d ns wr'))"

definition Execute :: "unicode \<Rightarrow> 'w writer \<Rightarrow> tnode list \<Rightarrow> 'w \<Rightarrow> tdata \<Rightarrow> 'w \<times> terror option" where
  \<comment> \<open>\<open>t.Execute(wr, data)\<close>: the writer after the call, and the error returned\<close>
  "Execute U write t wr d = walk U write d t wr"

definition bufferWrite :: "string writer" where
  \<comment> \<open>a writer that keeps all it is given\<close>
  "bufferWrite wr s = (wr @ s, True)"

record osFile =
  written :: string
  room :: nat

definition fileWrite :: "osFile writer" where
  \<comment> \<open>a file on a device with room for \<open>room\<close> more bytes: a write for which the room
      does not suffice writes what fits and fails\<close>
  "fileWrite f s =
     (if length s \<le> room f
      then (f\<lparr>written := written f @ s, room := room f - length s\<rparr>, True)
      else (f\<lparr>written := written f @ take (room f) s, room := 0\<rparr>, False))"

definition tab :: string where
  "tab = [CHR 0x09]"

definition unaryTemplate :: "tnode list" where
  \<comment> \<open>\<open>unaryTemplateRaw\<close>, parsed\<close>
  "unaryTemplate =
     [Text '' // '', Action (Field ''FnName''), Text '' performs a pointwise '',
      Action (Lower (Field ''FnName'')), Text ''.\<newline>func '', Action (Field ''FnName''),
      Text ''(a *Node) (*Node, error) { return unaryOpNode(newElemUnaryOp('',
      Action (Field ''OpType''), Text '', a), a) }\<newline>'']"

definition binaryTemplate :: "tnode list" where
  \<comment> \<open>\<open>binaryTemplateRaw\<close>, parsed: an action closed by \<open>-}}\<close> trims the white space
      that follows it\<close>
  "binaryTemplate =
     [Text ''// '', Action (Field ''FnName''), Text '' perfors a pointwise '',
      Action (Lower (Field ''FnName'')), Text '' operation.\<newline>'',
      If (Field ''AsSame'')
        [Text (''//'' @ tab @ ''retSame indicates if the data type of the return value should be the same as the input data type. It defaults to Bool otherwise.\<newline>'')]
        [],
      Text ''func '', Action (Field ''FnName''), Text ''(a, b *Node'',
      If (Field ''AsSame'') [Text '', retSame bool''] [],
      Text '') (*Node, error) { '',
      If (Not (Field ''AsSame''))
        [Text ''return binOpNode(newElemBinOp('', Action (Field ''OpType''),
         Text '', a, b), a, b) '']
        [Text ''op := newElemBinOp('', Action (Field ''OpType''),
         Text ('', a, b)\<newline>'' @ tab @ ''op.retSame = retSame\<newline>'' @ tab
               @ ''return binOpNode(op, a, b)\<newline>'')],
      Text ''}\<newline>\<newline>// '', Action (Field ''FnName''), Text ''Op ...\<newline>func New'',
      Action (Field ''FnName''),
      Text (''Operation() Operation {\<newline>'' @ tab
            @ ''return func(g graph.WeightedDirected, n node.Node) (ops.Op, error) {\<newline>''
            @ tab @ tab @ ''it := getOrderedChildren(g, n)\<newline>''
            @ tab @ tab @ ''children := make([]*Node, it.Len())\<newline>''
            @ tab @ tab @ ''for i := 0; it.Next(); i++ {\<newline>''
            @ tab @ tab @ tab @ ''children[i] = it.Node().(*Node)\<newline>''
            @ tab @ tab @ ''}\<newline>''
            @ tab @ tab @ ''return newElemBinOp(''),
      Action (Field ''OpType''),
      Text ('', children[0], children[1]), nil\<newline>'' @ tab @ ''}\<newline>}\<newline>'')]"

definition unaryData :: "unicode \<Rightarrow> string \<Rightarrow> tdata" where
  \<comment> \<open>\<open>struct{ FnName, OpType string }{apiName, v}\<close>\<close>
  "unaryData U v = [(''FnName'', S (unaryApiName U v)), (''OpType'', S v)]"

definition binaryData :: "unicode \<Rightarrow> string \<Rightarrow> tdata" where
  \<comment> \<open>\<open>struct{ FnName, OpType string; AsSame bool }\<close>, after the second switch\<close>
  "binaryData U v =
     (let apiName = binaryApiName U v in
      [(''FnName'', S apiName), (''OpType'', S v), (''AsSame'', B (binaryAsSame apiName))])"

text \<open>
  The texts that the two templates are expected to give for a function name \<open>fn\<close>
  and an opcode \<open>opc\<close>: for the binary template the comment line, then the function
  in one of two shapes, then the factory of the operation.
\<close>

definition unaryRendered :: "unicode \<Rightarrow> string \<Rightarrow> string \<Rightarrow> string" where
  "unaryRendered U fn opc =
     '' // '' @ fn @ '' performs a pointwise '' @ ToLower U fn @ ''.\<newline>func '' @ fn
     @ ''(a *Node) (*Node, error) { return unaryOpNode(newElemUnaryOp('' @ opc
     @ '', a), a) }\<newline>''"

definition binaryComment :: "unicode \<Rightarrow> string \<Rightarrow> string" where
  "binaryComment U fn =
     ''// '' @ fn @ '' perfors a pointwise '' @ ToLower U fn @ '' operation.\<newline>''"

definition retSameComment :: string where
  "retSameComment =
     ''//'' @ tab @ ''retSame indicates if the data type of the return value should be the same as the input data type. It defaults to Bool otherwise.\<newline>''"

definition funcDirect :: "string \<Rightarrow> string \<Rightarrow> string" where
  \<comment> \<open>no extra parameter; delegates at once\<close>
  "funcDirect fn opc =
     ''func '' @ fn @ ''(a, b *Node) (*Node, error) { return binOpNode(newElemBinOp('' @ opc
     @ '', a, b), a, b) }\<newline>''"

definition funcWithFlag :: "string \<Rightarrow> string \<Rightarrow> string" where
  \<comment> \<open>the parameter \<open>retSame\<close>, stored in the operation before delegating\<close>
  "funcWithFlag fn opc =
     ''func '' @ fn @ ''(a, b *Node, retSame bool) (*Node, error) { op := newElemBinOp('' @ opc
     @ '', a, b)\<newline>'' @ tab @ ''op.retSame = retSame\<newline>'' @ tab
     @ ''return binOpNode(op, a, b)\<newline>}\<newline>''"

definition operationFactory :: "string \<Rightarrow> string \<Rightarrow> string" where
  "operationFactory fn opc =
     ''\<newline>// '' @ fn @ ''Op ...\<newline>func New'' @ fn @ ''Operation() Operation {\<newline>'' @ tab
     @ ''return func(g graph.WeightedDirected, n node.Node) (ops.Op, error) {\<newline>''
     @ tab @ tab @ ''it := getOrderedChildren(g, n)\<newline>''
     @ tab @ tab @ ''children := make([]*Node, it.Len())\<newline>''
     @ tab @ tab @ ''for i := 0; it.Next(); i++ {\<newline>''
     @ tab @ tab @ tab @ ''children[i] = it.Node().(*Node)\<newline>''
     @ tab @ tab @ ''}\<newline>''
     @ tab @ tab @ ''return newElemBinOp('' @ opc @ '', children[0], children[1]), nil\<newline>''
     @ tab @ ''}\<newline>}\<newline>''"

definition binaryRendered :: "unicode \<Rightarrow> string \<Rightarrow> string \<Rightarrow> bool \<Rightarrow> string" where
  "binaryRendered U fn opc flag =
     binaryComment U fn
     @ (if flag then retSameComment @ funcWithFlag fn opc else funcDirect fn opc)
     @ operationFactory fn opc"

subsection \<open>The two generation passes\<close>

text \<open>
  The result of \<open>parser.ParseFile\<close> is given. The output is the file that \<open>main\<close>
  has opened. A pass ends the process by \<open>log.Fatal\<close>, panics, or returns with the
  file as it then is.
\<close>

datatype parseError = ParseError

datatype abort = Fatal | Panic fault
  \<comment> \<open>\<open>log.Fatal\<close>, which ends the process, or a run-time panic\<close>

fun rangeUnaryNames :: "unicode \<Rightarrow> string list \<Rightarrow> osFile \<Rightarrow> osFile" where
  \<comment> \<open>\<open>for _, v := range unaryNames\<close>: the value \<open>Execute\<close> returns is dropped\<close>
  "rangeUnaryNames U [] outFile = outFile"
| "rangeUnaryNames U (v # rest) outFile =
     (let (outFile', err) = Execute U fileWrite unaryTemplate outFile (unaryData U v) in
      rangeUnaryNames U rest outFile')"

fun rangeBinaryNames :: "unicode \<Rightarrow> string list \<Rightarrow> osFile \<Rightarrow> osFile" where
  "rangeBinaryNames U [] outFile = outFile"
| "rangeBinaryNames U (v # rest) outFile =
     (let (outFile', err) = Execute U fileWrite binaryTemplate outFile (binaryData U v) in
      rangeBinaryNames U rest outFile')"

definition unaryAccept :: string where
  "unaryAccept = [CHR 0xCA, CHR 0x98] @ ''UnaryOperatorType''"

definition unaryMax :: string where
  "unaryMax = ''max'' @ [CHR 0xCA, CHR 0x98] @ ''UnaryOperator''"

definition binaryAccept :: string where
  "binaryAccept = [CHR 0xCA, CHR 0x98] @ ''BinaryOperatorType''"

definition binaryMax :: string where
  "binaryMax = ''max'' @ [CHR 0xCA, CHR 0x98] @ ''BinaryOpType''"

definition generateUnary :: "unicode \<Rightarrow> parseError + decl list \<Rightarrow> osFile \<Rightarrow> abort + osFile" where
  "generateUnary U parsed outFile =
     (case parsed of
        Inl err \<Rightarrow> Inl Fatal
      | Inr decls \<Rightarrow>
          (case constTypes decls unaryAccept unaryMax of
             Inl e \<Rightarrow> Inl (Panic e)
           | Inr unaryNames \<Rightarrow> Inr (rangeUnaryNames U unaryNames outFile)))"

definition generateBinary :: "unicode \<Rightarrow> parseError + decl list \<Rightarrow> osFile \<Rightarrow> abort + osFile" where
  "generateBinary U parsed outFile =
     (case parsed of
        Inl err \<Rightarrow> Inl Fatal
      | Inr decls \<Rightarrow>
          (case constTypes decls binaryAccept binaryMax of
             Inl e \<Rightarrow> Inl (Panic e)
           | Inr binaryNames \<Rightarrow> Inr (rangeBinaryNames U binaryNames outFile)))"

section \<open>The kernel matrix\<close>

text \<open>
  The functions of the generated file, in its order, each by the four components of
  its name \<open>operator, shape, resultKind, typeSuffix\<close>.
\<close>

datatype dataKind =
    K_B | K_I | K_I8 | K_I16 | K_I32 | K_I64 | K_U | K_U8 | K_U16 | K_U32 | K_U64
  | K_Uintptr | K_F32 | K_F64 | K_C64 | K_C128 | K_Str | K_UnsafePointer

datatype shape = DD | DS

datatype resultKind = Bools | Same

type_synonym kernelVariant = "cmpOp \<times> dataKind \<times> shape \<times> resultKind"

definition kernelMatrix :: "kernelVariant list" where
  "kernelMatrix =
    [
     (Eq, K_B, DD, Bools), (Eq, K_B, DS, Bools), (Eq, K_I, DD, Bools), (Eq, K_I, DD, Same),
     (Eq, K_I, DS, Bools), (Eq, K_I, DS, Same), (Eq, K_I8, DD, Bools), (Eq, K_I8, DD, Same),
     (Eq, K_I8, DS, Bools), (Eq, K_I8, DS, Same), (Eq, K_I16, DD, Bools), (Eq, K_I16, DD, Same),
     (Eq, K_I16, DS, Bools), (Eq, K_I16, DS, Same), (Eq, K_I32, DD, Bools), (Eq, K_I32, DD, Same),
     (Eq, K_I32, DS, Bools), (Eq, K_I32, DS, Same), (Eq, K_I64, DD, Bools), (Eq, K_I64, DD, Same),
     (Eq, K_I64, DS, Bools), (Eq, K_I64, DS, Same), (Eq, K_U, DD, Bools), (Eq, K_U, DD, Same),
     (Eq, K_U, DS, Bools), (Eq, K_U, DS, Same), (Eq, K_U8, DD, Bools), (Eq, K_U8, DD, Same),
     (Eq, K_U8, DS, Bools), (Eq, K_U8, DS, Same), (Eq, K_U16, DD, Bools), (Eq, K_U16, DD, Same),
     (Eq, K_U16, DS, Bools), (Eq, K_U16, DS, Same), (Eq, K_U32, DD, Bools), (Eq, K_U32, DD, Same),
     (Eq, K_U32, DS, Bools), (Eq, K_U32, DS, Same), (Eq, K_U64, DD, Bools), (Eq, K_U64, DD, Same),
     (Eq, K_U64, DS, Bools), (Eq, K_U64, DS, Same), (Eq, K_Uintptr, DD, Bools), (Eq, K_Uintptr, DS, Bools),
     (Eq, K_F32, DD, Bools), (Eq, K_F32, DD, Same), (Eq, K_F32, DS, Bools), (Eq, K_F32, DS, Same),
     (Eq, K_F64, DD, Bools), (Eq, K_F64, DD, Same), (Eq, K_F64, DS, Bools), (Eq, K_F64, DS, Same),
     (Eq, K_C64, DD, Bools), (Eq, K_C64, DD, Same), (Eq, K_C64, DS, Bools), (Eq, K_C64, DS, Same),
     (Eq, K_C128, DD, Bools), (Eq, K_C128, DD, Same), (Eq, K_C128, DS, Bools), (Eq, K_C128, DS, Same),
     (Eq, K_Str, DD, Bools), (Eq, K_Str, DS, Bools), (Eq, K_UnsafePointer, DD, Bools), (Eq, K_UnsafePointer, DS, Bools),
     (Gt, K_I, DD, Bools), (Gt, K_I, DD, Same), (Gt, K_I, DS, Bools), (Gt, K_I, DS, Same),
     (Gt, K_I8, DD, Bools), (Gt, K_I8, DD, Same), (Gt, K_I8, DS, Bools), (Gt, K_I8, DS, Same),
     (Gt, K_I16, DD, Bools), (Gt, K_I16, DD, Same), (Gt, K_I16, DS, Bools), (Gt, K_I16, DS, Same),
     (Gt, K_I32, DD, Bools), (Gt, K_I32, DD, Same), (Gt, K_I32, DS, Bools), (Gt, K_I32, DS, Same),
     (Gt, K_I64, DD, Bools), (Gt, K_I64, DD, Same), (Gt, K_I64, DS, Bools), (Gt, K_I64, DS, Same),
     (Gt, K_U, DD, Bools), (Gt, K_U, DD, Same), (Gt, K_U, DS, Bools), (Gt, K_U, DS, Same),
     (Gt, K_U8, DD, Bools), (Gt, K_U8, DD, Same), (Gt, K_U8, DS, Bools), (Gt, K_U8, DS, Same),
     (Gt, K_U16, DD, Bools), (Gt, K_U16, DD, Same), (Gt, K_U16, DS, Bools), (Gt, K_U16, DS, Same),
     (Gt, K_U32, DD, Bools), (Gt, K_U32, DD, Same), (Gt, K_U32, DS, Bools), (Gt, K_U32, DS, Same),
     (Gt, K_U64, DD, Bools), (Gt, K_U64, DD, Same), (Gt, K_U64, DS, Bools), (Gt, K_U64, DS, Same),
     (Gt, K_Uintptr, DD, Bools), (Gt, K_Uintptr, DS, Bools), (Gt, K_F32, DD, Bools), (Gt, K_F32, DD, Same),
     (Gt, K_F32, DS, Bools), (Gt, K_F32, DS, Same), (Gt, K_F64, DD, Bools), (Gt, K_F64, DD, Same),
     (Gt, K_F64, DS, Bools), (Gt, K_F64, DS, Same), (Gt, K_Str, DD, Bools), (Gt, K_Str, DS, Bools),
     (Gte, K_I, DD, Bools), (Gte, K_I, DD, Same), (Gte, K_I, DS, Bools), (Gte, K_I, DS, Same),
     (Gte, K_I8, DD, Bools), (Gte, K_I8, DD, Same), (Gte, K_I8, DS, Bools), (Gte, K_I8, DS, Same),
     (Gte, K_I16, DD, Bools), (Gte, K_I16, DD, Same), (Gte, K_I16, DS, Bools), (Gte, K_I16, DS, Same),
     (Gte, K_I32, DD, Bools), (Gte, K_I32, DD, Same), (Gte, K_I32, DS, Bools), (Gte, K_I32, DS, Same),
     (Gte, K_I64, DD, Bools), (Gte, K_I64, DD, Same), (Gte, K_I64, DS, Bools), (Gte, K_I64, DS, Same),
     (Gte, K_U, DD, Bools), (Gte, K_U, DD, Same), (Gte, K_U, DS, Bools), (Gte, K_U, DS, Same),
     (Gte, K_U8, DD, Bools), (Gte, K_U8, DD, Same), (Gte, K_U8, DS, Bools), (Gte, K_U8, DS, Same),
     (Gte, K_U16, DD, Bools), (Gte, K_U16, DD, Same), (Gte, K_U16, DS, Bools), (Gte, K_U16, DS, Same),
     (Gte, K_U32, DD, Bools), (Gte, K_U32, DD, Same), (Gte, K_U32, DS, Bools), (Gte, K_U32, DS, Same),
     (Gte, K_U64, DD, Bools), (Gte, K_U64, DD, Same), (Gte, K_U64, DS, Bools), (Gte, K_U64, DS, Same),
     (Gte, K_Uintptr, DD, Bools), (Gte, K_Uintptr, DS, Bools), (Gte, K_F32, DD, Bools), (Gte, K_F32, DD, Same),
     (Gte, K_F32, DS, Bools), (Gte, K_F32, DS, Same), (Gte, K_F64, DD, Bools), (Gte, K_F64, DD, Same),
     (Gte, K_F64, DS, Bools), (Gte, K_F64, DS, Same), (Gte, K_Str, DD, Bools), (Gte, K_Str, DS, Bools),
     (Lt, K_I, DD, Bools), (Lt, K_I, DD, Same), (Lt, K_I, DS, Bools), (Lt, K_I, DS, Same),
     (Lt, K_I8, DD, Bools), (Lt, K_I8, DD, Same), (Lt, K_I8, DS, Bools), (Lt, K_I8, DS, Same),
     (Lt, K_I16, DD, Bools), (Lt, K_I16, DD, Same), (Lt, K_I16, DS, Bools), (Lt, K_I16, DS, Same),
     (Lt, K_I32, DD, Bools), (Lt, K_I32, DD, Same), (Lt, K_I32, DS, Bools), (Lt, K_I32, DS, Same),
     (Lt, K_I64, DD, Bools), (Lt, K_I64, DD, Same), (Lt, K_I64, DS, Bools), (Lt, K_I64, DS, Same),
     (Lt, K_U, DD, Bools), (Lt, K_U, DD, Same), (Lt, K_U, DS, Bools), (Lt, K_U, DS, Same),
     (Lt, K_U8, DD, Bools), (Lt, K_U8, DD, Same), (Lt, K_U8, DS, Bools), (Lt, K_U8, DS, Same),
     (Lt, K_U16, DD, Bools), (Lt, K_U16, DD, Same), (Lt, K_U16, DS, Bools), (Lt, K_U16, DS, Same),
     (Lt, K_U32, DD, Bools), (Lt, K_U32, DD, Same), (Lt, K_U32, DS, Bools), (Lt, K_U32, DS, Same),
     (Lt, K_U64, DD, Bools), (Lt, K_U64, DD, Same), (Lt, K_U64, DS, Bools), (Lt, K_U64, DS, Same),
     (Lt, K_Uintptr, DD, Bools), (Lt, K_Uintptr, DS, Bools), (Lt, K_F32, DD, Bools), (Lt, K_F32, DD, Same),
     (Lt, K_F32, DS, Bools), (Lt, K_F32, DS, Same), (Lt, K_F64, DD, Bools), (Lt, K_F64, DD, Same),
     (Lt, K_F64, DS, Bools), (Lt, K_F64, DS, Same), (Lt, K_Str, DD, Bools), (Lt, K_Str, DS, Bools),
     (Lte, K_I, DD, Bools), (Lte, K_I, DD, Same), (Lte, K_I, DS, Bools), (Lte, K_I, DS, Same),
     (Lte, K_I8, DD, Bools), (Lte, K_I8, DD, Same), (Lte, K_I8, DS, Bools), (Lte, K_I8, DS, Same),
     (Lte, K_I16, DD, Bools), (Lte, K_I16, DD, Same), (Lte, K_I16, DS, Bools), (Lte, K_I16, DS, Same),
     (Lte, K_I32, DD, Bools), (Lte, K_I32, DD, Same), (Lte, K_I32, DS, Bools), (Lte, K_I32, DS, Same),
     (Lte, K_I64, DD, Bools), (Lte, K_I64, DD, Same), (Lte, K_I64, DS, Bools), (Lte, K_I64, DS, Same),
     (Lte, K_U, DD, Bools), (Lte, K_U, DD, Same), (Lte, K_U, DS, Bools), (Lte, K_U, DS, Same),
     (Lte, K_U8, DD, Bools), (Lte, K_U8, DD, Same), (Lte, K_U8, DS, Bools), (Lte, K_U8, DS, Same),
     (Lte, K_U16, DD, Bools), (Lte, K_U16, DD, Same), (Lte, K_U16, DS, Bools), (Lte, K_U16, DS, Same),
     (Lte, K_U32, DD, Bools), (Lte, K_U32, DD, Same), (Lte, K_U32, DS, Bools), (Lte, K_U32, DS, Same),
     (Lte, K_U64, DD, Bools), (Lte, K_U64, DD, Same), (Lte, K_U64, DS, Bools), (Lte, K_U64, DS, Same),
     (Lte, K_Uintptr, DD, Bools), (Lte, K_Uintptr, DS, Bools), (Lte, K_F32, DD, Bools), (Lte, K_F32, DD, Same),
     (Lte, K_F32, DS, Bools), (Lte, K_F32, DS, Same), (Lte, K_F64, DD, Bools), (Lte, K_F64, DD, Same),
     (Lte, K_F64, DS, Bools), (Lte, K_F64, DS, Same), (Lte, K_Str, DD, Bools), (Lte, K_Str, DS, Bools)
    ]"

fun operatorPrefix :: "cmpOp \<Rightarrow> string" where
  "operatorPrefix Eq = ''eq''"
| "operatorPrefix Gt = ''gt''"
| "operatorPrefix Gte = ''gte''"
| "operatorPrefix Lt = ''lt''"
| "operatorPrefix Lte = ''lte''"

fun typeSuffix :: "dataKind \<Rightarrow> string" where
  "typeSuffix K_B = ''B''"
| "typeSuffix K_I = ''I''"
| "typeSuffix K_I8 = ''I8''"
| "typeSuffix K_I16 = ''I16''"
| "typeSuffix K_I32 = ''I32''"
| "typeSuffix K_I64 = ''I64''"
| "typeSuffix K_U = ''U''"
| "typeSuffix K_U8 = ''U8''"
| "typeSuffix K_U16 = ''U16''"
| "typeSuffix K_U32 = ''U32''"
| "typeSuffix K_U64 = ''U64''"
| "typeSuffix K_Uintptr = ''Uintptr''"
| "typeSuffix K_F32 = ''F32''"
| "typeSuffix K_F64 = ''F64''"
| "typeSuffix K_C64 = ''C64''"
| "typeSuffix K_C128 = ''C128''"
| "typeSuffix K_Str = ''Str''"
| "typeSuffix K_UnsafePointer = ''UnsafePointer''"

fun shapeName :: "shape \<Rightarrow> string" where
  "shapeName DD = ''DD''"
| "shapeName DS = ''DS''"

fun resultKindName :: "resultKind \<Rightarrow> string" where
  "resultKindName Bools = ''Bools''"
| "resultKindName Same = ''Same''"

fun kernelName :: "kernelVariant \<Rightarrow> string" where
  "kernelName (c, k, sh, rk) = operatorPrefix c @ shapeName sh @ resultKindName rk @ typeSuffix k"

definition kernelNames :: "string list" where
  \<comment> \<open>the names of the generated functions, as the file declares them\<close>
  "kernelNames =
    [
     ''eqDDBoolsB'', ''eqDSBoolsB'', ''eqDDBoolsI'', ''eqDDSameI'', ''eqDSBoolsI'',
     ''eqDSSameI'', ''eqDDBoolsI8'', ''eqDDSameI8'', ''eqDSBoolsI8'', ''eqDSSameI8'',
     ''eqDDBoolsI16'', ''eqDDSameI16'', ''eqDSBoolsI16'', ''eqDSSameI16'', ''eqDDBoolsI32'',
     ''eqDDSameI32'', ''eqDSBoolsI32'', ''eqDSSameI32'', ''eqDDBoolsI64'', ''eqDDSameI64'',
     ''eqDSBoolsI64'', ''eqDSSameI64'', ''eqDDBoolsU'', ''eqDDSameU'', ''eqDSBoolsU'',
     ''eqDSSameU'', ''eqDDBoolsU8'', ''eqDDSameU8'', ''eqDSBoolsU8'', ''eqDSSameU8'',
     ''eqDDBoolsU16'', ''eqDDSameU16'', ''eqDSBoolsU16'', ''eqDSSameU16'', ''eqDDBoolsU32'',
     ''eqDDSameU32'', ''eqDSBoolsU32'', ''eqDSSameU32'', ''eqDDBoolsU64'', ''eqDDSameU64'',
     ''eqDSBoolsU64'', ''eqDSSameU64'', ''eqDDBoolsUintptr'', ''eqDSBoolsUintptr'', ''eqDDBoolsF32'',
     ''eqDDSameF32'', ''eqDSBoolsF32'', ''eqDSSameF32'', ''eqDDBoolsF64'', ''eqDDSameF64'',
     ''eqDSBoolsF64'', ''eqDSSameF64'', ''eqDDBoolsC64'', ''eqDDSameC64'', ''eqDSBoolsC64'',
     ''eqDSSameC64'', ''eqDDBoolsC128'', ''eqDDSameC128'', ''eqDSBoolsC128'', ''eqDSSameC128'',
     ''eqDDBoolsStr'', ''eqDSBoolsStr'', ''eqDDBoolsUnsafePointer'', ''eqDSBoolsUnsafePointer'', ''gtDDBoolsI'',
     ''gtDDSameI'', ''gtDSBoolsI'', ''gtDSSameI'', ''gtDDBoolsI8'', ''gtDDSameI8'',
     ''gtDSBoolsI8'', ''gtDSSameI8'', ''gtDDBoolsI16'', ''gtDDSameI16'', ''gtDSBoolsI16'',
     ''gtDSSameI16'', ''gtDDBoolsI32'', ''gtDDSameI32'', ''gtDSBoolsI32'', ''gtDSSameI32'',
     ''gtDDBoolsI64'', ''gtDDSameI64'', ''gtDSBoolsI64'', ''gtDSSameI64'', ''gtDDBoolsU'',
     ''gtDDSameU'', ''gtDSBoolsU'', ''gtDSSameU'', ''gtDDBoolsU8'', ''gtDDSameU8'',
     ''gtDSBoolsU8'', ''gtDSSameU8'', ''gtDDBoolsU16'', ''gtDDSameU16'', ''gtDSBoolsU16'',
     ''gtDSSameU16'', ''gtDDBoolsU32'', ''gtDDSameU32'', ''gtDSBoolsU32'', ''gtDSSameU32'',
     ''gtDDBoolsU64'', ''gtDDSameU64'', ''gtDSBoolsU64'', ''gtDSSameU64'', ''gtDDBoolsUintptr'',
     ''gtDSBoolsUintptr'', ''gtDDBoolsF32'', ''gtDDSameF32'', ''gtDSBoolsF32'', ''gtDSSameF32'',
     ''gtDDBoolsF64'', ''gtDDSameF64'', ''gtDSBoolsF64'', ''gtDSSameF64'', ''gtDDBoolsStr'',
     ''gtDSBoolsStr'', ''gteDDBoolsI'', ''gteDDSameI'', ''gteDSBoolsI'', ''gteDSSameI'',
     ''gteDDBoolsI8'', ''gteDDSameI8'', ''gteDSBoolsI8'', ''gteDSSameI8'', ''gteDDBoolsI16'',
     ''gteDDSameI16'', ''gteDSBoolsI16'', ''gteDSSameI16'', ''gteDDBoolsI32'', ''gteDDSameI32'',
     ''gteDSBoolsI32'', ''gteDSSameI32'', ''gteDDBoolsI64'', ''gteDDSameI64'', ''gteDSBoolsI64'',
     ''gteDSSameI64'', ''gteDDBoolsU'', ''gteDDSameU'', ''gteDSBoolsU'', ''gteDSSameU'',
     ''gteDDBoolsU8'', ''gteDDSameU8'', ''gteDSBoolsU8'', ''gteDSSameU8'', ''gteDDBoolsU16'',
     ''gteDDSameU16'', ''gteDSBoolsU16'', ''gteDSSameU16'', ''gteDDBoolsU32'', ''gteDDSameU32'',
     ''gteDSBoolsU32'', ''gteDSSameU32'', ''gteDDBoolsU64'', ''gteDDSameU64'', ''gteDSBoolsU64'',
     ''gteDSSameU64'', ''gteDDBoolsUintptr'', ''gteDSBoolsUintptr'', ''gteDDBoolsF32'', ''gteDDSameF32'',
     ''gteDSBoolsF32'', ''gteDSSameF32'', ''gteDDBoolsF64'', ''gteDDSameF64'', ''gteDSBoolsF64'',
     ''gteDSSameF64'', ''gteDDBoolsStr'', ''gteDSBoolsStr'', ''ltDDBoolsI'', ''ltDDSameI'',
     ''ltDSBoolsI'', ''ltDSSameI'', ''ltDDBoolsI8'', ''ltDDSameI8'', ''ltDSBoolsI8'',
     ''ltDSSameI8'', ''ltDDBoolsI16'', ''ltDDSameI16'', ''ltDSBoolsI16'', ''ltDSSameI16'',
     ''ltDDBoolsI32'', ''ltDDSameI32'', ''ltDSBoolsI32'', ''ltDSSameI32'', ''ltDDBoolsI64'',
     ''ltDDSameI64'', ''ltDSBoolsI64'', ''ltDSSameI64'', ''ltDDBoolsU'', ''ltDDSameU'',
     ''ltDSBoolsU'', ''ltDSSameU'', ''ltDDBoolsU8'', ''ltDDSameU8'', ''ltDSBoolsU8'',
     ''ltDSSameU8'', ''ltDDBoolsU16'', ''ltDDSameU16'', ''ltDSBoolsU16'', ''ltDSSameU16'',
     ''ltDDBoolsU32'', ''ltDDSameU32'', ''ltDSBoolsU32'', ''ltDSSameU32'', ''ltDDBoolsU64'',
     ''ltDDSameU64'', ''ltDSBoolsU64'', ''ltDSSameU64'', ''ltDDBoolsUintptr'', ''ltDSBoolsUintptr'',
     ''ltDDBoolsF32'', ''ltDDSameF32'', ''ltDSBoolsF32'', ''ltDSSameF32'', ''ltDDBoolsF64'',
     ''ltDDSameF64'', ''ltDSBoolsF64'', ''ltDSSameF64'', ''ltDDBoolsStr'', ''ltDSBoolsStr'',
     ''lteDDBoolsI'', ''lteDDSameI'', ''lteDSBoolsI'', ''lteDSSameI'', ''lteDDBoolsI8'',
     ''lteDDSameI8'', ''lteDSBoolsI8'', ''lteDSSameI8'', ''lteDDBoolsI16'', ''lteDDSameI16'',
     ''lteDSBoolsI16'', ''lteDSSameI16'', ''lteDDBoolsI32'', ''lteDDSameI32'', ''lteDSBoolsI32'',
     ''lteDSSameI32'', ''lteDDBoolsI64'', ''lteDDSameI64'', ''lteDSBoolsI64'', ''lteDSSameI64'',
     ''lteDDBoolsU'', ''lteDDSameU'', ''lteDSBoolsU'', ''lteDSSameU'', ''lteDDBoolsU8'',
     ''lteDDSameU8'', ''lteDSBoolsU8'', ''lteDSSameU8'', ''lteDDBoolsU16'', ''lteDDSameU16'',
     ''lteDSBoolsU16'', ''lteDSSameU16'', ''lteDDBoolsU32'', ''lteDDSameU32'', ''lteDSBoolsU32'',
     ''lteDSSameU32'', ''lteDDBoolsU64'', ''lteDDSameU64'', ''lteDSBoolsU64'', ''lteDSSameU64'',
     ''lteDDBoolsUintptr'', ''lteDSBoolsUintptr'', ''lteDDBoolsF32'', ''lteDDSameF32'', ''lteDSBoolsF32'',
     ''lteDSSameF32'', ''lteDDBoolsF64'', ''lteDDSameF64'', ''lteDSBoolsF64'', ''lteDSSameF64'',
     ''lteDDBoolsStr'', ''lteDSBoolsStr''
    ]"

text \<open>The groups of kinds that the capability restriction names.\<close>

fun isOrdering :: "cmpOp \<Rightarrow> bool" where
  "isOrdering Eq = False"
| "isOrdering _ = True"

definition complexKinds :: "dataKind list" where
  "complexKinds = [K_C64, K_C128]"

definition pointerKinds :: "dataKind list" where
  \<comment> \<open>the pointer-sized integer and the opaque pointer of the type catalog\<close>
  "pointerKinds = [K_Uintptr, K_UnsafePointer]"

definition orderable :: "dataKind \<Rightarrow> bool" where
  \<comment> \<open>the kinds whose Go type has \<open><\<close>: integers, floats, strings\<close>
  "orderable k = (k \<notin> set [K_B, K_C64, K_C128, K_UnsafePointer])"

definition hasSameKind :: "dataKind \<Rightarrow> bool" where
  \<comment> \<open>the kinds with generated same-type-indicator kernels\<close>
  "hasSameKind k = (k \<notin> set [K_B, K_Uintptr, K_Str, K_UnsafePointer])"

definition allVariants :: "kernelVariant list" where
  "allVariants =
     concat (map (\<lambda>c. concat (map (\<lambda>k. concat (map (\<lambda>sh. map (\<lambda>rk. (c, k, sh, rk)) [Bools, Same]) [DD, DS]))
       [K_B, K_I, K_I8, K_I16, K_I32, K_I64, K_U, K_U8, K_U16, K_U32, K_U64, K_Uintptr,
        K_F32, K_F64, K_C64, K_C128, K_Str, K_UnsafePointer])) [Eq, Gt, Gte, Lt, Lte])"

definition capable :: "kernelVariant \<Rightarrow> bool" where
  \<comment> \<open>an ordering operator needs an orderable kind, a same-type result a kind with one\<close>
  "capable v = (case v of (c, k, sh, rk) \<Rightarrow>
     (isOrdering c \<longrightarrow> orderable k) \<and> (rk = Same \<longrightarrow> hasSameKind k))"

section \<open>Properties of the kernels\<close>

subsection \<open>What the loops compute\<close>

lemma rangeDDBools_run:
  "i + length rest \<le> length b \<Longrightarrow> i + length rest \<le> length retVal \<Longrightarrow>
   rangeDDBools opr rest b i retVal =
     Inr (take i retVal @ map2 opr rest (drop i b) @ drop (i + length rest) retVal)"
proof (induction rest arbitrary: i retVal)
  case Nil
  then show ?case by simp
next
  case (Cons v rest)
  let ?r = "retVal[i := opr v (b ! i)]"
  have ib: "i < length b" and ir: "i < length retVal"
    using Cons.prems by simp_all
  have step: "rangeDDBools opr (v # rest) b i retVal = rangeDDBools opr rest b (Suc i) ?r"
    using ib ir by (simp add: index_def assign_def)
  have "rangeDDBools opr rest b (Suc i) ?r =
      Inr (take (Suc i) ?r @ map2 opr rest (drop (Suc i) b) @ drop (Suc i + length rest) ?r)"
    using Cons.prems by (intro Cons.IH) simp_all
  moreover have "take (Suc i) ?r = take i retVal @ [opr v (b ! i)]"
    using ir by (simp add: take_Suc_conv_app_nth)
  moreover have "drop i b = b ! i # drop (Suc i) b"
    using ib by (simp add: Cons_nth_drop_Suc)
  ultimately show ?case
    using step by simp
qed

lemma rangeDDSame_run:
  "i + length rest \<le> length b \<Longrightarrow> i + length rest \<le> length retVal \<Longrightarrow>
   rangeDDSame opr rest b i retVal =
     Inr (take i retVal @ map2 (\<lambda>v w. if opr v w then 1 else 0) rest (drop i b)
          @ drop (i + length rest) retVal)"
proof (induction rest arbitrary: i retVal)
  case Nil
  then show ?case by simp
next
  case (Cons v rest)
  let ?x = "if opr v (b ! i) then 1 else 0"
  let ?r = "retVal[i := ?x]"
  have ib: "i < length b" and ir: "i < length retVal"
    using Cons.prems by simp_all
  have step: "rangeDDSame opr (v # rest) b i retVal = rangeDDSame opr rest b (Suc i) ?r"
    using ib ir by (simp add: index_def assign_def)
  have "rangeDDSame opr rest b (Suc i) ?r =
      Inr (take (Suc i) ?r @ map2 (\<lambda>v w. if opr v w then 1 else 0) rest (drop (Suc i) b)
           @ drop (Suc i + length rest) ?r)"
    using Cons.prems by (intro Cons.IH) simp_all
  moreover have "take (Suc i) ?r = take i retVal @ [?x]"
    using ir by (simp add: take_Suc_conv_app_nth)
  moreover have "drop i b = b ! i # drop (Suc i) b"
    using ib by (simp add: Cons_nth_drop_Suc)
  ultimately show ?case
    using step by simp
qed

lemma rangeDSBools_run:
  "i + length rest \<le> length retVal \<Longrightarrow>
   rangeDSBools opr rest b i retVal =
     Inr (take i retVal @ map (\<lambda>v. opr v b) rest @ drop (i + length rest) retVal)"
proof (induction rest arbitrary: i retVal)
  case Nil
  then show ?case by simp
next
  case (Cons v rest)
  let ?r = "retVal[i := opr v b]"
  have ir: "i < length retVal"
    using Cons.prems by simp
  have step: "rangeDSBools opr (v # rest) b i retVal = rangeDSBools opr rest b (Suc i) ?r"
    using ir by (simp add: assign_def)
  have "rangeDSBools opr rest b (Suc i) ?r =
      Inr (take (Suc i) ?r @ map (\<lambda>v. opr v b) rest @ drop (Suc i + length rest) ?r)"
    using Cons.prems by (intro Cons.IH) simp_all
  moreover have "take (Suc i) ?r = take i retVal @ [opr v b]"
    using ir by (simp add: take_Suc_conv_app_nth)
  ultimately show ?case
    using step by simp
qed

lemma rangeDSSame_run:
  "i + length rest \<le> length retVal \<Longrightarrow>
   rangeDSSame opr rest b i retVal =
     Inr (take i retVal @ map (\<lambda>v. if opr v b then 1 else 0) rest
          @ drop (i + length rest) retVal)"
proof (induction rest arbitrary: i retVal)
  case Nil
  then show ?case by simp
next
  case (Cons v rest)
  let ?x = "if opr v b then 1 else 0"
  let ?r = "retVal[i := ?x]"
  have ir: "i < length retVal"
    using Cons.prems by simp
  have step: "rangeDSSame opr (v # rest) b i retVal = rangeDSSame opr rest b (Suc i) ?r"
    using ir by (simp add: assign_def)
  have "rangeDSSame opr rest b (Suc i) ?r =
      Inr (take (Suc i) ?r @ map (\<lambda>v. if opr v b then 1 else 0) rest
           @ drop (Suc i + length rest) ?r)"
    using Cons.prems by (intro Cons.IH) simp_all
  moreover have "take (Suc i) ?r = take i retVal @ [?x]"
    using ir by (simp add: take_Suc_conv_app_nth)
  ultimately show ?case
    using step by simp
qed

lemma compareArrayArray_eq:
  "length a \<le> length b \<Longrightarrow> compareArrayArray opr a b = Inr (map2 opr a b)"
  by (simp add: compareArrayArray_def go_make_def rangeDDBools_run)

lemma compareArrayArraySame_eq:
  "length a \<le> length b \<Longrightarrow>
   compareArrayArraySame opr a b = Inr (map2 (\<lambda>v w. if opr v w then 1 else 0) a b)"
  by (simp add: compareArrayArraySame_def go_make_def rangeDDSame_run)

lemma compareArrayScalar_eq:
  "compareArrayScalar opr a b = Inr (map (\<lambda>v. opr v b) a)"
  by (simp add: compareArrayScalar_def go_make_def rangeDSBools_run)

lemma compareArrayScalarSame_eq:
  "compareArrayScalarSame opr a b = Inr (map (\<lambda>v. if opr v b then 1 else 0) a)"
  by (simp add: compareArrayScalarSame_def go_make_def rangeDSSame_run)

lemma rangeDDBools_fault:
  "i \<le> length b \<Longrightarrow> length b < i + length rest \<Longrightarrow> i + length rest \<le> length retVal \<Longrightarrow>
   rangeDDBools opr rest b i retVal = Inl (IndexOutOfRange (length b) (length b))"
proof (induction rest arbitrary: i retVal)
  case Nil
  then show ?case by simp
next
  case (Cons v rest)
  show ?case
  proof (cases "i < length b")
    case True
    then have "rangeDDBools opr (v # rest) b i retVal
        = rangeDDBools opr rest b (Suc i) (retVal[i := opr v (b ! i)])"
      using Cons.prems by (simp add: index_def assign_def)
    also have "\<dots> = Inl (IndexOutOfRange (length b) (length b))"
      using True Cons.prems by (intro Cons.IH) simp_all
    finally show ?thesis .
  next
    case False
    then have "i = length b" using Cons.prems by simp
    then show ?thesis by (simp add: index_def)
  qed
qed

lemma rangeDDSame_fault:
  "i \<le> length b \<Longrightarrow> length b < i + length rest \<Longrightarrow> i + length rest \<le> length retVal \<Longrightarrow>
   rangeDDSame opr rest b i retVal = Inl (IndexOutOfRange (length b) (length b))"
proof (induction rest arbitrary: i retVal)
  case Nil
  then show ?case by simp
next
  case (Cons v rest)
  show ?case
  proof (cases "i < length b")
    case True
    then have "rangeDDSame opr (v # rest) b i retVal
        = rangeDDSame opr rest b (Suc i) (retVal[i := if opr v (b ! i) then 1 else 0])"
      using Cons.prems by (simp add: index_def assign_def)
    also have "\<dots> = Inl (IndexOutOfRange (length b) (length b))"
      using True Cons.prems by (intro Cons.IH) simp_all
    finally show ?thesis .
  next
    case False
    then have "i = length b" using Cons.prems by simp
    then show ?thesis by (simp add: index_def)
  qed
qed

lemma compareArrayArray_fault:
  "length b < length a \<Longrightarrow>
   compareArrayArray opr a b = Inl (IndexOutOfRange (length b) (length b))"
  by (simp add: compareArrayArray_def go_make_def rangeDDBools_fault)

lemma compareArrayArraySame_fault:
  "length b < length a \<Longrightarrow>
   compareArrayArraySame opr a b = Inl (IndexOutOfRange (length b) (length b))"
  by (simp add: compareArrayArraySame_def go_make_def rangeDDSame_fault)



subsection \<open>The generated functions by kind and operator\<close>

lemmas named_kernels =
  eqDDBoolsB_def eqDSBoolsB_def eqDDBoolsI_def eqDDSameI_def eqDSBoolsI_def
  eqDSSameI_def eqDDBoolsI8_def eqDDSameI8_def eqDSBoolsI8_def eqDSSameI8_def
  eqDDBoolsI16_def eqDDSameI16_def eqDSBoolsI16_def eqDSSameI16_def eqDDBoolsI32_def
  eqDDSameI32_def eqDSBoolsI32_def eqDSSameI32_def eqDDBoolsI64_def eqDDSameI64_def
  eqDSBoolsI64_def eqDSSameI64_def eqDDBoolsU_def eqDDSameU_def eqDSBoolsU_def
  eqDSSameU_def eqDDBoolsU8_def eqDDSameU8_def eqDSBoolsU8_def eqDSSameU8_def
  eqDDBoolsU16_def eqDDSameU16_def eqDSBoolsU16_def eqDSSameU16_def eqDDBoolsU32_def
  eqDDSameU32_def eqDSBoolsU32_def eqDSSameU32_def eqDDBoolsU64_def eqDDSameU64_def
  eqDSBoolsU64_def eqDSSameU64_def eqDDBoolsUintptr_def eqDSBoolsUintptr_def
  eqDDBoolsF32_def eqDDSameF32_def eqDSBoolsF32_def eqDSSameF32_def eqDDBoolsF64_def
  eqDDSameF64_def eqDSBoolsF64_def eqDSSameF64_def eqDDBoolsC64_def eqDDSameC64_def
  eqDSBoolsC64_def eqDSSameC64_def eqDDBoolsC128_def eqDDSameC128_def eqDSBoolsC128_def
  eqDSSameC128_def eqDDBoolsStr_def eqDSBoolsStr_def eqDDBoolsUnsafePointer_def
  eqDSBoolsUnsafePointer_def gtDDBoolsI_def gtDDSameI_def gtDSBoolsI_def gtDSSameI_def
  gtDDBoolsI8_def gtDDSameI8_def gtDSBoolsI8_def gtDSSameI8_def gtDDBoolsI16_def
  gtDDSameI16_def gtDSBoolsI16_def gtDSSameI16_def gtDDBoolsI32_def gtDDSameI32_def
  gtDSBoolsI32_def gtDSSameI32_def gtDDBoolsI64_def gtDDSameI64_def gtDSBoolsI64_def
  gtDSSameI64_def gtDDBoolsU_def gtDDSameU_def gtDSBoolsU_def gtDSSameU_def
  gtDDBoolsU8_def gtDDSameU8_def gtDSBoolsU8_def gtDSSameU8_def gtDDBoolsU16_def
  gtDDSameU16_def gtDSBoolsU16_def gtDSSameU16_def gtDDBoolsU32_def gtDDSameU32_def
  gtDSBoolsU32_def gtDSSameU32_def gtDDBoolsU64_def gtDDSameU64_def gtDSBoolsU64_def
  gtDSSameU64_def gtDDBoolsUintptr_def gtDSBoolsUintptr_def gtDDBoolsF32_def
  gtDDSameF32_def gtDSBoolsF32_def gtDSSameF32_def gtDDBoolsF64_def gtDDSameF64_def
  gtDSBoolsF64_def gtDSSameF64_def gtDDBoolsStr_def gtDSBoolsStr_def gteDDBoolsI_def
  gteDDSameI_def gteDSBoolsI_def gteDSSameI_def gteDDBoolsI8_def gteDDSameI8_def
  gteDSBoolsI8_def gteDSSameI8_def gteDDBoolsI16_def gteDDSameI16_def gteDSBoolsI16_def
  gteDSSameI16_def gteDDBoolsI32_def gteDDSameI32_def gteDSBoolsI32_def
  gteDSSameI32_def gteDDBoolsI64_def gteDDSameI64_def gteDSBoolsI64_def
  gteDSSameI64_def gteDDBoolsU_def gteDDSameU_def gteDSBoolsU_def gteDSSameU_def
  gteDDBoolsU8_def gteDDSameU8_def gteDSBoolsU8_def gteDSSameU8_def gteDDBoolsU16_def
  gteDDSameU16_def gteDSBoolsU16_def gteDSSameU16_def gteDDBoolsU32_def
  gteDDSameU32_def gteDSBoolsU32_def gteDSSameU32_def gteDDBoolsU64_def
  gteDDSameU64_def gteDSBoolsU64_def gteDSSameU64_def gteDDBoolsUintptr_def
  gteDSBoolsUintptr_def gteDDBoolsF32_def gteDDSameF32_def gteDSBoolsF32_def
  gteDSSameF32_def gteDDBoolsF64_def gteDDSameF64_def gteDSBoolsF64_def
  gteDSSameF64_def gteDDBoolsStr_def gteDSBoolsStr_def ltDDBoolsI_def ltDDSameI_def
  ltDSBoolsI_def ltDSSameI_def ltDDBoolsI8_def ltDDSameI8_def ltDSBoolsI8_def
  ltDSSameI8_def ltDDBoolsI16_def ltDDSameI16_def ltDSBoolsI16_def ltDSSameI16_def
  ltDDBoolsI32_def ltDDSameI32_def ltDSBoolsI32_def ltDSSameI32_def ltDDBoolsI64_def
  ltDDSameI64_def ltDSBoolsI64_def ltDSSameI64_def ltDDBoolsU_def ltDDSameU_def
  ltDSBoolsU_def ltDSSameU_def ltDDBoolsU8_def ltDDSameU8_def ltDSBoolsU8_def
  ltDSSameU8_def ltDDBoolsU16_def ltDDSameU16_def ltDSBoolsU16_def ltDSSameU16_def
  ltDDBoolsU32_def ltDDSameU32_def ltDSBoolsU32_def ltDSSameU32_def ltDDBoolsU64_def
  ltDDSameU64_def ltDSBoolsU64_def ltDSSameU64_def ltDDBoolsUintptr_def
  ltDSBoolsUintptr_def ltDDBoolsF32_def ltDDSameF32_def ltDSBoolsF32_def
  ltDSSameF32_def ltDDBoolsF64_def ltDDSameF64_def ltDSBoolsF64_def ltDSSameF64_def
  ltDDBoolsStr_def ltDSBoolsStr_def lteDDBoolsI_def lteDDSameI_def lteDSBoolsI_def
  lteDSSameI_def lteDDBoolsI8_def lteDDSameI8_def lteDSBoolsI8_def lteDSSameI8_def
  lteDDBoolsI16_def lteDDSameI16_def lteDSBoolsI16_def lteDSSameI16_def
  lteDDBoolsI32_def lteDDSameI32_def lteDSBoolsI32_def lteDSSameI32_def
  lteDDBoolsI64_def lteDDSameI64_def lteDSBoolsI64_def lteDSSameI64_def lteDDBoolsU_def
  lteDDSameU_def lteDSBoolsU_def lteDSSameU_def lteDDBoolsU8_def lteDDSameU8_def
  lteDSBoolsU8_def lteDSSameU8_def lteDDBoolsU16_def lteDDSameU16_def lteDSBoolsU16_def
  lteDSSameU16_def lteDDBoolsU32_def lteDDSameU32_def lteDSBoolsU32_def
  lteDSSameU32_def lteDDBoolsU64_def lteDDSameU64_def lteDSBoolsU64_def
  lteDSSameU64_def lteDDBoolsUintptr_def lteDSBoolsUintptr_def lteDDBoolsF32_def
  lteDDSameF32_def lteDSBoolsF32_def lteDSSameF32_def lteDDBoolsF64_def
  lteDDSameF64_def lteDSBoolsF64_def lteDSSameF64_def lteDDBoolsStr_def
  lteDSBoolsStr_def

lemmas kernel_tables =
  kernelsI_def kernelsI8_def kernelsI16_def kernelsI32_def kernelsI64_def kernelsU_def
  kernelsU8_def kernelsU16_def kernelsU32_def kernelsU64_def kernelsUintptr_def
  kernelsF32_def kernelsF64_def kernelsStr_def

lemma kernelsI_shapes:
  "ddBools (kernelsI c) = compareArrayArray (goOpSigned c)
   \<and> dsBools (kernelsI c) = compareArrayScalar (goOpSigned c)
   \<and> ddSame (kernelsI c) = compareArrayArraySame (goOpSigned c)
   \<and> dsSame (kernelsI c) = compareArrayScalarSame (goOpSigned c)"
  by (cases c)
    (simp_all add: kernelsI_def fun_eq_iff
      eqDDBoolsI_def eqDDSameI_def eqDSBoolsI_def eqDSSameI_def gtDDBoolsI_def
      gtDDSameI_def gtDSBoolsI_def gtDSSameI_def gteDDBoolsI_def gteDDSameI_def
      gteDSBoolsI_def gteDSSameI_def ltDDBoolsI_def ltDDSameI_def ltDSBoolsI_def
      ltDSSameI_def lteDDBoolsI_def lteDDSameI_def lteDSBoolsI_def lteDSSameI_def)

lemma kernelsI8_shapes:
  "ddBools (kernelsI8 c) = compareArrayArray (goOpSigned c)
   \<and> dsBools (kernelsI8 c) = compareArrayScalar (goOpSigned c)
   \<and> ddSame (kernelsI8 c) = compareArrayArraySame (goOpSigned c)
   \<and> dsSame (kernelsI8 c) = compareArrayScalarSame (goOpSigned c)"
  by (cases c)
    (simp_all add: kernelsI8_def fun_eq_iff
      eqDDBoolsI8_def eqDDSameI8_def eqDSBoolsI8_def eqDSSameI8_def gtDDBoolsI8_def
      gtDDSameI8_def gtDSBoolsI8_def gtDSSameI8_def gteDDBoolsI8_def gteDDSameI8_def
      gteDSBoolsI8_def gteDSSameI8_def ltDDBoolsI8_def ltDDSameI8_def ltDSBoolsI8_def
      ltDSSameI8_def lteDDBoolsI8_def lteDDSameI8_def lteDSBoolsI8_def lteDSSameI8_def)

lemma kernelsI16_shapes:
  "ddBools (kernelsI16 c) = compareArrayArray (goOpSigned c)
   \<and> dsBools (kernelsI16 c) = compareArrayScalar (goOpSigned c)
   \<and> ddSame (kernelsI16 c) = compareArrayArraySame (goOpSigned c)
   \<and> dsSame (kernelsI16 c) = compareArrayScalarSame (goOpSigned c)"
  by (cases c)
    (simp_all add: kernelsI16_def fun_eq_iff
      eqDDBoolsI16_def eqDDSameI16_def eqDSBoolsI16_def eqDSSameI16_def
      gtDDBoolsI16_def gtDDSameI16_def gtDSBoolsI16_def gtDSSameI16_def
      gteDDBoolsI16_def gteDDSameI16_def gteDSBoolsI16_def gteDSSameI16_def
      ltDDBoolsI16_def ltDDSameI16_def ltDSBoolsI16_def ltDSSameI16_def
      lteDDBoolsI16_def lteDDSameI16_def lteDSBoolsI16_def lteDSSameI16_def)

lemma kernelsI32_shapes:
  "ddBools (kernelsI32 c) = compareArrayArray (goOpSigned c)
   \<and> dsBools (kernelsI32 c) = compareArrayScalar (goOpSigned c)
   \<and> ddSame (kernelsI32 c) = compareArrayArraySame (goOpSigned c)
   \<and> dsSame (kernelsI32 c) = compareArrayScalarSame (goOpSigned c)"
  by (cases c)
    (simp_all add: kernelsI32_def fun_eq_iff
      eqDDBoolsI32_def eqDDSameI32_def eqDSBoolsI32_def eqDSSameI32_def
      gtDDBoolsI32_def gtDDSameI32_def gtDSBoolsI32_def gtDSSameI32_def
      gteDDBoolsI32_def gteDDSameI32_def gteDSBoolsI32_def gteDSSameI32_def
      ltDDBoolsI32_def ltDDSameI32_def ltDSBoolsI32_def ltDSSameI32_def
      lteDDBoolsI32_def lteDDSameI32_def lteDSBoolsI32_def lteDSSameI32_def)

lemma kernelsI64_shapes:
  "ddBools (kernelsI64 c) = compareArrayArray (goOpSigned c)
   \<and> dsBools (kernelsI64 c) = compareArrayScalar (goOpSigned c)
   \<and> ddSame (kernelsI64 c) = compareArrayArraySame (goOpSigned c)
   \<and> dsSame (kernelsI64 c) = compareArrayScalarSame (goOpSigned c)"
  by (cases c)
    (simp_all add: kernelsI64_def fun_eq_iff
      eqDDBoolsI64_def eqDDSameI64_def eqDSBoolsI64_def eqDSSameI64_def
      gtDDBoolsI64_def gtDDSameI64_def gtDSBoolsI64_def gtDSSameI64_def
      gteDDBoolsI64_def gteDDSameI64_def gteDSBoolsI64_def gteDSSameI64_def
      ltDDBoolsI64_def ltDDSameI64_def ltDSBoolsI64_def ltDSSameI64_def
      lteDDBoolsI64_def lteDDSameI64_def lteDSBoolsI64_def lteDSSameI64_def)

lemma kernelsU_shapes:
  "ddBools (kernelsU c) = compareArrayArray (goOp c)
   \<and> dsBools (kernelsU c) = compareArrayScalar (goOp c)
   \<and> ddSame (kernelsU c) = compareArrayArraySame (goOp c)
   \<and> dsSame (kernelsU c) = compareArrayScalarSame (goOp c)"
  by (cases c)
    (simp_all add: kernelsU_def fun_eq_iff
      eqDDBoolsU_def eqDDSameU_def eqDSBoolsU_def eqDSSameU_def gtDDBoolsU_def
      gtDDSameU_def gtDSBoolsU_def gtDSSameU_def gteDDBoolsU_def gteDDSameU_def
      gteDSBoolsU_def gteDSSameU_def ltDDBoolsU_def ltDDSameU_def ltDSBoolsU_def
      ltDSSameU_def lteDDBoolsU_def lteDDSameU_def lteDSBoolsU_def lteDSSameU_def)

lemma kernelsU8_shapes:
  "ddBools (kernelsU8 c) = compareArrayArray (goOp c)
   \<and> dsBools (kernelsU8 c) = compareArrayScalar (goOp c)
   \<and> ddSame (kernelsU8 c) = compareArrayArraySame (goOp c)
   \<and> dsSame (kernelsU8 c) = compareArrayScalarSame (goOp c)"
  by (cases c)
    (simp_all add: kernelsU8_def fun_eq_iff
      eqDDBoolsU8_def eqDDSameU8_def eqDSBoolsU8_def eqDSSameU8_def gtDDBoolsU8_def
      gtDDSameU8_def gtDSBoolsU8_def gtDSSameU8_def gteDDBoolsU8_def gteDDSameU8_def
      gteDSBoolsU8_def gteDSSameU8_def ltDDBoolsU8_def ltDDSameU8_def ltDSBoolsU8_def
      ltDSSameU8_def lteDDBoolsU8_def lteDDSameU8_def lteDSBoolsU8_def lteDSSameU8_def)

lemma kernelsU16_shapes:
  "ddBools (kernelsU16 c) = compareArrayArray (goOp c)
   \<and> dsBools (kernelsU16 c) = compareArrayScalar (goOp c)
   \<and> ddSame (kernelsU16 c) = compareArrayArraySame (goOp c)
   \<and> dsSame (kernelsU16 c) = compareArrayScalarSame (goOp c)"
  by (cases c)
    (simp_all add: kernelsU16_def fun_eq_iff
      eqDDBoolsU16_def eqDDSameU16_def eqDSBoolsU16_def eqDSSameU16_def
      gtDDBoolsU16_def gtDDSameU16_def gtDSBoolsU16_def gtDSSameU16_def
      gteDDBoolsU16_def gteDDSameU16_def gteDSBoolsU16_def gteDSSameU16_def
      ltDDBoolsU16_def ltDDSameU16_def ltDSBoolsU16_def ltDSSameU16_def
      lteDDBoolsU16_def lteDDSameU16_def lteDSBoolsU16_def lteDSSameU16_def)

lemma kernelsU32_shapes:
  "ddBools (kernelsU32 c) = compareArrayArray (goOp c)
   \<and> dsBools (kernelsU32 c) = compareArrayScalar (goOp c)
   \<and> ddSame (kernelsU32 c) = compareArrayArraySame (goOp c)
   \<and> dsSame (kernelsU32 c) = compareArrayScalarSame (goOp c)"
  by (cases c)
    (simp_all add: kernelsU32_def fun_eq_iff
      eqDDBoolsU32_def eqDDSameU32_def eqDSBoolsU32_def eqDSSameU32_def
      gtDDBoolsU32_def gtDDSameU32_def gtDSBoolsU32_def gtDSSameU32_def
      gteDDBoolsU32_def gteDDSameU32_def gteDSBoolsU32_def gteDSSameU32_def
      ltDDBoolsU32_def ltDDSameU32_def ltDSBoolsU32_def ltDSSameU32_def
      lteDDBoolsU32_def lteDDSameU32_def lteDSBoolsU32_def lteDSSameU32_def)

lemma kernelsU64_shapes:
  "ddBools (kernelsU64 c) = compareArrayArray (goOp c)
   \<and> dsBools (kernelsU64 c) = compareArrayScalar (goOp c)
   \<and> ddSame (kernelsU64 c) = compareArrayArraySame (goOp c)
   \<and> dsSame (kernelsU64 c) = compareArrayScalarSame (goOp c)"
  by (cases c)
    (simp_all add: kernelsU64_def fun_eq_iff
      eqDDBoolsU64_def eqDDSameU64_def eqDSBoolsU64_def eqDSSameU64_def
      gtDDBoolsU64_def gtDDSameU64_def gtDSBoolsU64_def gtDSSameU64_def
      gteDDBoolsU64_def gteDDSameU64_def gteDSBoolsU64_def gteDSSameU64_def
      ltDDBoolsU64_def ltDDSameU64_def ltDSBoolsU64_def ltDSSameU64_def
      lteDDBoolsU64_def lteDDSameU64_def lteDSBoolsU64_def lteDSSameU64_def)

lemma kernelsUintptr_shapes:
  "ddBools (kernelsUintptr c) = compareArrayArray (goOp c)
   \<and> dsBools (kernelsUintptr c) = compareArrayScalar (goOp c)"
  by (cases c)
    (simp_all add: kernelsUintptr_def fun_eq_iff
      eqDDBoolsUintptr_def eqDSBoolsUintptr_def gtDDBoolsUintptr_def
      gtDSBoolsUintptr_def gteDDBoolsUintptr_def gteDSBoolsUintptr_def
      ltDDBoolsUintptr_def ltDSBoolsUintptr_def lteDDBoolsUintptr_def
      lteDSBoolsUintptr_def)

lemma kernelsF32_shapes:
  "ddBools (kernelsF32 fop c) = compareArrayArray (fop c)
   \<and> dsBools (kernelsF32 fop c) = compareArrayScalar (fop c)
   \<and> ddSame (kernelsF32 fop c) = compareArrayArraySame (fop c)
   \<and> dsSame (kernelsF32 fop c) = compareArrayScalarSame (fop c)"
  by (cases c)
    (simp_all add: kernelsF32_def fun_eq_iff
      eqDDBoolsF32_def eqDDSameF32_def eqDSBoolsF32_def eqDSSameF32_def
      gtDDBoolsF32_def gtDDSameF32_def gtDSBoolsF32_def gtDSSameF32_def
      gteDDBoolsF32_def gteDDSameF32_def gteDSBoolsF32_def gteDSSameF32_def
      ltDDBoolsF32_def ltDDSameF32_def ltDSBoolsF32_def ltDSSameF32_def
      lteDDBoolsF32_def lteDDSameF32_def lteDSBoolsF32_def lteDSSameF32_def)

lemma kernelsF64_shapes:
  "ddBools (kernelsF64 fop c) = compareArrayArray (fop c)
   \<and> dsBools (kernelsF64 fop c) = compareArrayScalar (fop c)
   \<and> ddSame (kernelsF64 fop c) = compareArrayArraySame (fop c)
   \<and> dsSame (kernelsF64 fop c) = compareArrayScalarSame (fop c)"
  by (cases c)
    (simp_all add: kernelsF64_def fun_eq_iff
      eqDDBoolsF64_def eqDDSameF64_def eqDSBoolsF64_def eqDSSameF64_def
      gtDDBoolsF64_def gtDDSameF64_def gtDSBoolsF64_def gtDSSameF64_def
      gteDDBoolsF64_def gteDDSameF64_def gteDSBoolsF64_def gteDSSameF64_def
      ltDDBoolsF64_def ltDDSameF64_def ltDSBoolsF64_def ltDSSameF64_def
      lteDDBoolsF64_def lteDDSameF64_def lteDSBoolsF64_def lteDSSameF64_def)

lemma kernelsStr_shapes:
  "ddBools (kernelsStr c) = compareArrayArray (goOp c)
   \<and> dsBools (kernelsStr c) = compareArrayScalar (goOp c)"
  by (cases c)
    (simp_all add: kernelsStr_def fun_eq_iff
      eqDDBoolsStr_def eqDSBoolsStr_def gtDDBoolsStr_def gtDSBoolsStr_def
      gteDDBoolsStr_def gteDSBoolsStr_def ltDDBoolsStr_def ltDSBoolsStr_def
      lteDDBoolsStr_def lteDSBoolsStr_def)

lemmas kernel_shapes =
  kernelsI_shapes kernelsI8_shapes kernelsI16_shapes kernelsI32_shapes kernelsI64_shapes
  kernelsU_shapes kernelsU8_shapes kernelsU16_shapes kernelsU32_shapes kernelsU64_shapes
  kernelsUintptr_shapes kernelsF32_shapes kernelsF64_shapes kernelsStr_shapes

lemma goOp_unat: "goOp c v w = goOp c (unat v) (unat w)"
  by (cases c) (simp_all add: word_less_nat_alt word_le_nat_alt word_unat_eq_iff)

lemma goOpSigned_fun: "goOpSigned c = (\<lambda>v w. goOp c (sint v) (sint w))"
  by (simp add: fun_eq_iff goOpSigned_def)

lemma goOp_unat_fun: "goOp c = (\<lambda>v w. goOp c (unat v) (unat w))"
  by (intro ext) (rule goOp_unat)

lemma compareArrayArraySame_indicator:
  "compareArrayArraySame opr a b =
     (case compareArrayArray opr a b of Inl e \<Rightarrow> Inl e | Inr m \<Rightarrow> Inr (indicator m))"
proof (cases "length a \<le> length b")
  case True
  then show ?thesis
    by (simp add: compareArrayArray_eq compareArrayArraySame_eq indicator_def zip_map_fst_snd
        split_def)
next
  case False
  then show ?thesis
    by (simp add: compareArrayArray_fault compareArrayArraySame_fault)
qed

lemma compareArrayScalarSame_indicator:
  "compareArrayScalarSame opr a s =
     (case compareArrayScalar opr a s of Inl e \<Rightarrow> Inl e | Inr m \<Rightarrow> Inr (indicator m))"
  by (simp add: compareArrayScalar_eq compareArrayScalarSame_eq indicator_def)

lemma indicator_nth:
  fixes m :: "bool list"
  assumes "i < length m"
  shows "((indicator m ! i :: 'a::zero_neq_one) = 1 \<longleftrightarrow> m ! i)
    \<and> (\<not> m ! i \<longrightarrow> (indicator m ! i :: 'a) = 0)"
  using assms by (simp add: indicator_def)

subsection \<open>The loops on a store\<close>

lemma memAssign_Inr:
  "memAssign h s i v = Inr h' \<Longrightarrow> h' = h[arr s := (h ! arr s)[off s + i := v]] \<and> i < len s"
  by (auto simp: memAssign_def split: if_splits)

lemma memRangeDD_frame:
  "memRangeDD f h a b retVal i = (h', e) \<Longrightarrow>
   length h' = length h \<and> (\<forall>p. p \<noteq> arr retVal \<longrightarrow> h' ! p = h ! p)"
proof (induction f h a b retVal i arbitrary: h' e rule: memRangeDD.induct)
  case (1 f h a b retVal i)
  show ?case
  proof (cases "i < len a")
    case False
    with "1.prems" show ?thesis by simp
  next
    case True
    note lt = this
    show ?thesis
    proof (cases "memIndex h a i")
      case (Inl x)
      with lt "1.prems" show ?thesis by simp
    next
      case va: (Inr v)
      show ?thesis
      proof (cases "memIndex h b i")
        case (Inl x)
        with lt va "1.prems" show ?thesis by simp
      next
        case vb: (Inr bi)
        show ?thesis
        proof (cases "memAssign h retVal i (f v bi)")
          case (Inl x)
          with lt va vb "1.prems" show ?thesis by simp
        next
          case (Inr h1)
          then have h1: "h1 = h[arr retVal := (h ! arr retVal)[off retVal + i := f v bi]]"
            by (simp add: memAssign_Inr)
          have "memRangeDD f h1 a b retVal (Suc i) = (h', e)"
            using lt va vb Inr "1.prems" by simp
          then have "length h' = length h1 \<and> (\<forall>p. p \<noteq> arr retVal \<longrightarrow> h' ! p = h1 ! p)"
            using "1.IH" [OF lt va vb Inr] by blast
          then show ?thesis by (simp add: h1)
        qed
      qed
    qed
  qed
qed

lemma memRangeDS_frame:
  "memRangeDS f h a b retVal i = (h', e) \<Longrightarrow>
   length h' = length h \<and> (\<forall>p. p \<noteq> arr retVal \<longrightarrow> h' ! p = h ! p)"
proof (induction f h a b retVal i arbitrary: h' e rule: memRangeDS.induct)
  case (1 f h a b retVal i)
  show ?case
  proof (cases "i < len a")
    case False
    with "1.prems" show ?thesis by simp
  next
    case True
    note lt = this
    show ?thesis
    proof (cases "memIndex h a i")
      case (Inl x)
      with lt "1.prems" show ?thesis by simp
    next
      case va: (Inr v)
      show ?thesis
      proof (cases "memAssign h retVal i (f v b)")
        case (Inl x)
        with lt va "1.prems" show ?thesis by simp
      next
        case (Inr h1)
        then have h1: "h1 = h[arr retVal := (h ! arr retVal)[off retVal + i := f v b]]"
          by (simp add: memAssign_Inr)
        have "memRangeDS f h1 a b retVal (Suc i) = (h', e)"
          using lt va Inr "1.prems" by simp
        then have "length h' = length h1 \<and> (\<forall>p. p \<noteq> arr retVal \<longrightarrow> h' ! p = h1 ! p)"
          using "1.IH" [OF lt va Inr] by blast
        then show ?thesis by (simp add: h1)
      qed
    qed
  qed
qed

lemma memKernelDD_frame:
  assumes "memKernelDD f z h a b = (h', res)"
  shows "length h' = Suc (length h) \<and> (\<forall>p<length h. h' ! p = h ! p)
         \<and> (\<forall>s. res = Inr s \<longrightarrow> arr s = length h \<and> off s = 0 \<and> len s = len a)"
proof -
  let ?r = "\<lparr>arr = length h, off = 0, len = len a\<rparr>"
  let ?h1 = "h @ [replicate (len a) z]"
  obtain h2 e where run: "memRangeDD f ?h1 a b ?r 0 = (h2, e)"
    by (cases "memRangeDD f ?h1 a b ?r 0")
  from assms run have h': "h' = h2" and res: "res = (case e of Some x \<Rightarrow> Inl x | None \<Rightarrow> Inr ?r)"
    by (auto simp: memKernelDD_def memMake_def split: option.splits)
  from memRangeDD_frame [OF run]
  have "length h2 = length ?h1" and "\<forall>p. p \<noteq> length h \<longrightarrow> h2 ! p = ?h1 ! p"
    by simp_all
  then have "length h' = Suc (length h)" and "\<forall>p<length h. h' ! p = h ! p"
    by (simp_all add: h' nth_append)
  moreover have "\<forall>s. res = Inr s \<longrightarrow> arr s = length h \<and> off s = 0 \<and> len s = len a"
    by (auto simp: res split: option.splits)
  ultimately show ?thesis by blast
qed

lemma memKernelDS_frame:
  assumes "memKernelDS f z h a b = (h', res)"
  shows "length h' = Suc (length h) \<and> (\<forall>p<length h. h' ! p = h ! p)
         \<and> (\<forall>s. res = Inr s \<longrightarrow> arr s = length h \<and> off s = 0 \<and> len s = len a)"
proof -
  let ?r = "\<lparr>arr = length h, off = 0, len = len a\<rparr>"
  let ?h1 = "h @ [replicate (len a) z]"
  obtain h2 e where run: "memRangeDS f ?h1 a b ?r 0 = (h2, e)"
    by (cases "memRangeDS f ?h1 a b ?r 0")
  from assms run have h': "h' = h2" and res: "res = (case e of Some x \<Rightarrow> Inl x | None \<Rightarrow> Inr ?r)"
    by (auto simp: memKernelDS_def memMake_def split: option.splits)
  from memRangeDS_frame [OF run]
  have "length h2 = length ?h1" and "\<forall>p. p \<noteq> length h \<longrightarrow> h2 ! p = ?h1 ! p"
    by simp_all
  then have "length h' = Suc (length h)" and "\<forall>p<length h. h' ! p = h ! p"
    by (simp_all add: h' nth_append)
  moreover have "\<forall>s. res = Inr s \<longrightarrow> arr s = length h \<and> off s = 0 \<and> len s = len a"
    by (auto simp: res split: option.splits)
  ultimately show ?thesis by blast
qed

lemma contents_nth:
  "i < len s \<Longrightarrow> off s + len s \<le> length (h ! arr s) \<Longrightarrow> contents h s ! i = h ! arr s ! (off s + i)"
  by (simp add: contents_def)

lemma length_contents:
  "off s + len s \<le> length (h ! arr s) \<Longrightarrow> length (contents h s) = len s"
  by (simp add: contents_def)

lemma contents_cong:
  "h' ! arr s = h ! arr s \<Longrightarrow> contents h' s = contents h s"
  by (simp add: contents_def)

lemma memRangeDD_run:
  assumes "arr a \<noteq> arr r" "arr b \<noteq> arr r" "arr r < length h" "off r = 0" "len r = len a"
    and "length (h ! arr r) = len a"
    and "off a + len a \<le> length (h ! arr a)" "off b + len b \<le> length (h ! arr b)"
    and "len a \<le> len b" "i \<le> len a"
  shows "memRangeDD f h a b r i =
    (h[arr r := take i (h ! arr r) @ map2 f (drop i (contents h a)) (drop i (contents h b))], None)"
  using assms
proof (induction "len a - i" arbitrary: i h)
  case 0
  then have "i = len a" by simp
  then show ?case
    using 0 by (simp add: length_contents list_update_same_conv)
next
  case (Suc k)
  then have lt: "i < len a" and ltb: "i < len b" by simp_all
  let ?A = "contents h a" and ?B = "contents h b"
  let ?v = "f (?A ! i) (?B ! i)"
  let ?h1 = "h[arr r := (h ! arr r)[i := ?v]]"
  have la: "length ?A = len a" and lb: "length ?B = len b"
    using Suc.prems by (simp_all add: length_contents)
  have ia: "memIndex h a i = Inr (?A ! i)" and ib: "memIndex h b i = Inr (?B ! i)"
    using lt ltb Suc.prems by (simp_all add: memIndex_def contents_nth)
  have as: "memAssign h r i ?v = Inr ?h1"
    using lt Suc.prems by (simp add: memAssign_def)
  have step: "memRangeDD f h a b r i = memRangeDD f ?h1 a b r (Suc i)"
    using lt ia ib as by (subst memRangeDD.simps) simp
  have ca: "contents ?h1 a = ?A" and cb: "contents ?h1 b = ?B"
    using Suc.prems by (simp_all add: contents_def)
  have "memRangeDD f ?h1 a b r (Suc i) =
    (?h1[arr r := take (Suc i) (?h1 ! arr r)
        @ map2 f (drop (Suc i) (contents ?h1 a)) (drop (Suc i) (contents ?h1 b))], None)"
  proof (rule Suc.hyps(1))
    show "k = len a - Suc i" using Suc.hyps(2) by simp
  qed (use Suc.prems lt in simp_all)
  moreover have "take (Suc i) (?h1 ! arr r) = take i (h ! arr r) @ [?v]"
    using lt Suc.prems by (simp add: take_Suc_conv_app_nth)
  moreover have "drop i ?A = ?A ! i # drop (Suc i) ?A" "drop i ?B = ?B ! i # drop (Suc i) ?B"
    using lt ltb la lb by (simp_all add: Cons_nth_drop_Suc)
  ultimately show ?case
    using step ca cb by simp
qed

lemma memRangeDD_fault:
  assumes "arr a \<noteq> arr r" "arr b \<noteq> arr r" "arr r < length h" "off r = 0" "len r = len a"
    and "length (h ! arr r) = len a"
    and "len b < len a" "i \<le> len b"
  shows "snd (memRangeDD f h a b r i) = Some (IndexOutOfRange (len b) (len b))"
  using assms
proof (induction "len b - i" arbitrary: i h)
  case 0
  then have "i = len b" by simp
  then show ?case
    using 0 by (subst memRangeDD.simps) (simp add: memIndex_def)
next
  case (Suc k)
  then have lt: "i < len a" and ltb: "i < len b" by simp_all
  let ?v = "f (h ! arr a ! (off a + i)) (h ! arr b ! (off b + i))"
  let ?h1 = "h[arr r := (h ! arr r)[i := ?v]]"
  have step: "memRangeDD f h a b r i = memRangeDD f ?h1 a b r (Suc i)"
    using lt ltb Suc.prems by (subst memRangeDD.simps) (simp add: memIndex_def memAssign_def)
  have "snd (memRangeDD f ?h1 a b r (Suc i)) = Some (IndexOutOfRange (len b) (len b))"
  proof (rule Suc.hyps(1))
    show "k = len b - Suc i" using Suc.hyps(2) by simp
  qed (use Suc.prems ltb in simp_all)
  then show ?case using step by simp
qed

lemma memRangeDS_run:
  assumes "arr a \<noteq> arr r" "arr r < length h" "off r = 0" "len r = len a"
    and "length (h ! arr r) = len a"
    and "off a + len a \<le> length (h ! arr a)"
    and "i \<le> len a"
  shows "memRangeDS f h a b r i =
    (h[arr r := take i (h ! arr r) @ map (\<lambda>v. f v b) (drop i (contents h a))], None)"
  using assms
proof (induction "len a - i" arbitrary: i h)
  case 0
  then have "i = len a" by simp
  then show ?case
    using 0 by (simp add: length_contents list_update_same_conv)
next
  case (Suc k)
  then have lt: "i < len a" by simp
  let ?A = "contents h a"
  let ?v = "f (?A ! i) b"
  let ?h1 = "h[arr r := (h ! arr r)[i := ?v]]"
  have la: "length ?A = len a"
    using Suc.prems by (simp add: length_contents)
  have ia: "memIndex h a i = Inr (?A ! i)"
    using lt Suc.prems by (simp add: memIndex_def contents_nth)
  have as: "memAssign h r i ?v = Inr ?h1"
    using lt Suc.prems by (simp add: memAssign_def)
  have step: "memRangeDS f h a b r i = memRangeDS f ?h1 a b r (Suc i)"
    using lt ia as by (subst memRangeDS.simps) simp
  have ca: "contents ?h1 a = ?A"
    using Suc.prems by (simp add: contents_def)
  have "memRangeDS f ?h1 a b r (Suc i) =
    (?h1[arr r := take (Suc i) (?h1 ! arr r)
        @ map (\<lambda>v. f v b) (drop (Suc i) (contents ?h1 a))], None)"
  proof (rule Suc.hyps(1))
    show "k = len a - Suc i" using Suc.hyps(2) by simp
  qed (use Suc.prems lt in simp_all)
  moreover have "take (Suc i) (?h1 ! arr r) = take i (h ! arr r) @ [?v]"
    using lt Suc.prems by (simp add: take_Suc_conv_app_nth)
  moreover have "drop i ?A = ?A ! i # drop (Suc i) ?A"
    using lt la by (simp add: Cons_nth_drop_Suc)
  ultimately show ?case
    using step ca by simp
qed

lemma valid_append:
  "valid h s \<Longrightarrow> valid (h @ xs) s \<and> contents (h @ xs) s = contents h s"
  by (simp add: valid_def contents_def nth_append)

lemma memKernelDD_returns:
  assumes "valid h a" "valid h b" "len a \<le> len b"
  shows "\<exists>h'. memKernelDD f z h a b = (h', Inr \<lparr>arr = length h, off = 0, len = len a\<rparr>)
           \<and> contents h' \<lparr>arr = length h, off = 0, len = len a\<rparr>
               = map2 f (contents h a) (contents h b)"
proof -
  let ?r = "\<lparr>arr = length h, off = 0, len = len a\<rparr>"
  let ?h1 = "h @ [replicate (len a) z]"
  let ?out = "map2 f (contents h a) (contents h b)"
  have va: "arr a < length h" "off a + len a \<le> length (h ! arr a)"
    and vb: "arr b < length h" "off b + len b \<le> length (h ! arr b)"
    using assms by (simp_all add: valid_def)
  have ca: "contents ?h1 a = contents h a" and cb: "contents ?h1 b = contents h b"
    using assms valid_append by blast+
  have "memRangeDD f ?h1 a b ?r 0 =
    (?h1[arr ?r := take 0 (?h1 ! arr ?r) @ map2 f (drop 0 (contents ?h1 a)) (drop 0 (contents ?h1 b))], None)"
    using va vb assms(3) by (intro memRangeDD_run) (simp_all add: nth_append)
  then have run: "memRangeDD f ?h1 a b ?r 0 = (?h1[length h := ?out], None)"
    by (simp add: ca cb)
  have lo: "length ?out = len a"
    using va vb assms(3) by (simp add: length_contents)
  have "memKernelDD f z h a b = (?h1[length h := ?out], Inr ?r)"
    by (simp add: memKernelDD_def memMake_def run del: memRangeDD.simps)
  moreover have "contents (?h1[length h := ?out]) ?r = ?out"
    using lo by (simp add: contents_def)
  ultimately show ?thesis by blast
qed

lemma memKernelDD_faults:
  assumes "valid h a" "valid h b" "len b < len a"
  shows "snd (memKernelDD f z h a b) = Inl (IndexOutOfRange (len b) (len b))"
proof -
  let ?r = "\<lparr>arr = length h, off = 0, len = len a\<rparr>"
  let ?h1 = "h @ [replicate (len a) z]"
  have "snd (memRangeDD f ?h1 a b ?r 0) = Some (IndexOutOfRange (len b) (len b))"
    using assms by (intro memRangeDD_fault) (simp_all add: valid_def nth_append)
  then show ?thesis
    by (cases "memRangeDD f ?h1 a b ?r 0")
      (simp add: memKernelDD_def memMake_def del: memRangeDD.simps)
qed

lemma memKernelDS_returns:
  assumes "valid h a"
  shows "\<exists>h'. memKernelDS f z h a b = (h', Inr \<lparr>arr = length h, off = 0, len = len a\<rparr>)
           \<and> contents h' \<lparr>arr = length h, off = 0, len = len a\<rparr>
               = map (\<lambda>v. f v b) (contents h a)"
proof -
  let ?r = "\<lparr>arr = length h, off = 0, len = len a\<rparr>"
  let ?h1 = "h @ [replicate (len a) z]"
  let ?out = "map (\<lambda>v. f v b) (contents h a)"
  have va: "arr a < length h" "off a + len a \<le> length (h ! arr a)"
    using assms by (simp_all add: valid_def)
  have ca: "contents ?h1 a = contents h a"
    using assms valid_append by blast
  have "memRangeDS f ?h1 a b ?r 0 =
    (?h1[arr ?r := take 0 (?h1 ! arr ?r) @ map (\<lambda>v. f v b) (drop 0 (contents ?h1 a))], None)"
    using va by (intro memRangeDS_run) (simp_all add: nth_append)
  then have run: "memRangeDS f ?h1 a b ?r 0 = (?h1[length h := ?out], None)"
    by (simp add: ca)
  have lo: "length ?out = len a"
    using va by (simp add: length_contents)
  have "memKernelDS f z h a b = (?h1[length h := ?out], Inr ?r)"
    by (simp add: memKernelDS_def memMake_def run del: memRangeDS.simps)
  moreover have "contents (?h1[length h := ?out]) ?r = ?out"
    using lo by (simp add: contents_def)
  ultimately show ?thesis by blast
qed

text \<open>The kernels on the store compute what the kernels on lists compute.\<close>

lemma eqDDBoolsB_mem_refines:
  assumes "valid h a" "valid h b" "len a \<le> len b"
  shows "\<exists>h' s. eqDDBoolsB_mem h a b = (h', Inr s)
           \<and> eqDDBoolsB (contents h a) (contents h b) = Inr (contents h' s)"
proof -
  have "length (contents h a) \<le> length (contents h b)"
    using assms by (simp add: valid_def length_contents)
  then have "eqDDBoolsB (contents h a) (contents h b)
      = Inr (map2 (\<lambda>v w. v = w) (contents h a) (contents h b))"
    by (simp add: eqDDBoolsB_def compareArrayArray_eq)
  then show ?thesis
    using memKernelDD_returns [OF assms, of "\<lambda>v w. v = w" False]
    by (auto simp: eqDDBoolsB_mem_def)
qed

lemma eqDDSameI_mem_refines:
  assumes "valid h a" "valid h b" "len a \<le> len b"
  shows "\<exists>h' s. eqDDSameI_mem h a b = (h', Inr s)
           \<and> eqDDSameI (contents h a) (contents h b) = Inr (contents h' s)"
proof -
  have "length (contents h a) \<le> length (contents h b)"
    using assms by (simp add: valid_def length_contents)
  then have "eqDDSameI (contents h a) (contents h b)
      = Inr (map2 (\<lambda>v w. if goOpSigned Eq v w then 1 else 0) (contents h a) (contents h b))"
    by (simp add: eqDDSameI_def compareArrayArraySame_eq)
  then show ?thesis
    using memKernelDD_returns [OF assms, of "\<lambda>v w. if goOpSigned Eq v w then 1 else 0" 0]
    by (auto simp: eqDDSameI_mem_def)
qed

lemma eqDSSameI_mem_refines:
  assumes "valid h a"
  shows "\<exists>h' s. eqDSSameI_mem h a b = (h', Inr s)
           \<and> eqDSSameI (contents h a) b = Inr (contents h' s)"
  using memKernelDS_returns [OF assms, of "\<lambda>v w. if goOpSigned Eq v w then 1 else 0" 0 b]
  by (auto simp: eqDSSameI_mem_def eqDSSameI_def compareArrayScalarSame_eq)

lemma frame_valid:
  assumes "valid h s" "length h \<le> length h'" "\<forall>p<length h. h' ! p = h ! p"
  shows "valid h' s \<and> contents h' s = contents h s"
  using assms by (simp add: valid_def contents_def)

subsection \<open>The claims about the kernels\<close>

text \<open>
  C1. For any native comparison operator \<open>opr\<close> on any kind: on inputs of equal
  length \<open>n\<close> the array-array mask kernel returns \<open>n\<close> booleans, the \<open>i\<close>-th being
  \<open>opr (a[i], b[i])\<close>; the array-scalar mask kernel returns \<open>n\<close> booleans, the
  \<open>i\<close>-th being \<open>opr (a[i], b)\<close>. In particular \<open>eqDDBoolsI\<close> maps \<open>[1,2,3]\<close> and
  \<open>[1,5,3]\<close> to \<open>[true,false,true]\<close>, and \<open>eqDSBoolsI\<close> maps \<open>[1,2,3]\<close> and \<open>2\<close> to
  \<open>[false,true,false]\<close>. And every generated mask function computes its own operator:
  for every kind and every operator \<open>c\<close> that the kind has, the function of \<open>c\<close>
  returns the list of \<open>a[i] c b[i]\<close> (of \<open>a[i] c b\<close>), where \<open>c\<close> compares signed
  integers by their values \<open>sint\<close>, unsigned integers by their values \<open>unat\<close>,
  strings in the lexicographic order of their bytes, floating point and complex
  numbers by the native operator of the kind, booleans and pointers by equality.
\<close>

theorem kernels_mask:
  "(length a = length b \<longrightarrow>
      (\<exists>r. compareArrayArray opr a b = Inr r \<and> length r = length a
           \<and> (\<forall>i<length a. r ! i = opr (a ! i) (b ! i))))
   \<and> (\<exists>r. compareArrayScalar opr a s = Inr r \<and> length r = length a
           \<and> (\<forall>i<length a. r ! i = opr (a ! i) s))
   \<and> eqDDBoolsI [1, 2, 3] [1, 5, 3] = Inr [True, False, True]
   \<and> eqDSBoolsI [1, 2, 3] 2 = Inr [False, True, False]
   \<and> (length a64 = length b64 \<longrightarrow>
        ddBools (kernelsI c) a64 b64 = Inr (map2 (\<lambda>v w. goOp c (sint v) (sint w)) a64 b64))
   \<and> dsBools (kernelsI c) a64 s64 = Inr (map (\<lambda>v. goOp c (sint v) (sint s64)) a64)
   \<and> (length a8 = length b8 \<longrightarrow>
        ddBools (kernelsI8 c) a8 b8 = Inr (map2 (\<lambda>v w. goOp c (sint v) (sint w)) a8 b8))
   \<and> dsBools (kernelsI8 c) a8 s8 = Inr (map (\<lambda>v. goOp c (sint v) (sint s8)) a8)
   \<and> (length a16 = length b16 \<longrightarrow>
        ddBools (kernelsI16 c) a16 b16 = Inr (map2 (\<lambda>v w. goOp c (sint v) (sint w)) a16 b16))
   \<and> dsBools (kernelsI16 c) a16 s16 = Inr (map (\<lambda>v. goOp c (sint v) (sint s16)) a16)
   \<and> (length a32 = length b32 \<longrightarrow>
        ddBools (kernelsI32 c) a32 b32 = Inr (map2 (\<lambda>v w. goOp c (sint v) (sint w)) a32 b32))
   \<and> dsBools (kernelsI32 c) a32 s32 = Inr (map (\<lambda>v. goOp c (sint v) (sint s32)) a32)
   \<and> (length a64 = length b64 \<longrightarrow>
        ddBools (kernelsI64 c) a64 b64 = Inr (map2 (\<lambda>v w. goOp c (sint v) (sint w)) a64 b64))
   \<and> dsBools (kernelsI64 c) a64 s64 = Inr (map (\<lambda>v. goOp c (sint v) (sint s64)) a64)
   \<and> (length a64 = length b64 \<longrightarrow>
        ddBools (kernelsU c) a64 b64 = Inr (map2 (\<lambda>v w. goOp c (unat v) (unat w)) a64 b64))
   \<and> dsBools (kernelsU c) a64 s64 = Inr (map (\<lambda>v. goOp c (unat v) (unat s64)) a64)
   \<and> (length a8 = length b8 \<longrightarrow>
        ddBools (kernelsU8 c) a8 b8 = Inr (map2 (\<lambda>v w. goOp c (unat v) (unat w)) a8 b8))
   \<and> dsBools (kernelsU8 c) a8 s8 = Inr (map (\<lambda>v. goOp c (unat v) (unat s8)) a8)
   \<and> (length a16 = length b16 \<longrightarrow>
        ddBools (kernelsU16 c) a16 b16 = Inr (map2 (\<lambda>v w. goOp c (unat v) (unat w)) a16 b16))
   \<and> dsBools (kernelsU16 c) a16 s16 = Inr (map (\<lambda>v. goOp c (unat v) (unat s16)) a16)
   \<and> (length a32 = length b32 \<longrightarrow>
        ddBools (kernelsU32 c) a32 b32 = Inr (map2 (\<lambda>v w. goOp c (unat v) (unat w)) a32 b32))
   \<and> dsBools (kernelsU32 c) a32 s32 = Inr (map (\<lambda>v. goOp c (unat v) (unat s32)) a32)
   \<and> (length a64 = length b64 \<longrightarrow>
        ddBools (kernelsU64 c) a64 b64 = Inr (map2 (\<lambda>v w. goOp c (unat v) (unat w)) a64 b64))
   \<and> dsBools (kernelsU64 c) a64 s64 = Inr (map (\<lambda>v. goOp c (unat v) (unat s64)) a64)
   \<and> (length a64 = length b64 \<longrightarrow>
        ddBools (kernelsUintptr c) a64 b64 = Inr (map2 (\<lambda>v w. goOp c (unat v) (unat w)) a64 b64))
   \<and> dsBools (kernelsUintptr c) a64 s64 = Inr (map (\<lambda>v. goOp c (unat v) (unat s64)) a64)
   \<and> (length af = length bf \<longrightarrow>
        ddBools (kernelsF32 fop c) af bf = Inr (map2 (\<lambda>v w. fop c v w) af bf))
   \<and> dsBools (kernelsF32 fop c) af sf = Inr (map (\<lambda>v. fop c v sf) af)
   \<and> (length af = length bf \<longrightarrow>
        ddBools (kernelsF64 fop c) af bf = Inr (map2 (\<lambda>v w. fop c v w) af bf))
   \<and> dsBools (kernelsF64 fop c) af sf = Inr (map (\<lambda>v. fop c v sf) af)
   \<and> (length as = length bs \<longrightarrow>
        ddBools (kernelsStr c) as bs = Inr (map2 (\<lambda>v w. goOp c v w) as bs))
   \<and> dsBools (kernelsStr c) as ss = Inr (map (\<lambda>v. goOp c v ss) as)
   \<and> (length at = length bt \<longrightarrow>
        eqDDBoolsB at bt = Inr (map2 (\<lambda>v w. v = w) at bt))
   \<and> eqDSBoolsB at st = Inr (map (\<lambda>v. v = st) at)
   \<and> (length ap = length bp \<longrightarrow>
        eqDDBoolsUnsafePointer ap bp = Inr (map2 (\<lambda>v w. v = w) ap bp))
   \<and> eqDSBoolsUnsafePointer ap sp = Inr (map (\<lambda>v. v = sp) ap)
   \<and> (length ac = length bc \<longrightarrow>
        eqDDBoolsC64 ceq ac bc = Inr (map2 (\<lambda>v w. ceq v w) ac bc))
   \<and> eqDSBoolsC64 ceq ac sc = Inr (map (\<lambda>v. ceq v sc) ac)
   \<and> (length ac = length bc \<longrightarrow>
        eqDDBoolsC128 ceq ac bc = Inr (map2 (\<lambda>v w. ceq v w) ac bc))
   \<and> eqDSBoolsC128 ceq ac sc = Inr (map (\<lambda>v. ceq v sc) ac)"
proof -
  have g1: "length a = length b \<longrightarrow>
      (\<exists>r. compareArrayArray opr a b = Inr r \<and> length r = length a
           \<and> (\<forall>i<length a. r ! i = opr (a ! i) (b ! i)))"
    by (simp add: compareArrayArray_eq)
  have g2: "\<exists>r. compareArrayScalar opr a s = Inr r \<and> length r = length a
           \<and> (\<forall>i<length a. r ! i = opr (a ! i) s)"
    by (simp add: compareArrayScalar_eq)
  have g3: "eqDDBoolsI [1, 2, 3] [1, 5, 3] = Inr [True, False, True]"
    by (simp add: eqDDBoolsI_def compareArrayArray_eq goOpSigned_def)
  have g4: "eqDSBoolsI [1, 2, 3] 2 = Inr [False, True, False]"
    by (simp add: eqDSBoolsI_def compareArrayScalar_eq goOpSigned_def)
  have dd: "length x = length y \<Longrightarrow> compareArrayArray f x y = Inr (map2 f x y)" for f x y
    by (simp add: compareArrayArray_eq)
  note ds = compareArrayScalar_eq
  note sg = goOpSigned_fun
  have ud: "length x = length y \<Longrightarrow>
      compareArrayArray (goOp c) x y = Inr (map2 (\<lambda>v w. goOp c (unat v) (unat w)) x y)" for x y
    by (subst goOp_unat_fun) (rule dd)
  have us: "compareArrayScalar (goOp c) x t = Inr (map (\<lambda>v. goOp c (unat v) (unat t)) x)" for x t
    by (subst goOp_unat_fun) (rule ds)
  show ?thesis
    apply (intro conjI impI)
    apply (rule g1 [rule_format], assumption)
    apply (rule g2)
    apply (rule g3)
    apply (rule g4)
    apply (simp_all only: kernel_shapes ud us)
    apply (simp_all add: dd ds sg eqDDBoolsB_def eqDSBoolsB_def eqDDBoolsUnsafePointer_def
        eqDSBoolsUnsafePointer_def eqDDBoolsC64_def eqDSBoolsC64_def eqDDBoolsC128_def
        eqDSBoolsC128_def)
    done
qed

theorem kernels_mask_witness:
  "length [255, 2 :: i8] = length [1, 2 :: i8]
   \<and> gtDDBoolsI8 [255, 2] [1, 2] = Inr [False, False]
   \<and> gtDDBoolsU8 [255, 2] [1, 2] = Inr [True, False]
   \<and> gtDSBoolsI8 [255, 2] 1 = Inr [False, True]
   \<and> gtDSBoolsU8 [255, 2] 1 = Inr [True, True]
   \<and> (\<exists>r. compareArrayArray (goOpSigned Gt) [3, 2, 1 :: go_int] [1, 5, 0] = Inr r
          \<and> length r = 3 \<and> r ! 0 = True \<and> r ! 1 = False \<and> r ! 2 = True)"
proof -
  let ?a = "[3, 2, 1 :: go_int]" and ?b = "[1, 5, 0 :: go_int]"
  let ?x = "[255, 2 :: i8]" and ?y = "[1, 2 :: i8]"
  note k = kernels_mask [where c = Gt and a = ?a and b = ?b and opr = "goOpSigned Gt"
      and s = 0 and ?a8.0 = ?x and ?b8.0 = ?y and ?s8.0 = 1
      and ?a16.0 = "[]" and ?b16.0 = "[]" and ?s16.0 = 0
      and ?a32.0 = "[]" and ?b32.0 = "[]" and ?s32.0 = 0
      and ?a64.0 = "[]" and ?b64.0 = "[]" and ?s64.0 = 0
      and af = "[] :: nat list" and bf = "[]" and sf = 0 and fop = "goOp"
      and as = "[]" and bs = "[]" and ss = "[]"
      and at = "[]" and bt = "[]" and st = True
      and ap = "[]" and bp = "[]" and sp = 0
      and ac = "[] :: nat list" and bc = "[]" and sc = 0 and ceq = "(=)"]
  have len: "length ?a = length ?b" and len8: "length ?x = length ?y" by simp_all
  have t: "ddBools (kernelsI8 Gt) = gtDDBoolsI8" "ddBools (kernelsU8 Gt) = gtDDBoolsU8"
    "dsBools (kernelsI8 Gt) = gtDSBoolsI8" "dsBools (kernelsU8 Gt) = gtDSBoolsU8"
    by (simp_all add: kernelsI8_def kernelsU8_def)
  from k len obtain r where r: "compareArrayArray (goOpSigned Gt) ?a ?b = Inr r"
      "length r = length ?a" "\<forall>i<length ?a. r ! i = goOpSigned Gt (?a ! i) (?b ! i)"
    by blast
  have "r ! 0 = True \<and> r ! 1 = False \<and> r ! 2 = True"
    using r(3) by (simp add: goOpSigned_def)
  with r have g: "\<exists>r. compareArrayArray (goOpSigned Gt) ?a ?b = Inr r
          \<and> length r = 3 \<and> r ! 0 = True \<and> r ! 1 = False \<and> r ! 2 = True"
    by simp
  from k len8 have
    "ddBools (kernelsI8 Gt) ?x ?y = Inr (map2 (\<lambda>v w. goOp Gt (sint v) (sint w)) ?x ?y)"
    "ddBools (kernelsU8 Gt) ?x ?y = Inr (map2 (\<lambda>v w. goOp Gt (unat v) (unat w)) ?x ?y)"
    "dsBools (kernelsI8 Gt) ?x 1 = Inr (map (\<lambda>v. goOp Gt (sint v) (sint (1 :: i8))) ?x)"
    "dsBools (kernelsU8 Gt) ?x 1 = Inr (map (\<lambda>v. goOp Gt (unat v) (unat (1 :: i8))) ?x)"
    by blast+
  then have "gtDDBoolsI8 ?x ?y = Inr [False, False]" "gtDDBoolsU8 ?x ?y = Inr [True, False]"
    "gtDSBoolsI8 ?x 1 = Inr [False, True]" "gtDSBoolsU8 ?x 1 = Inr [True, True]"
    by (simp_all add: t)
  with g len8 show ?thesis by blast
qed

text \<open>
  C2. For any kind with distinct \<open>0\<close> and \<open>1\<close> and any operator: on inputs of equal
  length the same-type kernel and the mask kernel both return, with results of one
  length, and the \<open>i\<close>-th indicator is \<open>1\<close> exactly when the \<open>i\<close>-th mask element is
  true, and is \<open>0\<close> otherwise; likewise for the array-scalar kernels. In particular
  \<open>eqDDSameI\<close> maps \<open>[1,2,3]\<close> and \<open>[1,5,3]\<close> to \<open>[1,0,1]\<close>. And for every kind that
  has same-type functions and every operator \<open>c\<close> of the kind, the generated same-type
  function of \<open>c\<close> returns, on all inputs, the indicator (\<open>1\<close> where true, \<open>0\<close>
  elsewhere) of what the generated mask function of \<open>c\<close> returns, and panics where it
  panics.
\<close>

theorem kernels_same_agree:
  fixes a b :: "('a::zero_neq_one) list" and m :: "bool list"
    and af bf :: "('f::zero_neq_one) list" and ac bc :: "('c::zero_neq_one) list"
  shows
  "(length a = length b \<longrightarrow>
      (\<exists>m s. compareArrayArray opr a b = Inr m \<and> compareArrayArraySame opr a b = Inr s
            \<and> length m = length a \<and> length s = length a
            \<and> (\<forall>i<length a. (s ! i = 1 \<longleftrightarrow> m ! i) \<and> (\<not> m ! i \<longrightarrow> s ! i = 0))))
   \<and> (\<exists>m s. compareArrayScalar opr a c' = Inr m \<and> compareArrayScalarSame opr a c' = Inr s
            \<and> length m = length a \<and> length s = length a
            \<and> (\<forall>i<length a. (s ! i = 1 \<longleftrightarrow> m ! i) \<and> (\<not> m ! i \<longrightarrow> s ! i = 0)))
   \<and> eqDDSameI [1, 2, 3] [1, 5, 3] = Inr [1, 0, 1]
   \<and> length (indicator m :: 'a list) = length m
   \<and> (\<forall>i<length m. ((indicator m ! i :: 'a) = 1 \<longleftrightarrow> m ! i)
          \<and> (\<not> m ! i \<longrightarrow> (indicator m ! i :: 'a) = 0))
   \<and> ddSame (kernelsI c) a64 b64 =
        (case ddBools (kernelsI c) a64 b64 of Inl e \<Rightarrow> Inl e | Inr m \<Rightarrow> Inr (indicator m))
   \<and> dsSame (kernelsI c) a64 s64 =
        (case dsBools (kernelsI c) a64 s64 of Inl e \<Rightarrow> Inl e | Inr m \<Rightarrow> Inr (indicator m))
   \<and> ddSame (kernelsI8 c) a8 b8 =
        (case ddBools (kernelsI8 c) a8 b8 of Inl e \<Rightarrow> Inl e | Inr m \<Rightarrow> Inr (indicator m))
   \<and> dsSame (kernelsI8 c) a8 s8 =
        (case dsBools (kernelsI8 c) a8 s8 of Inl e \<Rightarrow> Inl e | Inr m \<Rightarrow> Inr (indicator m))
   \<and> ddSame (kernelsI16 c) a16 b16 =
        (case ddBools (kernelsI16 c) a16 b16 of Inl e \<Rightarrow> Inl e | Inr m \<Rightarrow> Inr (indicator m))
   \<and> dsSame (kernelsI16 c) a16 s16 =
        (case dsBools (kernelsI16 c) a16 s16 of Inl e \<Rightarrow> Inl e | Inr m \<Rightarrow> Inr (indicator m))
   \<and> ddSame (kernelsI32 c) a32 b32 =
        (case ddBools (kernelsI32 c) a32 b32 of Inl e \<Rightarrow> Inl e | Inr m \<Rightarrow> Inr (indicator m))
   \<and> dsSame (kernelsI32 c) a32 s32 =
        (case dsBools (kernelsI32 c) a32 s32 of Inl e \<Rightarrow> Inl e | Inr m \<Rightarrow> Inr (indicator m))
   \<and> ddSame (kernelsI64 c) a64 b64 =
        (case ddBools (kernelsI64 c) a64 b64 of Inl e \<Rightarrow> Inl e | Inr m \<Rightarrow> Inr (indicator m))
   \<and> dsSame (kernelsI64 c) a64 s64 =
        (case dsBools (kernelsI64 c) a64 s64 of Inl e \<Rightarrow> Inl e | Inr m \<Rightarrow> Inr (indicator m))
   \<and> ddSame (kernelsU c) a64 b64 =
        (case ddBools (kernelsU c) a64 b64 of Inl e \<Rightarrow> Inl e | Inr m \<Rightarrow> Inr (indicator m))
   \<and> dsSame (kernelsU c) a64 s64 =
        (case dsBools (kernelsU c) a64 s64 of Inl e \<Rightarrow> Inl e | Inr m \<Rightarrow> Inr (indicator m))
   \<and> ddSame (kernelsU8 c) a8 b8 =
        (case ddBools (kernelsU8 c) a8 b8 of Inl e \<Rightarrow> Inl e | Inr m \<Rightarrow> Inr (indicator m))
   \<and> dsSame (kernelsU8 c) a8 s8 =
        (case dsBools (kernelsU8 c) a8 s8 of Inl e \<Rightarrow> Inl e | Inr m \<Rightarrow> Inr (indicator m))
   \<and> ddSame (kernelsU16 c) a16 b16 =
        (case ddBools (kernelsU16 c) a16 b16 of Inl e \<Rightarrow> Inl e | Inr m \<Rightarrow> Inr (indicator m))
   \<and> dsSame (kernelsU16 c) a16 s16 =
        (case dsBools (kernelsU16 c) a16 s16 of Inl e \<Rightarrow> Inl e | Inr m \<Rightarrow> Inr (indicator m))
   \<and> ddSame (kernelsU32 c) a32 b32 =
        (case ddBools (kernelsU32 c) a32 b32 of Inl e \<Rightarrow> Inl e | Inr m \<Rightarrow> Inr (indicator m))
   \<and> dsSame (kernelsU32 c) a32 s32 =
        (case dsBools (kernelsU32 c) a32 s32 of Inl e \<Rightarrow> Inl e | Inr m \<Rightarrow> Inr (indicator m))
   \<and> ddSame (kernelsU64 c) a64 b64 =
        (case ddBools (kernelsU64 c) a64 b64 of Inl e \<Rightarrow> Inl e | Inr m \<Rightarrow> Inr (indicator m))
   \<and> dsSame (kernelsU64 c) a64 s64 =
        (case dsBools (kernelsU64 c) a64 s64 of Inl e \<Rightarrow> Inl e | Inr m \<Rightarrow> Inr (indicator m))
   \<and> ddSame (kernelsF32 fop c) af bf =
        (case ddBools (kernelsF32 fop c) af bf of Inl e \<Rightarrow> Inl e | Inr m \<Rightarrow> Inr (indicator m))
   \<and> dsSame (kernelsF32 fop c) af sf =
        (case dsBools (kernelsF32 fop c) af sf of Inl e \<Rightarrow> Inl e | Inr m \<Rightarrow> Inr (indicator m))
   \<and> ddSame (kernelsF64 fop c) af bf =
        (case ddBools (kernelsF64 fop c) af bf of Inl e \<Rightarrow> Inl e | Inr m \<Rightarrow> Inr (indicator m))
   \<and> dsSame (kernelsF64 fop c) af sf =
        (case dsBools (kernelsF64 fop c) af sf of Inl e \<Rightarrow> Inl e | Inr m \<Rightarrow> Inr (indicator m))
   \<and> eqDDSameC64 ceq ac bc =
        (case eqDDBoolsC64 ceq ac bc of Inl e \<Rightarrow> Inl e | Inr m \<Rightarrow> Inr (indicator m))
   \<and> eqDSSameC64 ceq ac sc =
        (case eqDSBoolsC64 ceq ac sc of Inl e \<Rightarrow> Inl e | Inr m \<Rightarrow> Inr (indicator m))
   \<and> eqDDSameC128 ceq ac bc =
        (case eqDDBoolsC128 ceq ac bc of Inl e \<Rightarrow> Inl e | Inr m \<Rightarrow> Inr (indicator m))
   \<and> eqDSSameC128 ceq ac sc =
        (case eqDSBoolsC128 ceq ac sc of Inl e \<Rightarrow> Inl e | Inr m \<Rightarrow> Inr (indicator m))"
proof -
  have g1: "length a = length b \<longrightarrow>
      (\<exists>m s. compareArrayArray opr a b = Inr m \<and> compareArrayArraySame opr a b = Inr s
            \<and> length m = length a \<and> length s = length a
            \<and> (\<forall>i<length a. (s ! i = 1 \<longleftrightarrow> m ! i) \<and> (\<not> m ! i \<longrightarrow> s ! i = 0)))"
    by (simp add: compareArrayArray_eq compareArrayArraySame_eq)
  have g2: "\<exists>m s. compareArrayScalar opr a c' = Inr m \<and> compareArrayScalarSame opr a c' = Inr s
            \<and> length m = length a \<and> length s = length a
            \<and> (\<forall>i<length a. (s ! i = 1 \<longleftrightarrow> m ! i) \<and> (\<not> m ! i \<longrightarrow> s ! i = 0))"
    by (simp add: compareArrayScalar_eq compareArrayScalarSame_eq)
  have g3: "eqDDSameI [1, 2, 3] [1, 5, 3] = Inr [1, 0, 1]"
    by (simp add: eqDDSameI_def compareArrayArraySame_eq goOpSigned_def)
  have g4: "length (indicator m :: 'a list) = length m"
    by (simp add: indicator_def)
  have g5: "\<forall>i<length m. ((indicator m ! i :: 'a) = 1 \<longleftrightarrow> m ! i)
          \<and> (\<not> m ! i \<longrightarrow> (indicator m ! i :: 'a) = 0)"
    by (simp add: indicator_def)
  note dd = compareArrayArraySame_indicator
  note ds = compareArrayScalarSame_indicator
  show ?thesis
    apply (intro conjI)
    apply (rule g1)
    apply (rule g2)
    apply (rule g3)
    apply (rule g4)
    apply (rule g5)
    apply (simp_all only: kernel_shapes dd ds eqDDSameC64_def eqDSSameC64_def eqDDBoolsC64_def
        eqDSBoolsC64_def eqDDSameC128_def eqDSSameC128_def eqDDBoolsC128_def eqDSBoolsC128_def)
    done
qed

theorem kernels_same_agree_witness:
  "length [255, 2 :: i8] = length [1, 2 :: i8]
   \<and> ltDDBoolsI8 [255, 2] [1, 2] = Inr [True, False]
   \<and> ltDDSameI8 [255, 2] [1, 2] = Inr [1, 0]
   \<and> ltDDBoolsU8 [255, 2] [1, 2] = Inr [False, False]
   \<and> ltDDSameU8 [255, 2] [1, 2] = Inr [0, 0]
   \<and> (\<exists>m s. compareArrayArray (goOpSigned Lte) [3, 2, 1 :: go_int] [1, 5, 0] = Inr m
          \<and> compareArrayArraySame (goOpSigned Lte) [3, 2, 1 :: go_int] [1, 5, 0] = Inr s
          \<and> (s ! 0 = 1) = m ! 0 \<and> (s ! 1 = 1) = m ! 1 \<and> (s ! 2 = 1) = m ! 2)"
proof -
  let ?a = "[3, 2, 1 :: go_int]" and ?b = "[1, 5, 0 :: go_int]"
  let ?x = "[255, 2 :: i8]" and ?y = "[1, 2 :: i8]"
  note k = kernels_same_agree [where c = Lt and a = ?a and b = ?b and opr = "goOpSigned Lte"
      and c' = 0 and m = "[]" and ?a8.0 = ?x and ?b8.0 = ?y and ?s8.0 = 1
      and ?a16.0 = "[]" and ?b16.0 = "[]" and ?s16.0 = 0
      and ?a32.0 = "[]" and ?b32.0 = "[]" and ?s32.0 = 0
      and ?a64.0 = "[]" and ?b64.0 = "[]" and ?s64.0 = 0
      and af = "[] :: nat list" and bf = "[]" and sf = 0 and fop = "goOp"
      and ac = "[] :: nat list" and bc = "[]" and sc = 0 and ceq = "(=)"]
  have len: "length ?a = length ?b" and len8: "length ?x = length ?y" by simp_all
  have t: "ddBools (kernelsI8 Lt) = ltDDBoolsI8" "ddBools (kernelsU8 Lt) = ltDDBoolsU8"
    "ddSame (kernelsI8 Lt) = ltDDSameI8" "ddSame (kernelsU8 Lt) = ltDDSameU8"
    by (simp_all add: kernelsI8_def kernelsU8_def)
  have m8: "ltDDBoolsI8 ?x ?y = Inr [True, False]" "ltDDBoolsU8 ?x ?y = Inr [False, False]"
    by (simp_all add: ltDDBoolsI8_def ltDDBoolsU8_def compareArrayArray_eq goOpSigned_def)
  from k len obtain m s where ms: "compareArrayArray (goOpSigned Lte) ?a ?b = Inr m"
      "compareArrayArraySame (goOpSigned Lte) ?a ?b = Inr s"
      "\<forall>i<length ?a. (s ! i = 1 \<longleftrightarrow> m ! i) \<and> (\<not> m ! i \<longrightarrow> s ! i = 0)"
    by blast
  have "(s ! 0 = 1) = m ! 0 \<and> (s ! 1 = 1) = m ! 1 \<and> (s ! 2 = 1) = m ! 2"
    using ms(3) by simp
  with ms have g: "\<exists>m s. compareArrayArray (goOpSigned Lte) ?a ?b = Inr m
          \<and> compareArrayArraySame (goOpSigned Lte) ?a ?b = Inr s
          \<and> (s ! 0 = 1) = m ! 0 \<and> (s ! 1 = 1) = m ! 1 \<and> (s ! 2 = 1) = m ! 2"
    by blast
  from k have
    "ddSame (kernelsI8 Lt) ?x ?y =
       (case ddBools (kernelsI8 Lt) ?x ?y of Inl e \<Rightarrow> Inl e | Inr m \<Rightarrow> Inr (indicator m))"
    "ddSame (kernelsU8 Lt) ?x ?y =
       (case ddBools (kernelsU8 Lt) ?x ?y of Inl e \<Rightarrow> Inl e | Inr m \<Rightarrow> Inr (indicator m))"
    by blast+
  then have "ltDDSameI8 ?x ?y = Inr [1, 0]" "ltDDSameU8 ?x ?y = Inr [0, 0]"
    by (simp_all add: t m8 indicator_def)
  with g len8 m8 show ?thesis by blast
qed






text \<open>
  C9. Any kernel, on any store and any two input slices that lie in it (they may
  overlap, or be the same): every array of the store is afterwards what it was, so
  both inputs are unchanged element for element; the store has one array more; and a
  returned slice is a view of that new array, which is no array of the old store and
  so the array of neither input. This holds as well when the kernel panics. It is
  stated for the two loop shapes on a store, of which \<open>eqDDBoolsB\<close>, \<open>eqDDSameI\<close>
  and \<open>eqDSSameI\<close> are instances.
\<close>

theorem kernels_frame:
  assumes "valid h a" and "valid h b"
  shows
  "(\<forall>h' res. memKernelDD f z h a b = (h', res) \<longrightarrow>
      length h' = Suc (length h) \<and> (\<forall>p<length h. h' ! p = h ! p)
      \<and> valid h' a \<and> contents h' a = contents h a
      \<and> valid h' b \<and> contents h' b = contents h b
      \<and> (\<forall>s. res = Inr s \<longrightarrow>
            arr s = length h \<and> arr s \<noteq> arr a \<and> arr s \<noteq> arr b \<and> off s = 0 \<and> len s = len a))
   \<and> (\<forall>h' res. memKernelDS f z h a c = (h', res) \<longrightarrow>
      length h' = Suc (length h) \<and> (\<forall>p<length h. h' ! p = h ! p)
      \<and> valid h' a \<and> contents h' a = contents h a
      \<and> (\<forall>s. res = Inr s \<longrightarrow>
            arr s = length h \<and> arr s \<noteq> arr a \<and> off s = 0 \<and> len s = len a))
   \<and> eqDDBoolsB_mem = memKernelDD (\<lambda>v w. v = w) False
   \<and> eqDDSameI_mem = memKernelDD (\<lambda>v w. if goOpSigned Eq v w then 1 else 0) 0
   \<and> eqDSSameI_mem = memKernelDS (\<lambda>v w. if goOpSigned Eq v w then 1 else 0) 0"
proof -
  have dd: "length h' = Suc (length h) \<and> (\<forall>p<length h. h' ! p = h ! p)
      \<and> valid h' a \<and> contents h' a = contents h a
      \<and> valid h' b \<and> contents h' b = contents h b
      \<and> (\<forall>s. res = Inr s \<longrightarrow>
            arr s = length h \<and> arr s \<noteq> arr a \<and> arr s \<noteq> arr b \<and> off s = 0 \<and> len s = len a)"
    if run: "memKernelDD f z h a b = (h', res)" for h' res
  proof -
    note fr = memKernelDD_frame [OF run]
    from fr have le: "length h \<le> length h'" and same: "\<forall>p<length h. h' ! p = h ! p"
      by simp_all
    have "arr a < length h" "arr b < length h"
      using assms by (simp_all add: valid_def)
    with fr frame_valid [OF assms(1) le same] frame_valid [OF assms(2) le same]
    show ?thesis by auto
  qed
  have ds: "length h' = Suc (length h) \<and> (\<forall>p<length h. h' ! p = h ! p)
      \<and> valid h' a \<and> contents h' a = contents h a
      \<and> (\<forall>s. res = Inr s \<longrightarrow>
            arr s = length h \<and> arr s \<noteq> arr a \<and> off s = 0 \<and> len s = len a)"
    if run: "memKernelDS f z h a c = (h', res)" for h' res
  proof -
    note fr = memKernelDS_frame [OF run]
    from fr have le: "length h \<le> length h'" and same: "\<forall>p<length h. h' ! p = h ! p"
      by simp_all
    have "arr a < length h"
      using assms by (simp add: valid_def)
    with fr frame_valid [OF assms(1) le same]
    show ?thesis by auto
  qed
  have i1: "eqDDBoolsB_mem = memKernelDD (\<lambda>v w. v = w) False"
    by (intro ext) (simp add: eqDDBoolsB_mem_def)
  have i2: "eqDDSameI_mem = memKernelDD (\<lambda>v w. if goOpSigned Eq v w then 1 else 0) 0"
    by (intro ext) (simp add: eqDDSameI_mem_def)
  have i3: "eqDSSameI_mem = memKernelDS (\<lambda>v w. if goOpSigned Eq v w then 1 else 0) 0"
    by (intro ext) (simp add: eqDSSameI_mem_def)
  from dd ds i1 i2 i3 show ?thesis
    by blast
qed

theorem kernels_frame_witness:
  "valid [[True, False, True]] \<lparr>arr = 0, off = 0, len = 2\<rparr>
   \<and> valid [[True, False, True]] \<lparr>arr = 0, off = 1, len = 2\<rparr>
   \<and> (\<exists>h' s. eqDDBoolsB_mem [[True, False, True]] \<lparr>arr = 0, off = 0, len = 2\<rparr>
                  \<lparr>arr = 0, off = 1, len = 2\<rparr> = (h', Inr s)
         \<and> length h' = 2 \<and> h' ! 0 = [True, False, True]
         \<and> contents h' \<lparr>arr = 0, off = 0, len = 2\<rparr> = [True, False]
         \<and> contents h' \<lparr>arr = 0, off = 1, len = 2\<rparr> = [False, True]
         \<and> arr s = 1 \<and> len s = 2)"
proof -
  let ?h = "[[True, False, True]]"
  let ?a = "\<lparr>arr = 0, off = 0, len = 2\<rparr>" and ?b = "\<lparr>arr = 0, off = 1, len = 2\<rparr>"
  have va: "valid ?h ?a" and vb: "valid ?h ?b"
    by (simp_all add: valid_def)
  have ca: "contents ?h ?a = [True, False]" and cb: "contents ?h ?b = [False, True]"
    by (simp_all add: contents_def)
  from memKernelDD_returns [OF va vb, of "\<lambda>v w. v = w" False]
  obtain h' s where run: "memKernelDD (\<lambda>v w. v = w) False ?h ?a ?b = (h', Inr s)"
    by auto
  note k = kernels_frame [OF va vb, where f = "\<lambda>v w. v = w" and z = False]
  from k run have
    "length h' = Suc (length ?h)" "\<forall>p<length ?h. h' ! p = ?h ! p"
    "contents h' ?a = contents ?h ?a" "contents h' ?b = contents ?h ?b"
    "arr s = length ?h" "len s = len ?a"
    by blast+
  note f = this [unfolded ca cb]
  from f have "length h' = 2" "h' ! 0 = [True, False, True]"
    "contents h' ?a = [True, False]" "contents h' ?b = [False, True]" "arr s = 1" "len s = 2"
    by simp_all
  moreover have "eqDDBoolsB_mem ?h ?a ?b = (h', Inr s)"
    using run by (simp add: eqDDBoolsB_mem_def del: memRangeDD.simps)
  ultimately show ?thesis
    using va vb by blast
qed

section \<open>Properties of the generator\<close>

subsection \<open>The catalog extractor\<close>

lemma rangeSpecs_run:
  "list_all wfSpec specs \<Longrightarrow>
   rangeSpecs maxId specs names = Inr (names @ filter (\<lambda>n. n \<noteq> maxId) (map firstName specs))"
proof (induction specs arbitrary: names)
  case Nil
  then show ?case by simp
next
  case (Cons spec specs)
  then obtain n ns ty where spec: "spec = ValueSpec (n # ns) ty"
    by (cases spec; cases "case spec of ValueSpec ns ty \<Rightarrow> ns | _ \<Rightarrow> []") auto
  from Cons.prems have "list_all wfSpec specs" by simp
  then show ?case
    by (simp add: spec index_def Cons.IH)
qed

lemma rangeDecls_step:
  assumes "wfDecl d"
  shows "rangeDecls accept maxId (d # rest) names =
    rangeDecls accept maxId rest (names @ (if matches accept d then members maxId d else []))"
proof (cases d)
  case (GenDecl tok specs)
  show ?thesis
  proof (cases "tok = TokCONST")
    case False
    then have "tokenString tok \<noteq> ''const''" by (cases tok) simp_all
    moreover have "\<not> matches accept d" using False GenDecl by (cases tok) simp_all
    ultimately show ?thesis by (simp add: GenDecl)
  next
    case True
    show ?thesis
    proof (cases specs)
      case Nil
      then show ?thesis by (simp add: GenDecl True)
    next
      case (Cons spec0 more)
      from assms have wf: "list_all wfSpec specs" by (simp add: GenDecl True)
      then obtain ns0 ty0 where s0: "spec0 = ValueSpec ns0 ty0"
        using Cons by (cases spec0) simp_all
      have idx: "index specs 0 = Inr spec0" by (simp add: Cons index_def)
      show ?thesis
      proof (cases ty0)
        case None
        then show ?thesis by (simp add: GenDecl True Cons s0 index_def)
      next
        case (Some ty)
        show ?thesis
        proof (cases ty)
          case (Ident n)
          show ?thesis
          proof (cases "n = accept")
            case False
            then show ?thesis by (simp add: GenDecl True Cons s0 Some Ident index_def)
          next
            case eq: True
            have "rangeSpecs maxId specs names
                = Inr (names @ filter (\<lambda>n. n \<noteq> maxId) (map firstName specs))"
              by (rule rangeSpecs_run [OF wf])
            then have "rangeSpecs maxId (ValueSpec ns0 (Some (Ident accept)) # more) names
                = Inr (names @ filter (\<lambda>n. n \<noteq> maxId) (map firstName specs))"
              by (simp only: Cons s0 Some Ident eq)
            moreover have "rangeDecls accept maxId (d # rest) names =
              (case rangeSpecs maxId (ValueSpec ns0 (Some (Ident accept)) # more) names of
                 Inl e \<Rightarrow> Inl e | Inr names' \<Rightarrow> rangeDecls accept maxId rest names')"
              by (simp add: GenDecl True Cons s0 Some Ident eq index_def)
            ultimately show ?thesis
              by (simp add: GenDecl True Cons s0 Some Ident eq)
          qed
        next
          case OtherExpr
          show ?thesis
          proof (cases "accept = ''''")
            case False
            then have "'''' \<noteq> accept" by blast
            then show ?thesis using False
              by (simp add: GenDecl True Cons s0 Some OtherExpr index_def)
          next
            case eq: True
            have "rangeSpecs maxId specs names
                = Inr (names @ filter (\<lambda>n. n \<noteq> maxId) (map firstName specs))"
              by (rule rangeSpecs_run [OF wf])
            then have r: "rangeSpecs maxId (ValueSpec ns0 (Some OtherExpr) # more) names
                = Inr (names @ filter (\<lambda>n. n \<noteq> maxId) (map firstName specs))"
              by (simp only: Cons s0 Some OtherExpr)
            have "rangeDecls [] maxId (d # rest) names =
              (case rangeSpecs maxId (ValueSpec ns0 (Some OtherExpr) # more) names of
                 Inl e \<Rightarrow> Inl e | Inr names' \<Rightarrow> rangeDecls [] maxId rest names')"
              by (simp add: GenDecl True Cons s0 Some OtherExpr index_def)
            with r show ?thesis
              unfolding eq by (simp add: GenDecl True Cons s0 Some OtherExpr)
          qed
        qed
      qed
    qed
  qed
next
  case FuncDecl
  then show ?thesis by simp
next
  case BadDecl
  then show ?thesis by simp
qed

lemma rangeDecls_run:
  "list_all wfDecl decls \<Longrightarrow>
   rangeDecls accept maxId decls names = Inr (names @ constTypes_allGroups decls accept maxId)"
proof (induction decls arbitrary: names)
  case Nil
  then show ?case by (simp add: constTypes_allGroups_def)
next
  case (Cons d decls)
  then have wf: "wfDecl d" and wfs: "list_all wfDecl decls" by simp_all
  show ?case
    by (simp only: rangeDecls_step [OF wf] Cons.IH [OF wfs])
       (simp add: constTypes_allGroups_def)
qed

lemma constTypes_eq:
  "list_all wfDecl decls \<Longrightarrow>
   constTypes decls accept maxId = Inr (constTypes_allGroups decls accept maxId)"
  by (simp add: constTypes_def rangeDecls_run)

lemma find_filter_Cons:
  "filter P xs = d # ds \<Longrightarrow> find P xs = Some d"
  by (induction xs) (auto split: if_splits)

lemma members_no_sentinel: "maxId \<notin> set (members maxId d)"
  by (cases d) simp_all

text \<open>
  C3, as stated, on two groups of the accepted type: \<open>constTypes\<close> returns the
  members of both, where accepting only the first group would give \<open>[Add]\<close>.
\<close>

theorem constTypes_first_group_counterexample:
  "constTypes
     [GenDecl TokCONST [ValueSpec [''Add''] (Some (Ident ''T''))],
      GenDecl TokCONST [ValueSpec [''Sub''] (Some (Ident ''T''))]] ''T'' ''maxMarker''
     = Inr [''Add'', ''Sub'']
   \<and> constTypes_firstGroup
     [GenDecl TokCONST [ValueSpec [''Add''] (Some (Ident ''T''))],
      GenDecl TokCONST [ValueSpec [''Sub''] (Some (Ident ''T''))]] ''T'' ''maxMarker''
     = [''Add'']"
  by (simp add: constTypes_def constTypes_firstGroup_def index_def)

text \<open>
  C3, amended. On the declarations of a parsed file, \<open>constTypes\<close> scans the
  top-level declarations in order and returns without error, for every constant group
  whose first member's declared type is the given type name (every such group, not
  only the first), the first identifier of each member in declaration order, the
  sentinel skipped wherever it stands: the concatenation over the matching groups. So
  the result is the first matching group's members when one group matches, and the
  empty list when none does or the group has no member. The catalog
  \<open>{Add, Sub, maxMarker}\<close> with sentinel \<open>maxMarker\<close> gives \<open>[Add, Sub]\<close>.
\<close>

theorem constTypes_all_groups:
  assumes "list_all wfDecl decls"
  shows
  "constTypes decls accept maxId = Inr (constTypes_allGroups decls accept maxId)
   \<and> maxId \<notin> set (constTypes_allGroups decls accept maxId)
   \<and> (filter (matches accept) decls = [] \<longrightarrow> constTypes decls accept maxId = Inr [])
   \<and> (\<forall>d. filter (matches accept) decls = [d] \<longrightarrow>
        constTypes decls accept maxId = Inr (members maxId d)
        \<and> constTypes_firstGroup decls accept maxId = members maxId d)
   \<and> constTypes (GenDecl TokCONST [] # decls) accept maxId = constTypes decls accept maxId
   \<and> constTypes
        [GenDecl TokCONST [ValueSpec [''Add''] (Some (Ident ''T'')), ValueSpec [''Sub''] None,
           ValueSpec [''maxMarker''] None]] ''T'' ''maxMarker''
       = Inr [''Add'', ''Sub'']"
proof -
  note eq = constTypes_eq [OF assms, of accept maxId]
  have 1: "maxId \<notin> set (constTypes_allGroups decls accept maxId)"
    by (auto simp: constTypes_allGroups_def members_no_sentinel)
  have 2: "filter (matches accept) decls = [] \<longrightarrow> constTypes decls accept maxId = Inr []"
    by (simp add: eq constTypes_allGroups_def)
  have 3: "\<forall>d. filter (matches accept) decls = [d] \<longrightarrow>
        constTypes decls accept maxId = Inr (members maxId d)
        \<and> constTypes_firstGroup decls accept maxId = members maxId d"
    by (auto simp: eq constTypes_allGroups_def constTypes_firstGroup_def find_filter_Cons)
  have 4: "constTypes (GenDecl TokCONST [] # decls) accept maxId = constTypes decls accept maxId"
    by (simp add: constTypes_def)
  have 5: "constTypes
        [GenDecl TokCONST [ValueSpec [''Add''] (Some (Ident ''T'')), ValueSpec [''Sub''] None,
           ValueSpec [''maxMarker''] None]] ''T'' ''maxMarker''
       = Inr [''Add'', ''Sub'']"
    by (simp add: constTypes_def index_def)
  from eq 1 2 3 4 5 show ?thesis by blast
qed

theorem constTypes_all_groups_witness:
  "list_all wfDecl
     [FuncDecl,
      GenDecl TokCONST [ValueSpec [''maxOp''] (Some (Ident ''OpT'')), ValueSpec [''addOp''] None],
      GenDecl TokVAR [ValueSpec [''x''] (Some (Ident ''OpT''))],
      GenDecl TokCONST [ValueSpec [''subOp'', ''mulOp''] (Some (Ident ''OpT''))]]
   \<and> constTypes
     [FuncDecl,
      GenDecl TokCONST [ValueSpec [''maxOp''] (Some (Ident ''OpT'')), ValueSpec [''addOp''] None],
      GenDecl TokVAR [ValueSpec [''x''] (Some (Ident ''OpT''))],
      GenDecl TokCONST [ValueSpec [''subOp'', ''mulOp''] (Some (Ident ''OpT''))]]
     ''OpT'' ''maxOp''
     = Inr [''addOp'', ''subOp'']"
proof -
  let ?decls = "[FuncDecl,
      GenDecl TokCONST [ValueSpec [''maxOp''] (Some (Ident ''OpT'')), ValueSpec [''addOp''] None],
      GenDecl TokVAR [ValueSpec [''x''] (Some (Ident ''OpT''))],
      GenDecl TokCONST [ValueSpec [''subOp'', ''mulOp''] (Some (Ident ''OpT''))]]"
  have wf: "list_all wfDecl ?decls" by simp
  have "constTypes_allGroups ?decls ''OpT'' ''maxOp'' = [''addOp'', ''subOp'']"
    by (simp add: constTypes_allGroups_def)
  with constTypes_all_groups [OF wf, of "''OpT''" "''maxOp''"] wf
  show ?thesis by simp
qed

subsection \<open>The name normalizer\<close>

lemmas string_tables = digits_def lowerLetters_def upperLetters_def identChar_def
  asciiToTitle_def asciiToLower_def

lemmas rune_funs = runeWidth_def isASCII_def ToTitleRune_def ToLowerRune_def isSeparator_def
  validRune_def letterRune_def digitRune_def identRune_def

lemmas string_funs = TrimSuffix_def HasSuffix_def Title_def Capitalize_def ToLower_def

lemma concat_runes: "concat (runes s) = s"
  by (induction s rule: runes.induct) simp_all

lemma validRune_width: "validRune (c # cs) \<Longrightarrow> length cs = runeWidth c - 1"
  by (simp add: validRune_def runeWidth_def split: if_splits)

lemma runes_concat: "list_all validRune rs \<Longrightarrow> runes (concat rs) = rs"
proof (induction rs)
  case Nil
  then show ?case by simp
next
  case (Cons r rs)
  then obtain c cs where r: "r = c # cs"
    by (cases r) (simp_all add: validRune_def)
  with Cons.prems have "validRune (c # cs)" by simp
  then have w: "length cs = runeWidth c - 1"
    by (rule validRune_width)
  from Cons have "runes (concat rs) = rs" by simp
  then show ?case
    by (simp add: r w)
qed

lemma validRune_last_ascii:
  assumes "validRune r" and "(of_char (last r) :: nat) < 0x80"
  shows "r = [last r]"
proof (cases r)
  case Nil
  with assms show ?thesis by (simp add: validRune_def)
next
  case (Cons c cs)
  show ?thesis
  proof (cases "(of_char c :: nat) < 0x80")
    case True
    with assms Cons show ?thesis by (simp add: validRune_def)
  next
    case False
    with assms(1) Cons have hi: "0xC0 \<le> (of_char c :: nat)"
      and conts: "list_all (\<lambda>b. 0x80 \<le> (of_char b :: nat) \<and> (of_char b :: nat) < 0xC0) cs"
      by (simp_all add: validRune_def)
    have "0x80 \<le> (of_char (last r) :: nat)"
    proof (cases cs)
      case Nil
      with hi Cons show ?thesis by simp
    next
      case (Cons b bs)
      then have "last r \<in> set cs" using \<open>r = c # cs\<close> by simp
      with conts show ?thesis by (auto simp: list_all_iff)
    qed
    with assms(2) show ?thesis by simp
  qed
qed

lemma ascii_suffix_runes:
  "list_all validRune rs \<Longrightarrow> concat rs = xs @ suf
   \<Longrightarrow> list_all (\<lambda>c. (of_char c :: nat) < 0x80) suf
   \<Longrightarrow> \<exists>rs'. rs = rs' @ map (\<lambda>c. [c]) suf \<and> concat rs' = xs"
proof (induction suf arbitrary: rs rule: rev_induct)
  case Nil
  then show ?case by simp
next
  case (snoc c suf)
  from snoc.prems(2) have ne: "rs \<noteq> []" by auto
  then obtain rs0 q where rs: "rs = rs0 @ [q]"
    by (cases rs rule: rev_cases) simp_all
  from snoc.prems(1) rs have vq: "validRune q" and v0: "list_all validRune rs0"
    by simp_all
  then have qne: "q \<noteq> []" by (auto simp: validRune_def)
  from snoc.prems(2) rs have eq: "concat rs0 @ q = (xs @ suf) @ [c]" by simp
  with qne have lq: "last q = c"
    by (metis last_appendR last_snoc)
  from snoc.prems(3) have "(of_char c :: nat) < 0x80" by simp
  with validRune_last_ascii [OF vq] lq have q: "q = [c]" by simp
  with eq have "concat rs0 = xs @ suf" by simp
  moreover from snoc.prems(3) have "list_all (\<lambda>c. (of_char c :: nat) < 0x80) suf" by simp
  ultimately obtain rs' where "rs0 = rs' @ map (\<lambda>c. [c]) suf" "concat rs' = xs"
    using snoc.IH [OF v0] by blast
  then show ?case
    by (simp add: rs q)
qed

lemma TrimSuffix_runes:
  assumes "list_all validRune (runes v)" and "list_all (\<lambda>c. (of_char c :: nat) < 0x80) suf"
  shows "\<exists>rs' rest. runes v = rs' @ rest \<and> runes (TrimSuffix v suf) = rs'"
proof (cases "HasSuffix v suf")
  case False
  then show ?thesis by (simp add: TrimSuffix_def)
next
  case True
  let ?n = "length v - length suf"
  from True have v: "v = take ?n v @ suf"
    by (metis HasSuffix_def append_take_drop_id)
  then have "concat (runes v) = take ?n v @ suf"
    by (simp add: concat_runes)
  from ascii_suffix_runes [OF assms(1) this assms(2)]
  obtain rs' where rs: "runes v = rs' @ map (\<lambda>c. [c]) suf" "concat rs' = take ?n v"
    by blast
  from assms(1) rs(1) have "list_all validRune rs'" by simp
  then have "runes (take ?n v) = rs'"
    using runes_concat rs(2) by metis
  with True rs(1) show ?thesis
    by (auto simp: TrimSuffix_def)
qed

lemma identRune_not_separator: "identRune U q \<Longrightarrow> \<not> isSeparator U q"
  by (cases q; cases "tl q")
    (auto simp: identRune_def isSeparator_def letterRune_def digitRune_def isASCII_def
      identChar_def split: if_splits)

lemma letterRune_identRune: "validRune r \<Longrightarrow> letterRune U r \<Longrightarrow> identRune U r"
  by (simp add: identRune_def)

lemma titleMap_ident:
  "\<not> isSeparator U prev \<Longrightarrow> list_all (identRune U) rs \<Longrightarrow> titleMap U prev rs = rs"
  by (induction rs arbitrary: prev) (simp_all add: identRune_not_separator)

lemma isSeparator_space: "isSeparator U '' ''"
  by (simp add: isSeparator_def isASCII_def string_tables)

lemma Title_Capitalize:
  assumes "runes s = [] \<or> (identRune U (hd (runes s)) \<and> list_all (identRune U) (tl (runes s)))"
  shows "Title U s = Capitalize U s"
proof (cases "runes s")
  case Nil
  then show ?thesis by (simp add: Title_def Capitalize_def)
next
  case (Cons r rs)
  with assms have "identRune U r" "list_all (identRune U) rs" by simp_all
  then have "titleMap U r rs = rs"
    by (simp add: titleMap_ident identRune_not_separator)
  then show ?thesis
    by (simp add: Title_def Capitalize_def Cons isSeparator_space)
qed

lemma Title_TrimSuffix:
  assumes "isIdent U v" and "list_all (\<lambda>c. (of_char c :: nat) < 0x80) suf"
  shows "Title U (TrimSuffix v suf) = Capitalize U (TrimSuffix v suf)"
proof -
  from assms(1) obtain r rs where rv: "runes v = r # rs"
    and r: "validRune r" "letterRune U r" and rs: "list_all (identRune U) rs"
    by (cases "runes v") (simp_all add: isIdent_def)
  have all: "list_all (identRune U) (runes v)"
    using r rs by (simp add: rv letterRune_identRune)
  then have "list_all validRune (runes v)"
    by (simp add: list_all_iff identRune_def)
  from TrimSuffix_runes [OF this assms(2)]
  obtain rs' rest where p: "runes v = rs' @ rest" "runes (TrimSuffix v suf) = rs'"
    by blast
  from all p(1) have "list_all (identRune U) rs'" by simp
  then have "rs' = [] \<or> (identRune U (hd rs') \<and> list_all (identRune U) (tl rs'))"
    by (cases rs') simp_all
  then show ?thesis
    by (intro Title_Capitalize) (simp add: p(2))
qed

lemma ascii_OpType: "list_all (\<lambda>c. (of_char c :: nat) < 0x80) ''OpType''"
  by simp

lemma Capitalize_ascii:
  "Capitalize U ''ln'' = ''Ln''" "Capitalize U ''Ln'' = ''Ln''"
  "Capitalize U ''mul'' = ''Mul''" "Capitalize U ''Mul'' = ''Mul''"
  "Capitalize U ''div'' = ''Div''" "Capitalize U ''Div'' = ''Div''"
  by (simp_all add: Capitalize_def runeWidth_def ToTitleRune_def isASCII_def string_tables)

text \<open>
  C4, as stated, at the names of the real catalog: with the override table looked up
  by the suffix-stripped form, \<open>lnOpType\<close> (stripped form \<open>ln\<close>) would be named
  \<open>Ln\<close> and \<open>mulOpType\<close> would be named \<open>Mul\<close>; the generator names them \<open>Log\<close>
  and \<open>HadamardProd\<close>, whatever the Unicode tables.
\<close>

theorem normalizer_override_counterexample:
  "\<forall>U. isIdent U ''lnOpType'' \<and> TrimSuffix ''lnOpType'' ''OpType'' = ''ln''
     \<and> unaryApiName U ''lnOpType'' = ''Log'' \<and> unaryPublicName_spec U ''lnOpType'' = ''Ln''
     \<and> binaryApiName U ''mulOpType'' = ''HadamardProd''
     \<and> binaryPublicName_spec U ''mulOpType'' = ''Mul''"
  by (simp add: isIdent_def unaryApiName_def unaryPublicName_spec_def binaryApiName_def
      binaryPublicName_spec_def string_funs rune_funs string_tables)

text \<open>
  C4, amended. For every internal name that is an identifier of Go, in any script,
  the public name is the capitalized suffix-stripped name (its first rune in title
  case), except that the override table is looked up with the capitalized form: a
  unary name whose stripped form capitalizes to \<open>Ln\<close> (as \<open>ln\<close> and \<open>Ln\<close> do)
  becomes \<open>Log\<close>, a binary one whose stripped form capitalizes to \<open>Mul\<close> or \<open>Div\<close>
  becomes \<open>HadamardProd\<close> or \<open>HadamardDiv\<close>. This differs from a lookup with the
  stripped form exactly when the stripped form is not itself a key of the table but
  capitalizes to one, as \<open>ln\<close>, \<open>mul\<close> and \<open>div\<close> do. The normalizer is a total
  function of the name and of the Unicode tables.
\<close>

theorem normalizer_names:
  assumes "isIdent U v"
  shows
  "unaryApiName U v =
     (if Capitalize U (TrimSuffix v ''OpType'') = ''Ln'' then ''Log''
      else Capitalize U (TrimSuffix v ''OpType''))
   \<and> binaryApiName U v =
     (if Capitalize U (TrimSuffix v ''OpType'') = ''Mul'' then ''HadamardProd''
      else if Capitalize U (TrimSuffix v ''OpType'') = ''Div'' then ''HadamardDiv''
      else Capitalize U (TrimSuffix v ''OpType''))
   \<and> (TrimSuffix v ''OpType'' \<in> {''ln'', ''Ln''} \<longrightarrow> unaryApiName U v = ''Log'')
   \<and> (TrimSuffix v ''OpType'' \<in> {''mul'', ''Mul''} \<longrightarrow> binaryApiName U v = ''HadamardProd'')
   \<and> (TrimSuffix v ''OpType'' \<in> {''div'', ''Div''} \<longrightarrow> binaryApiName U v = ''HadamardDiv'')
   \<and> (unaryApiName U v = unaryPublicName_spec U v
        \<longleftrightarrow> \<not> (Capitalize U (TrimSuffix v ''OpType'') = ''Ln''
                \<and> TrimSuffix v ''OpType'' \<noteq> ''Ln''))
   \<and> (binaryApiName U v = binaryPublicName_spec U v
        \<longleftrightarrow> \<not> (Capitalize U (TrimSuffix v ''OpType'') = ''Mul''
                  \<and> TrimSuffix v ''OpType'' \<noteq> ''Mul''
                \<or> Capitalize U (TrimSuffix v ''OpType'') = ''Div''
                  \<and> TrimSuffix v ''OpType'' \<noteq> ''Div''))"
proof -
  let ?s = "TrimSuffix v ''OpType''"
  let ?C = "Capitalize U ?s"
  have t: "Title U ?s = ?C"
    by (rule Title_TrimSuffix [OF assms ascii_OpType])
  have u: "unaryApiName U v = (if ?C = ''Ln'' then ''Log'' else ?C)"
    by (simp add: unaryApiName_def t)
  have b: "binaryApiName U v =
     (if ?C = ''Mul'' then ''HadamardProd''
      else if ?C = ''Div'' then ''HadamardDiv'' else ?C)"
    by (simp add: binaryApiName_def t)
  have 3: "?s \<in> {''ln'', ''Ln''} \<longrightarrow> unaryApiName U v = ''Log''"
    by (auto simp: u Capitalize_ascii)
  have 4: "?s \<in> {''mul'', ''Mul''} \<longrightarrow> binaryApiName U v = ''HadamardProd''"
    by (auto simp: b Capitalize_ascii)
  have 5: "?s \<in> {''div'', ''Div''} \<longrightarrow> binaryApiName U v = ''HadamardDiv''"
    by (auto simp: b Capitalize_ascii)
  have 6: "unaryApiName U v = unaryPublicName_spec U v
        \<longleftrightarrow> \<not> (?C = ''Ln'' \<and> ?s \<noteq> ''Ln'')"
  proof (cases "?s = ''Ln''")
    case True
    then show ?thesis by (simp add: u unaryPublicName_spec_def Capitalize_ascii)
  next
    case False
    then show ?thesis by (auto simp: u unaryPublicName_spec_def)
  qed
  have 7: "binaryApiName U v = binaryPublicName_spec U v
        \<longleftrightarrow> \<not> (?C = ''Mul'' \<and> ?s \<noteq> ''Mul'' \<or> ?C = ''Div'' \<and> ?s \<noteq> ''Div'')"
  proof (cases "?s = ''Mul'' \<or> ?s = ''Div''")
    case True
    then show ?thesis by (auto simp: b binaryPublicName_spec_def Capitalize_ascii)
  next
    case False
    then show ?thesis by (auto simp: b binaryPublicName_spec_def)
  qed
  show ?thesis
    by (intro conjI) (rule u b 3 4 5 6 7)+
qed

theorem normalizer_names_witness:
  "isIdent latin1 ''lnOpType'' \<and> unaryApiName latin1 ''lnOpType'' = ''Log''
   \<and> isIdent latin1 ''divOpType'' \<and> binaryApiName latin1 ''divOpType'' = ''HadamardDiv''
   \<and> isIdent latin1 ''absOpType'' \<and> unaryApiName latin1 ''absOpType'' = ''Abs''
   \<and> unaryApiName latin1 ''absOpType'' = unaryPublicName_spec latin1 ''absOpType''
   \<and> isIdent latin1 (CHR 0xC3 # CHR 0xA9 # ''OpType'')
   \<and> unaryApiName latin1 (CHR 0xC3 # CHR 0xA9 # ''OpType'') = [CHR 0xC3, CHR 0x89]"
proof -
  let ?e = "CHR 0xC3 # CHR 0xA9 # ''OpType''"
  have i: "isIdent latin1 ''lnOpType''" "isIdent latin1 ''divOpType''"
    "isIdent latin1 ''absOpType''" "isIdent latin1 ?e"
    by (simp_all add: isIdent_def rune_funs string_tables latin1_def)
  have s: "TrimSuffix ''lnOpType'' ''OpType'' = ''ln''"
    "TrimSuffix ''divOpType'' ''OpType'' = ''div''"
    "TrimSuffix ''absOpType'' ''OpType'' = ''abs''"
    "TrimSuffix ?e ''OpType'' = [CHR 0xC3, CHR 0xA9]"
    by (simp_all add: TrimSuffix_def HasSuffix_def)
  have c: "Capitalize latin1 ''abs'' = ''Abs''"
    "Capitalize latin1 [CHR 0xC3, CHR 0xA9] = [CHR 0xC3, CHR 0x89]"
    by (simp_all add: Capitalize_def runeWidth_def ToTitleRune_def isASCII_def string_tables
        latin1_def)
  note ca = Capitalize_ascii [of latin1]
  from normalizer_names [OF i(1)] have "unaryApiName latin1 ''lnOpType'' = ''Log''"
    by (simp add: s ca)
  moreover from normalizer_names [OF i(2)]
  have "binaryApiName latin1 ''divOpType'' = ''HadamardDiv''"
    by (simp add: s ca)
  moreover from normalizer_names [OF i(3)] have "unaryApiName latin1 ''absOpType'' = ''Abs''"
    "unaryApiName latin1 ''absOpType'' = unaryPublicName_spec latin1 ''absOpType''"
    by (auto simp: s c)
  moreover from normalizer_names [OF i(4)]
  have "unaryApiName latin1 ?e = [CHR 0xC3, CHR 0x89]"
    by (simp add: s c)
  ultimately show ?thesis using i by simp
qed

subsection \<open>The template emitter\<close>

lemma Execute_unary_fields:
  "Execute U bufferWrite unaryTemplate wr [(''FnName'', S fn), (''OpType'', S opc)]
     = (wr @ unaryRendered U fn opc, None)"
  by (simp add: Execute_def unaryTemplate_def unaryRendered_def bufferWrite_def)

lemma Execute_binary_fields:
  "Execute U bufferWrite binaryTemplate wr
       [(''FnName'', S fn), (''OpType'', S opc), (''AsSame'', B flag)]
     = (wr @ binaryComment U fn
          @ (if flag then retSameComment @ funcWithFlag fn opc else funcDirect fn opc)
          @ operationFactory fn opc, None)"
  by (simp add: Execute_def binaryTemplate_def binaryComment_def retSameComment_def
      funcWithFlag_def funcDirect_def operationFactory_def bufferWrite_def)

lemma Execute_unary:
  "Execute U bufferWrite unaryTemplate wr (unaryData U v)
     = (wr @ unaryRendered U (unaryApiName U v) v, None)"
  by (simp only: unaryData_def Execute_unary_fields)

lemma Execute_binary:
  "Execute U bufferWrite binaryTemplate wr (binaryData U v)
     = (wr @ binaryComment U (binaryApiName U v)
          @ (if binaryAsSame (binaryApiName U v)
             then retSameComment @ funcWithFlag (binaryApiName U v) v
             else funcDirect (binaryApiName U v) v)
          @ operationFactory (binaryApiName U v) v, None)"
  by (simp only: binaryData_def Let_def Execute_binary_fields)

text \<open>
  C5. The flag \<open>AsSame\<close> of a binary descriptor is true exactly when its public name
  is one of \<open>Lt\<close>, \<open>Gt\<close>, \<open>Lte\<close>, \<open>Gte\<close>, \<open>Eq\<close>, \<open>Ne\<close>. For any descriptor the
  binary template renders the comment, the function and the factory, and the flag
  alone chooses the function: when true, the function with the parameter \<open>retSame\<close>
  that stores it in \<open>op.retSame\<close> and then delegates to \<open>binOpNode\<close>; when false, the
  function with no extra parameter that delegates at once. The text is what reaches a
  writer that takes all it is given.
\<close>

theorem binary_flag_shape:
  "(map_of (binaryData U v) ''AsSame'' = Some (B True)
      \<longleftrightarrow> binaryApiName U v \<in> {''Lt'', ''Gt'', ''Lte'', ''Gte'', ''Eq'', ''Ne''})
   \<and> map_of (binaryData U v) ''AsSame''
       = Some (B (binaryApiName U v \<in> {''Lt'', ''Gt'', ''Lte'', ''Gte'', ''Eq'', ''Ne''}))
   \<and> map_of (binaryData U v) ''FnName'' = Some (S (binaryApiName U v))
   \<and> map_of (binaryData U v) ''OpType'' = Some (S v)
   \<and> Execute U bufferWrite binaryTemplate wr
         [(''FnName'', S fn), (''OpType'', S opc), (''AsSame'', B True)]
       = (wr @ binaryComment U fn @ retSameComment @ funcWithFlag fn opc
            @ operationFactory fn opc, None)
   \<and> Execute U bufferWrite binaryTemplate wr
         [(''FnName'', S fn), (''OpType'', S opc), (''AsSame'', B False)]
       = (wr @ binaryComment U fn @ funcDirect fn opc @ operationFactory fn opc, None)
   \<and> Execute U bufferWrite binaryTemplate wr (binaryData U v)
       = (wr @ binaryComment U (binaryApiName U v)
            @ (if binaryApiName U v \<in> {''Lt'', ''Gt'', ''Lte'', ''Gte'', ''Eq'', ''Ne''}
               then retSameComment @ funcWithFlag (binaryApiName U v) v
               else funcDirect (binaryApiName U v) v)
            @ operationFactory (binaryApiName U v) v, None)"
proof -
  have flag: "binaryAsSame n \<longleftrightarrow> n \<in> {''Lt'', ''Gt'', ''Lte'', ''Gte'', ''Eq'', ''Ne''}" for n
    unfolding binaryAsSame_def by simp
  have 1: "map_of (binaryData U v) ''AsSame''
       = Some (B (binaryApiName U v \<in> {''Lt'', ''Gt'', ''Lte'', ''Gte'', ''Eq'', ''Ne''}))"
    unfolding binaryData_def Let_def flag by simp
  have 2: "map_of (binaryData U v) ''FnName'' = Some (S (binaryApiName U v))"
    and 3: "map_of (binaryData U v) ''OpType'' = Some (S v)"
    unfolding binaryData_def Let_def by simp_all
  have 0: "map_of (binaryData U v) ''AsSame'' = Some (B True)
      \<longleftrightarrow> binaryApiName U v \<in> {''Lt'', ''Gt'', ''Lte'', ''Gte'', ''Eq'', ''Ne''}"
    unfolding 1 by simp
  have 4: "Execute U bufferWrite binaryTemplate wr
       [(''FnName'', S fn), (''OpType'', S opc), (''AsSame'', B True)]
       = (wr @ binaryComment U fn @ retSameComment @ funcWithFlag fn opc
            @ operationFactory fn opc, None)"
    by (simp only: Execute_binary_fields if_True append_assoc)
  have 5: "Execute U bufferWrite binaryTemplate wr
       [(''FnName'', S fn), (''OpType'', S opc), (''AsSame'', B False)]
       = (wr @ binaryComment U fn @ funcDirect fn opc @ operationFactory fn opc, None)"
    by (simp only: Execute_binary_fields if_False)
  note 6 = Execute_binary [of U wr v, unfolded flag]
  show ?thesis
    by (intro conjI) (rule 0 1 2 3 4 5 6)+
qed

theorem binary_flag_shape_witness:
  "\<forall>U. binaryApiName U ''ltOpType'' = ''Lt''
   \<and> map_of (binaryData U ''ltOpType'') ''AsSame'' = Some (B True)
   \<and> Execute U bufferWrite binaryTemplate [] (binaryData U ''ltOpType'')
       = (binaryComment U ''Lt'' @ retSameComment @ funcWithFlag ''Lt'' ''ltOpType''
            @ operationFactory ''Lt'' ''ltOpType'', None)
   \<and> binaryApiName U ''addOpType'' = ''Add''
   \<and> map_of (binaryData U ''addOpType'') ''AsSame'' = Some (B False)
   \<and> Execute U bufferWrite binaryTemplate [] (binaryData U ''addOpType'')
       = (binaryComment U ''Add'' @ funcDirect ''Add'' ''addOpType''
            @ operationFactory ''Add'' ''addOpType'', None)"
proof
  fix U
  have n: "binaryApiName U ''ltOpType'' = ''Lt''" "binaryApiName U ''addOpType'' = ''Add''"
    by (simp_all add: binaryApiName_def string_funs rune_funs string_tables)
  note a = binary_flag_shape [of U "''ltOpType''" "[]", unfolded n]
  note b = binary_flag_shape [of U "''addOpType''" "[]", unfolded n]
  from a have "map_of (binaryData U ''ltOpType'') ''AsSame'' = Some (B True)"
    "Execute U bufferWrite binaryTemplate [] (binaryData U ''ltOpType'')
       = (binaryComment U ''Lt'' @ retSameComment @ funcWithFlag ''Lt'' ''ltOpType''
            @ operationFactory ''Lt'' ''ltOpType'', None)"
    by simp_all
  moreover from b have "map_of (binaryData U ''addOpType'') ''AsSame'' = Some (B False)"
    "Execute U bufferWrite binaryTemplate [] (binaryData U ''addOpType'')
       = (binaryComment U ''Add'' @ funcDirect ''Add'' ''addOpType''
            @ operationFactory ''Add'' ''addOpType'', None)"
    by simp_all
  ultimately show "binaryApiName U ''ltOpType'' = ''Lt''
   \<and> map_of (binaryData U ''ltOpType'') ''AsSame'' = Some (B True)
   \<and> Execute U bufferWrite binaryTemplate [] (binaryData U ''ltOpType'')
       = (binaryComment U ''Lt'' @ retSameComment @ funcWithFlag ''Lt'' ''ltOpType''
            @ operationFactory ''Lt'' ''ltOpType'', None)
   \<and> binaryApiName U ''addOpType'' = ''Add''
   \<and> map_of (binaryData U ''addOpType'') ''AsSame'' = Some (B False)
   \<and> Execute U bufferWrite binaryTemplate [] (binaryData U ''addOpType'')
       = (binaryComment U ''Add'' @ funcDirect ''Add'' ''addOpType''
            @ operationFactory ''Add'' ''addOpType'', None)"
    using n by simp
qed

text \<open>
  C8. Rendering is meant to be fatal when it fails, as a failure to parse the source
  or to open the output is. The two passes at an output file with room for ten more
  bytes, on a catalog of two operators: the first \<open>Execute\<close> fails with a write error
  after ten bytes, the pass drops the error, goes on to the second operator, whose
  rendering fails too, and returns as after a success, where a source that does not
  parse ends the process. On a writer that takes all it is given, rendering is the
  substitution of the descriptor into the text and returns no error: the passes'
  own descriptors have every field that their template names.
\<close>

theorem emitter_error_dropped:
  "\<forall>U. Execute U fileWrite unaryTemplate \<lparr>written = [], room = 10\<rparr> (unaryData U ''absOpType'')
       = (\<lparr>written = '' // Abs pe'', room = 0\<rparr>, Some WriteError)
   \<and> generateUnary U
       (Inr [GenDecl TokCONST [ValueSpec [''absOpType''] (Some (Ident unaryAccept)),
                               ValueSpec [''signOpType''] None]])
       \<lparr>written = [], room = 10\<rparr>
     = Inr \<lparr>written = '' // Abs pe'', room = 0\<rparr>
   \<and> generateBinary U
       (Inr [GenDecl TokCONST [ValueSpec [''addOpType''] (Some (Ident binaryAccept)),
                               ValueSpec [''ltOpType''] None]])
       \<lparr>written = [], room = 10\<rparr>
     = Inr \<lparr>written = ''// Add per'', room = 0\<rparr>
   \<and> generateUnary U (Inl ParseError) \<lparr>written = [], room = 10\<rparr> = Inl Fatal
   \<and> generateBinary U (Inl ParseError) \<lparr>written = [], room = 10\<rparr> = Inl Fatal
   \<and> (\<forall>wr v. Execute U bufferWrite unaryTemplate wr (unaryData U v)
          = (wr @ unaryRendered U (unaryApiName U v) v, None))
   \<and> (\<forall>wr v. Execute U bufferWrite binaryTemplate wr (binaryData U v)
          = (wr @ binaryRendered U (binaryApiName U v) v (binaryAsSame (binaryApiName U v)),
             None))"
proof
  fix U
  have n: "unaryApiName U ''absOpType'' = ''Abs''" "unaryApiName U ''signOpType'' = ''Sign''"
    "binaryApiName U ''addOpType'' = ''Add''" "binaryApiName U ''ltOpType'' = ''Lt''"
    by (simp_all add: unaryApiName_def binaryApiName_def string_funs rune_funs string_tables)
  have u: "Execute U fileWrite unaryTemplate \<lparr>written = [], room = 10\<rparr>
        [(''FnName'', S ''Abs''), (''OpType'', S opc)]
      = (\<lparr>written = '' // Abs pe'', room = 0\<rparr>, Some WriteError)" for opc
    by (simp add: Execute_def unaryTemplate_def fileWrite_def)
  have u0: "Execute U fileWrite unaryTemplate \<lparr>written = w, room = 0\<rparr> d
      = (\<lparr>written = w, room = 0\<rparr>, Some WriteError)" for w d
    by (simp add: Execute_def unaryTemplate_def fileWrite_def)
  have b: "Execute U fileWrite binaryTemplate \<lparr>written = [], room = 10\<rparr>
        [(''FnName'', S ''Add''), (''OpType'', S opc), (''AsSame'', B flag)]
      = (\<lparr>written = ''// Add per'', room = 0\<rparr>, Some WriteError)" for opc flag
    by (simp add: Execute_def binaryTemplate_def fileWrite_def)
  have b0: "Execute U fileWrite binaryTemplate \<lparr>written = w, room = 0\<rparr> d
      = (\<lparr>written = w, room = 0\<rparr>, Some WriteError)" for w d
    by (simp add: Execute_def binaryTemplate_def fileWrite_def)
  have cu: "constTypes [GenDecl TokCONST [ValueSpec [''absOpType''] (Some (Ident unaryAccept)),
                               ValueSpec [''signOpType''] None]] unaryAccept unaryMax
      = Inr [''absOpType'', ''signOpType'']"
    by (simp add: constTypes_def index_def unaryMax_def)
  have cb: "constTypes [GenDecl TokCONST [ValueSpec [''addOpType''] (Some (Ident binaryAccept)),
                               ValueSpec [''ltOpType''] None]] binaryAccept binaryMax
      = Inr [''addOpType'', ''ltOpType'']"
    by (simp add: constTypes_def index_def binaryMax_def)
  have 1: "Execute U fileWrite unaryTemplate \<lparr>written = [], room = 10\<rparr>
        (unaryData U ''absOpType'')
       = (\<lparr>written = '' // Abs pe'', room = 0\<rparr>, Some WriteError)"
    by (simp only: unaryData_def n u)
  have 2: "generateUnary U
       (Inr [GenDecl TokCONST [ValueSpec [''absOpType''] (Some (Ident unaryAccept)),
                               ValueSpec [''signOpType''] None]])
       \<lparr>written = [], room = 10\<rparr>
     = Inr \<lparr>written = '' // Abs pe'', room = 0\<rparr>"
    by (simp add: generateUnary_def cu 1 u0)
  have 3: "generateBinary U
       (Inr [GenDecl TokCONST [ValueSpec [''addOpType''] (Some (Ident binaryAccept)),
                               ValueSpec [''ltOpType''] None]])
       \<lparr>written = [], room = 10\<rparr>
     = Inr \<lparr>written = ''// Add per'', room = 0\<rparr>"
    by (simp add: generateBinary_def cb binaryData_def Let_def n b b0)
  have 4: "generateUnary U (Inl ParseError) \<lparr>written = [], room = 10\<rparr> = Inl Fatal"
    and 5: "generateBinary U (Inl ParseError) \<lparr>written = [], room = 10\<rparr> = Inl Fatal"
    by (simp_all add: generateUnary_def generateBinary_def)
  have 6: "\<forall>wr v. Execute U bufferWrite unaryTemplate wr (unaryData U v)
          = (wr @ unaryRendered U (unaryApiName U v) v, None)"
    by (simp only: Execute_unary) simp
  have 7: "\<forall>wr v. Execute U bufferWrite binaryTemplate wr (binaryData U v)
          = (wr @ binaryRendered U (binaryApiName U v) v (binaryAsSame (binaryApiName U v)),
             None)"
    by (simp only: Execute_binary binaryRendered_def) simp
  show "Execute U fileWrite unaryTemplate \<lparr>written = [], room = 10\<rparr> (unaryData U ''absOpType'')
       = (\<lparr>written = '' // Abs pe'', room = 0\<rparr>, Some WriteError)
   \<and> generateUnary U
       (Inr [GenDecl TokCONST [ValueSpec [''absOpType''] (Some (Ident unaryAccept)),
                               ValueSpec [''signOpType''] None]])
       \<lparr>written = [], room = 10\<rparr>
     = Inr \<lparr>written = '' // Abs pe'', room = 0\<rparr>
   \<and> generateBinary U
       (Inr [GenDecl TokCONST [ValueSpec [''addOpType''] (Some (Ident binaryAccept)),
                               ValueSpec [''ltOpType''] None]])
       \<lparr>written = [], room = 10\<rparr>
     = Inr \<lparr>written = ''// Add per'', room = 0\<rparr>
   \<and> generateUnary U (Inl ParseError) \<lparr>written = [], room = 10\<rparr> = Inl Fatal
   \<and> generateBinary U (Inl ParseError) \<lparr>written = [], room = 10\<rparr> = Inl Fatal
   \<and> (\<forall>wr v. Execute U bufferWrite unaryTemplate wr (unaryData U v)
          = (wr @ unaryRendered U (unaryApiName U v) v, None))
   \<and> (\<forall>wr v. Execute U bufferWrite binaryTemplate wr (binaryData U v)
          = (wr @ binaryRendered U (binaryApiName U v) v (binaryAsSame (binaryApiName U v)),
             None))"
    by (intro conjI) (rule 1 2 3 4 5 6 7)+
qed

section \<open>Properties of the kernel matrix\<close>

lemma kernelMatrix_filter: "kernelMatrix = filter capable allVariants"
  by (simp add: kernelMatrix_def allVariants_def capable_def orderable_def hasSameKind_def)

lemma kernelMatrix_names: "map kernelName kernelMatrix = kernelNames"
  by (simp add: kernelMatrix_def kernelNames_def)

lemma allVariants_all: "v \<in> set allVariants"
proof -
  obtain c k sh rk where v: "v = (c, k, sh, rk)" by (cases v)
  show ?thesis
    unfolding v allVariants_def
    by (cases c; cases k; cases sh; cases rk) simp_all
qed

lemma kernelMatrix_iff: "v \<in> set kernelMatrix \<longleftrightarrow> capable v"
  by (simp add: kernelMatrix_filter allVariants_all)

text \<open>
  C6, as stated, with the pointer kinds of the type catalog (the pointer-sized integer
  and the opaque pointer): \<open>gtDDBoolsUintptr\<close> is a generated function, an ordering
  kernel for a pointer kind.
\<close>

theorem kernel_matrix_uintptr_counterexample:
  "(Gt, K_Uintptr, DD, Bools) \<in> set kernelMatrix
   \<and> kernelName (Gt, K_Uintptr, DD, Bools) = ''gtDDBoolsUintptr''
   \<and> ''gtDDBoolsUintptr'' \<in> set kernelNames
   \<and> isOrdering Gt \<and> K_Uintptr \<in> set pointerKinds"
proof -
  have "(Gt, K_Uintptr, DD, Bools) \<in> set kernelMatrix"
    by (simp add: kernelMatrix_iff capable_def orderable_def)
  moreover have "''gtDDBoolsUintptr'' \<in> set kernelNames"
    by (simp add: kernelNames_def)
  ultimately show ?thesis
    by (simp add: pointerKinds_def)
qed

text \<open>
  C6, amended. The generated functions are exactly the combinations of operator,
  kind, shape and result kind in which an ordering operator comes with an orderable
  kind and a same-type result with a kind that has one, in the order of the file. So
  no ordering kernel exists for the complex, boolean and opaque-pointer kinds, and no
  same-type-indicator kernel for the boolean, string, pointer-sized-integer and
  opaque-pointer kinds; the pointer-sized integer has every ordering kernel in its
  boolean-mask form.
\<close>

theorem kernel_matrix_capabilities:
  "kernelMatrix = filter capable allVariants
   \<and> map kernelName kernelMatrix = kernelNames
   \<and> (\<forall>(c, k, sh, rk) \<in> set kernelMatrix.
        (isOrdering c \<longrightarrow> k \<notin> set complexKinds \<and> k \<noteq> K_B \<and> k \<noteq> K_UnsafePointer)
        \<and> (rk = Same \<longrightarrow> k \<noteq> K_B \<and> k \<noteq> K_Str \<and> k \<notin> set pointerKinds))
   \<and> (\<forall>c sh. (c, K_Uintptr, sh, Bools) \<in> set kernelMatrix)"
proof -
  have 3: "\<forall>(c, k, sh, rk) \<in> set kernelMatrix.
        (isOrdering c \<longrightarrow> k \<notin> set complexKinds \<and> k \<noteq> K_B \<and> k \<noteq> K_UnsafePointer)
        \<and> (rk = Same \<longrightarrow> k \<noteq> K_B \<and> k \<noteq> K_Str \<and> k \<notin> set pointerKinds)"
    by (auto simp: kernelMatrix_iff capable_def orderable_def hasSameKind_def
        complexKinds_def pointerKinds_def)
  have 4: "\<forall>c sh. (c, K_Uintptr, sh, Bools) \<in> set kernelMatrix"
    by (simp add: kernelMatrix_iff capable_def orderable_def)
  show ?thesis
    by (intro conjI) (rule kernelMatrix_filter kernelMatrix_names 3 4)+
qed

theorem kernel_matrix_capabilities_witness:
  "(Lt, K_Str, DS, Bools) \<in> set kernelMatrix \<and> isOrdering Lt
   \<and> K_Str \<notin> set complexKinds \<and> K_Str \<noteq> K_B \<and> K_Str \<noteq> K_UnsafePointer
   \<and> (Eq, K_C128, DD, Same) \<in> set kernelMatrix
   \<and> K_C128 \<noteq> K_B \<and> K_C128 \<noteq> K_Str \<and> K_C128 \<notin> set pointerKinds
   \<and> (Gte, K_Uintptr, DS, Bools) \<in> set kernelMatrix"
proof -
  note k = kernel_matrix_capabilities
  have m1: "(Lt, K_Str, DS, Bools) \<in> set (filter capable allVariants)"
    and m2: "(Eq, K_C128, DD, Same) \<in> set (filter capable allVariants)"
    by (simp_all add: allVariants_all capable_def orderable_def hasSameKind_def)
  from k m1 m2 have i1: "(Lt, K_Str, DS, Bools) \<in> set kernelMatrix"
    and i2: "(Eq, K_C128, DD, Same) \<in> set kernelMatrix"
    by simp_all
  from k have b: "\<forall>(c, k, sh, rk) \<in> set kernelMatrix.
        (isOrdering c \<longrightarrow> k \<notin> set complexKinds \<and> k \<noteq> K_B \<and> k \<noteq> K_UnsafePointer)
        \<and> (rk = Same \<longrightarrow> k \<noteq> K_B \<and> k \<noteq> K_Str \<and> k \<notin> set pointerKinds)"
    and u: "\<forall>c sh. (c, K_Uintptr, sh, Bools) \<in> set kernelMatrix"
    by blast+
  from b i1 have "K_Str \<notin> set complexKinds \<and> K_Str \<noteq> K_B \<and> K_Str \<noteq> K_UnsafePointer"
    by fastforce
  moreover from b i2 have "K_C128 \<noteq> K_B \<and> K_C128 \<noteq> K_Str \<and> K_C128 \<notin> set pointerKinds"
    by fastforce
  ultimately show ?thesis
    using i1 i2 u by simp
qed

end
